theory Spec2Isabelle
  imports Complex_Main
begin

section \<open>SafeTrace backend: data model\<close>

text \<open>
  A shallow embedding of the safety evaluation pipeline of the SafeTrace backend
  (\<^verbatim>\<open>internal/services\<close>, \<^verbatim>\<open>internal/database\<close>, \<^verbatim>\<open>internal/handlers\<close>,
  \<^verbatim>\<open>internal/models\<close>).

  Conventions of the embedding:
  \<^item> \<^verbatim>\<open>time.Time\<close> is an integer: nanoseconds since Go's zero instant
    (January 1, year 1, 00:00:00 UTC), so \<^verbatim>\<open>t.IsZero()\<close> is \<open>t = 0\<close>.
    \<^verbatim>\<open>time.Duration\<close> is an integer number of nanoseconds in the signed 64-bit range.
  \<^item> Every read of a clock is an argument of its own: \<^verbatim>\<open>time.Now()\<close> and
    \<^verbatim>\<open>time.Since\<close> of the server, \<^verbatim>\<open>NOW()\<close> of PostgreSQL, and the clock by which
    Redis expires keys. A function that reads more than once takes a record with one
    instant for each read (\<open>clock\<close>, \<open>sms_clock\<close>); nothing is assumed about their order
    beyond what a theorem states. \<^verbatim>\<open>uuid.New()\<close> is an argument too (\<open>new_id\<close>).
  \<^item> An instant carries no zone: the server, the database session and the senders of
    timestamps are taken to use UTC, where the wall clock reading that a
    \<^verbatim>\<open>TIMESTAMP\<close> column keeps is the instant.
  \<^item> \<^verbatim>\<open>float64\<close> is \<open>real\<close>: no NaN, no infinities, no rounding. The one place where
    rounding decides a result, \<^verbatim>\<open>int(d.Minutes())\<close>, takes \<^verbatim>\<open>Minutes\<close> from the library
    record below.
  \<^item> \<^verbatim>\<open>uuid.UUID\<close> is a natural number (the 128-bit value), \<^verbatim>\<open>uuid.Nil\<close> is \<open>0\<close>.
  \<^item> PostgreSQL tables are lists of rows in insertion order, with the keys, checks and
    column types of the migrations; Redis keys are maps that carry the instant at which
    the key expires.
  \<^item> A failing database or cache is a flag of the world, fixed while one function runs:
    \<open>pg_ok\<close> (the database answers), \<open>redis_ok\<close> (the cache answers reads) and
    \<open>redis_writable\<close> (the cache accepts writes; a read-only replica or a full instance
    answers reads and refuses writes). Every \<^verbatim>\<open>if err != nil\<close> of the source is a
    branch, and an error the source drops is dropped.
  \<^item> Fields that no modelled function reads are left out of \<open>User\<close> (settings, row
    timestamps) and \<open>Config\<close>, and with them the length limits of the columns of the
    users table. JSON encoding of the cached state is taken to succeed and to be exact
    (\<^verbatim>\<open>MarshalJSON\<close> of a time fails outside the years 0 to 9999, which no timestamp in
    RFC 3339 leaves).
\<close>

type_synonym UUID = nat
type_synonym Time = int
type_synonym Duration = int

definition Millisecond :: Duration where
  "Millisecond = 1000000"

definition Second :: Duration where
  "Second = 1000000000"

definition Minute :: Duration where
  "Minute = 60 * Second"

definition Hour :: Duration where
  "Hour = 60 * Minute"

definition wrap64 :: "int \<Rightarrow> int" where
  \<comment> \<open>two's complement wrap-around of a signed 64-bit integer\<close>
  "wrap64 x = (x + 2 ^ 63) mod 2 ^ 64 - 2 ^ 63"

definition time_Sub :: "Time \<Rightarrow> Time \<Rightarrow> Duration" where
  \<comment> \<open>\<^verbatim>\<open>t.Sub(u)\<close>: the difference, saturated at the largest and smallest Duration\<close>
  "time_Sub t u = max (- (2 ^ 63)) (min (2 ^ 63 - 1) (t - u))"

definition time_Since :: "Time \<Rightarrow> Time \<Rightarrow> Duration" where
  \<comment> \<open>\<^verbatim>\<open>time.Since(t)\<close> read at the instant \<open>now\<close>\<close>
  "time_Since now t = time_Sub now t"

record CellInfo =
  ci_MCC :: int
  ci_MNC :: int
  ci_CID :: int
  ci_LAC :: int
  ci_RSSI :: int
  ci_NetworkType :: string
  ci_Neighbors :: "(int \<times> int) list"

record Heartbeat =
  hb_ID :: UUID
  hb_UserID :: UUID
  hb_Source :: string
  hb_Lat :: real
  hb_Lng :: real
  hb_AccuracyM :: int
  hb_CellInfo :: CellInfo
  hb_BatteryPct :: "int option"
  hb_Speed :: "real option"
  hb_LastGasp :: bool
  hb_Timestamp :: Time
  hb_Signature :: string
  hb_CreatedAt :: Time

record LastGasp =
  lg_ID :: UUID
  lg_UserID :: UUID
  lg_Lat :: real
  lg_Lng :: real
  lg_AccuracyM :: int
  lg_CellInfo :: CellInfo
  lg_CreatedAt :: Time
  lg_ExpiryTs :: Time

record Alert =
  al_ID :: UUID
  al_UserID :: UUID
  al_State :: string
  al_Score :: int
  al_Reason :: string
  al_SentTo :: "string list"
  al_CreatedAt :: Time
  al_ResolvedAt :: "Time option"

record Contact =
  c_ID :: string
  c_Name :: string
  c_Phone :: string

record User =
  u_ID :: UUID
  u_Phone :: string
  u_Name :: string
  u_TrustedContacts :: "Contact list"

record UserState =
  us_UserID :: UUID
  us_State :: string
  us_Score :: int
  us_LastHeartbeat :: Time
  us_LastGaspActive :: bool
  us_LastGaspExpiry :: "Time option"
  us_UpdatedAt :: Time

record EvaluationResult =
  er_State :: string
  er_Score :: int
  er_Reason :: string

record Config =
  HMACSecret :: string
  HeartbeatWindowSeconds :: int
  LastGaspTimeoutSeconds :: int

definition default_Config :: Config where
  \<comment> \<open>the defaults of \<^verbatim>\<open>config.Load\<close>; the secret has no default and is a sample\<close>
  "default_Config =
     \<lparr>HMACSecret = ''secret'', HeartbeatWindowSeconds = 600, LastGaspTimeoutSeconds = 3600\<rparr>"

definition StateSafe :: string where "StateSafe = ''SAFE''"
definition StateCaution :: string where "StateCaution = ''CAUTION''"
definition StateAtRisk :: string where "StateAtRisk = ''AT_RISK''"
definition StateAlert :: string where "StateAlert = ''ALERT''"
definition StateWaitLastGasp :: string where "StateWaitLastGasp = ''WAIT_LASTGASP''"

datatype error =
  PostgresError
  | RedisError
  | NilPointerPanic
  | LibError string
  | Errorf string
  | Wrap string error

text \<open>
  What the program calls outside the repository: \<^verbatim>\<open>github.com/google/uuid\<close>, the
  \<^verbatim>\<open>time\<close> package with the layout \<^verbatim>\<open>time.RFC3339\<close> and the float64 that
  \<^verbatim>\<open>Duration.Minutes\<close> computes, \<^verbatim>\<open>strconv.ParseFloat(s, 64)\<close>,
  the verbs \<^verbatim>\<open>%.6f\<close> and \<^verbatim>\<open>%.1f\<close> of \<^verbatim>\<open>fmt\<close>, and HMAC-SHA256 followed by
  base64 (key first, then data). The functions of the program take them as a record;
  \<open>None\<close> is a returned error. Nothing is assumed about them: what a theorem needs
  of the library is a hypothesis of that theorem.
\<close>

record golib =
  uuid_Parse :: "string \<Rightarrow> UUID option"
  uuid_String :: "UUID \<Rightarrow> string"
  time_Parse :: "string \<Rightarrow> Time option"
  time_Format :: "Time \<Rightarrow> string"
  Minutes :: "Duration \<Rightarrow> real"
  ParseFloat :: "string \<Rightarrow> real option"
  Sprintf_f6 :: "real \<Rightarrow> string"
  Sprintf_f1 :: "real \<Rightarrow> string"
  hmac_sha256_base64 :: "string \<Rightarrow> string \<Rightarrow> string"

text \<open>A message handed to the SMS provider: channel, recipient, and the fields the
  fixed alert template is filled with.\<close>

record AlertMessage =
  am_Name :: string
  am_LastSeen :: Time
  am_Lat :: real
  am_Lng :: real
  am_AccuracyM :: int
  am_Score :: int
  am_Reason :: string
  am_Contact :: string

datatype outgoing =
  SMS string AlertMessage
  | WhatsApp string AlertMessage

record world =
  pg_ok :: bool
  redis_ok :: bool
  redis_writable :: bool
  users :: "User list"
  heartbeats :: "Heartbeat list"
  last_gasps :: "LastGasp list"
  alerts :: "Alert list"
  user_state :: "UUID \<rightharpoonup> UserState \<times> Time"
  alert_sent :: "UUID \<rightharpoonup> Time"
  ratelimit :: "UUID \<rightharpoonup> int \<times> Time option"
  outbox :: "outgoing list"

definition empty_world :: world where
  "empty_world =
     \<lparr>pg_ok = True, redis_ok = True, redis_writable = True, users = [], heartbeats = [],
      last_gasps = [], alerts = [], user_state = Map.empty, alert_sent = Map.empty,
      ratelimit = Map.empty, outbox = []\<rparr>"

section \<open>Store and cache operations\<close>

text \<open>The first row with the largest key: \<^verbatim>\<open>ORDER BY k DESC LIMIT 1\<close>. Among rows
  with equal keys SQL may return any; the model returns the one inserted first.\<close>

fun latest_by :: "('a \<Rightarrow> int) \<Rightarrow> 'a list \<Rightarrow> 'a option" where
  "latest_by k [] = None"
| "latest_by k (x # xs) =
     (case latest_by k xs of
        None \<Rightarrow> Some x
      | Some y \<Rightarrow> if k x < k y then Some y else Some x)"

text \<open>What the tables of the migrations accept. An \<^verbatim>\<open>INT\<close> column holds 32 bits, and
  pgx refuses a Go \<^verbatim>\<open>int\<close> outside them. A \<^verbatim>\<open>TIMESTAMP\<close> column keeps whole
  microseconds; pgx drops the rest. Every \<^verbatim>\<open>id\<close> is a primary key, \<^verbatim>\<open>phone\<close> is
  unique, and \<^verbatim>\<open>user_id\<close> references the users table. A statement that breaks one of
  these returns an error like any other failure of the database. Strings are taken to
  be text the database stores (UTF-8 without a zero byte).\<close>

definition int32 :: "int \<Rightarrow> bool" where
  "int32 i = (- (2 ^ 31) \<le> i \<and> i \<le> 2 ^ 31 - 1)"

definition pg_timestamp :: "Time \<Rightarrow> Time" where
  "pg_timestamp t = t - t mod 1000"

definition user_exists :: "UUID \<Rightarrow> world \<Rightarrow> bool" where
  "user_exists userID s = (userID \<in> u_ID ` set (users s))"

definition GetUserByID :: "UUID \<Rightarrow> world \<Rightarrow> error + User option" where
  "GetUserByID userID s =
     (if \<not> pg_ok s then Inl PostgresError
      else Inr (find (\<lambda>u. u_ID u = userID) (users s)))"

definition CreateUser :: "User \<Rightarrow> world \<Rightarrow> error + world" where
  "CreateUser user s =
     (if \<not> pg_ok s then Inl PostgresError
      else if u_ID user \<in> u_ID ` set (users s) \<or> u_Phone user \<in> u_Phone ` set (users s)
      then Inl PostgresError
      else Inr (s\<lparr>users := users s @ [user]\<rparr>))"

definition CreateHeartbeat :: "Heartbeat \<Rightarrow> world \<Rightarrow> error + world" where
  \<comment> \<open>\<^verbatim>\<open>source VARCHAR(10) NOT NULL CHECK (source IN ('http', 'sms'))\<close>,
    \<^verbatim>\<open>accuracy_m INT NOT NULL\<close>, \<^verbatim>\<open>battery_pct INT\<close>\<close>
  "CreateHeartbeat hb s =
     (if \<not> pg_ok s then Inl PostgresError
      else if hb_ID hb \<in> hb_ID ` set (heartbeats s) \<or> \<not> user_exists (hb_UserID hb) s
              \<or> hb_Source hb \<notin> {''http'', ''sms''} \<or> \<not> int32 (hb_AccuracyM hb)
              \<or> (case hb_BatteryPct hb of None \<Rightarrow> False | Some b \<Rightarrow> \<not> int32 b)
      then Inl PostgresError
      else Inr (s\<lparr>heartbeats := heartbeats s
                  @ [hb\<lparr>hb_Timestamp := pg_timestamp (hb_Timestamp hb),
                        hb_CreatedAt := pg_timestamp (hb_CreatedAt hb)\<rparr>]\<rparr>))"

definition GetLatestHeartbeat :: "UUID \<Rightarrow> world \<Rightarrow> error + Heartbeat option" where
  "GetLatestHeartbeat userID s =
     (if \<not> pg_ok s then Inl PostgresError
      else Inr (latest_by hb_Timestamp (filter (\<lambda>h. hb_UserID h = userID) (heartbeats s))))"

definition CreateLastGasp :: "LastGasp \<Rightarrow> world \<Rightarrow> error + world" where
  "CreateLastGasp lg s =
     (if \<not> pg_ok s then Inl PostgresError
      else if lg_ID lg \<in> lg_ID ` set (last_gasps s) \<or> \<not> user_exists (lg_UserID lg) s
              \<or> \<not> int32 (lg_AccuracyM lg)
      then Inl PostgresError
      else Inr (s\<lparr>last_gasps := last_gasps s
                  @ [lg\<lparr>lg_CreatedAt := pg_timestamp (lg_CreatedAt lg),
                        lg_ExpiryTs := pg_timestamp (lg_ExpiryTs lg)\<rparr>]\<rparr>))"

definition GetActiveLastGasp :: "Time \<Rightarrow> UUID \<Rightarrow> world \<Rightarrow> error + LastGasp option" where
  \<comment> \<open>\<^verbatim>\<open>WHERE user_id = $1 AND expiry_ts > NOW() ORDER BY created_at DESC LIMIT 1\<close>\<close>
  "GetActiveLastGasp now userID s =
     (if \<not> pg_ok s then Inl PostgresError
      else Inr (latest_by lg_CreatedAt
                  (filter (\<lambda>g. lg_UserID g = userID \<and> now < lg_ExpiryTs g) (last_gasps s))))"

definition CreateAlert :: "Alert \<Rightarrow> world \<Rightarrow> error + world" where
  \<comment> \<open>\<^verbatim>\<open>state VARCHAR(20) NOT NULL CHECK (state IN ('CAUTION', 'AT_RISK', 'ALERT'))\<close>,
    \<^verbatim>\<open>score INT NOT NULL CHECK (score >= 0 AND score <= 100)\<close>; the INSERT names no
    \<^verbatim>\<open>resolved_at\<close>: the column starts NULL\<close>
  "CreateAlert alert s =
     (if \<not> pg_ok s then Inl PostgresError
      else if al_ID alert \<in> al_ID ` set (alerts s) \<or> \<not> user_exists (al_UserID alert) s
              \<or> al_State alert \<notin> {''CAUTION'', ''AT_RISK'', ''ALERT''}
              \<or> al_Score alert < 0 \<or> 100 < al_Score alert
      then Inl PostgresError
      else Inr (s\<lparr>alerts := alerts s
                  @ [alert\<lparr>al_CreatedAt := pg_timestamp (al_CreatedAt alert),
                           al_ResolvedAt := None\<rparr>]\<rparr>))"

definition ResolveAlert :: "Time \<Rightarrow> UUID \<Rightarrow> world \<Rightarrow> error + world" where
  \<comment> \<open>\<^verbatim>\<open>UPDATE alerts SET resolved_at = NOW() WHERE id = $1\<close>; the number of rows
    the statement touched is dropped by the source\<close>
  "ResolveAlert now alertID s =
     (if \<not> pg_ok s then Inl PostgresError
      else Inr (s\<lparr>alerts :=
             map (\<lambda>a. if al_ID a = alertID then a\<lparr>al_ResolvedAt := Some now\<rparr> else a)
               (alerts s)\<rparr>))"

text \<open>The cache. A read needs the cache to answer; a write needs it to answer and to
  accept writes. The instant is that of the cache's own clock when the command runs.\<close>

definition SetUserState :: "Time \<Rightarrow> UserState \<Rightarrow> world \<Rightarrow> error + world" where
  \<comment> \<open>\<^verbatim>\<open>SET user:state:<id> <json> EX 24h\<close>\<close>
  "SetUserState now st s =
     (if \<not> (redis_ok s \<and> redis_writable s) then Inl RedisError
      else Inr (s\<lparr>user_state := (user_state s)(us_UserID st \<mapsto> (st, now + 24 * Hour))\<rparr>))"

definition GetUserState :: "Time \<Rightarrow> UUID \<Rightarrow> world \<Rightarrow> error + UserState option" where
  "GetUserState now userID s =
     (if \<not> redis_ok s then Inl RedisError
      else Inr (case user_state s userID of
                  None \<Rightarrow> None
                | Some (st, expiry) \<Rightarrow> if now < expiry then Some st else None))"

definition CheckRateLimit ::
  "Time \<Rightarrow> Time \<Rightarrow> UUID \<Rightarrow> Duration \<Rightarrow> int \<Rightarrow> world \<Rightarrow> (error + bool) \<times> world" where
  \<comment> \<open>\<^verbatim>\<open>INCR\<close> at the first instant, then \<^verbatim>\<open>EXPIRE\<close> at the second when the counter is 1\<close>
  "CheckRateLimit now_incr now_expire userID window limit s =
     (if \<not> (redis_ok s \<and> redis_writable s) then (Inl RedisError, s)
      else
        let live = (case ratelimit s userID of
                      None \<Rightarrow> None
                    | Some (n, None) \<Rightarrow> Some (n, None)
                    | Some (n, Some e) \<Rightarrow> if now_incr < e then Some (n, Some e) else None);
            count = (case live of None \<Rightarrow> 1 | Some (n, _) \<Rightarrow> n + 1);
            expiry = (if count = 1 then Some (now_expire + window)
                      else (case live of None \<Rightarrow> None | Some (_, e) \<Rightarrow> e))
        in (Inr (count \<le> limit), s\<lparr>ratelimit := (ratelimit s)(userID \<mapsto> (count, expiry))\<rparr>))"

definition CheckAlertSent :: "Time \<Rightarrow> UUID \<Rightarrow> Duration \<Rightarrow> world \<Rightarrow> error + bool" where
  \<comment> \<open>\<^verbatim>\<open>EXISTS alert:sent:<id>\<close>; the window argument is not read by the source\<close>
  "CheckAlertSent now userID window s =
     (if \<not> redis_ok s then Inl RedisError
      else Inr (case alert_sent s userID of None \<Rightarrow> False | Some expiry \<Rightarrow> now < expiry))"

definition MarkAlertSent :: "Time \<Rightarrow> UUID \<Rightarrow> Duration \<Rightarrow> world \<Rightarrow> error + world" where
  \<comment> \<open>\<^verbatim>\<open>SET alert:sent:<id> 1 EX window\<close>\<close>
  "MarkAlertSent now userID window s =
     (if \<not> (redis_ok s \<and> redis_writable s) then Inl RedisError
      else Inr (s\<lparr>alert_sent := (alert_sent s)(userID \<mapsto> now + window)\<rparr>))"

section \<open>Alert engine\<close>

definition buildAlertMessage :: "User \<Rightarrow> Heartbeat \<Rightarrow> int \<Rightarrow> string \<Rightarrow> AlertMessage" where
  "buildAlertMessage user hb score reason =
     \<lparr>am_Name = u_Name user, am_LastSeen = hb_Timestamp hb, am_Lat = hb_Lat hb,
      am_Lng = hb_Lng hb, am_AccuracyM = hb_AccuracyM hb, am_Score = score,
      am_Reason = reason, am_Contact = u_Phone user\<rparr>"

definition alert_burst :: "User \<Rightarrow> AlertMessage \<Rightarrow> outgoing list" where
  \<comment> \<open>the loop of \<^verbatim>\<open>SendAlertToContacts\<close>: SMS, then WhatsApp, to every trusted contact
    in order; the provider accepts every message\<close>
  "alert_burst user message =
     concat (map (\<lambda>contact. [SMS (c_Phone contact) message, WhatsApp (c_Phone contact) message])
               (u_TrustedContacts user))"

definition SendAlertToContacts ::
  "User \<Rightarrow> Heartbeat option \<Rightarrow> int \<Rightarrow> string \<Rightarrow> world \<Rightarrow> error option \<times> world" where
  \<comment> \<open>a nil heartbeat is dereferenced after the contacts check\<close>
  "SendAlertToContacts user heartbeat score reason s =
     (if u_TrustedContacts user = [] then (Some (Errorf ''no trusted contacts configured''), s)
      else case heartbeat of
        None \<Rightarrow> (Some NilPointerPanic, s)
      | Some hb \<Rightarrow>
          let message = buildAlertMessage user hb score reason
          in (None, s\<lparr>outbox := outbox s @ alert_burst user message\<rparr>))"

section \<open>Safety evaluator\<close>

text \<open>\<^verbatim>\<open>%d\<close> of \<^verbatim>\<open>fmt.Sprintf\<close> (and \<^verbatim>\<open>strconv.Itoa\<close>): decimal digits, a minus
  sign for a negative number.\<close>

definition digit_char :: "nat \<Rightarrow> char" where
  "digit_char d = ''0123456789'' ! d"

fun nat_digits :: "nat \<Rightarrow> string" where
  "nat_digits n =
     (if n < 10 then [digit_char n] else nat_digits (n div 10) @ [digit_char (n mod 10)])"

declare nat_digits.simps [simp del]

definition Itoa :: "int \<Rightarrow> string" where
  "Itoa i = (if i < 0 then CHR ''-'' # nat_digits (nat (- i)) else nat_digits (nat i))"

definition int_of_float64 :: "real \<Rightarrow> int" where
  \<comment> \<open>the conversion \<^verbatim>\<open>int(x)\<close> of a float64: the fraction is discarded\<close>
  "int_of_float64 x = (if x < 0 then - \<lfloor>- x\<rfloor> else \<lfloor>x\<rfloor>)"

definition heartbeat_window :: "Config \<Rightarrow> Duration" where
  \<comment> \<open>\<^verbatim>\<open>time.Duration(se.cfg.HeartbeatWindowSeconds)*time.Second\<close>\<close>
  "heartbeat_window cfg = wrap64 (HeartbeatWindowSeconds cfg * Second)"

definition checkDeterministicRules ::
  "golib \<Rightarrow> Config \<Rightarrow> Time \<Rightarrow> Heartbeat \<Rightarrow> EvaluationResult option" where
  \<comment> \<open>Rule 2 of the source (sudden stop) has an empty body and is not a branch here.\<close>
  "checkDeterministicRules L cfg now hb =
     (let timeSinceHeartbeat = time_Since now (hb_Timestamp hb) in
      if timeSinceHeartbeat < heartbeat_window cfg then
        (if hb_LastGasp hb then
           Some \<lparr>er_State = StateCaution, er_Score = 60,
                 er_Reason = ''LastGasp received - monitoring''\<rparr>
         else None)
      else if timeSinceHeartbeat > heartbeat_window cfg then
        (let missedMinutes = int_of_float64 (Minutes L timeSinceHeartbeat) in
         Some \<lparr>er_State = StateAtRisk, er_Score = 30,
               er_Reason = ''No heartbeat for '' @ Itoa missedMinutes @ '' minutes''\<rparr>)
      else None)"

text \<open>The six components of the composite score. \<^verbatim>\<open>recencyMinutes\<close> is the float64
  \<^verbatim>\<open>float64(d / Minute) + float64(d % Minute) / 6e10\<close> in the source. Both terms are
  rounded correctly, the second stays more than \<^verbatim>\<open>1e-11\<close> below 1, and floats up to 16
  are at most \<^verbatim>\<open>2e-15\<close> apart, so the sum is below 5, 10 or 15 exactly when the duration
  is below that many minutes: the comparisons are made on the duration.\<close>

definition recency_points :: "Duration \<Rightarrow> int" where
  "recency_points timeSinceHeartbeat =
     (if timeSinceHeartbeat < 5 * Minute then 30
      else if timeSinceHeartbeat < 10 * Minute then 20
      else if timeSinceHeartbeat < 15 * Minute then 10
      else 0)"

definition accuracy_points :: "Heartbeat \<Rightarrow> int" where
  "accuracy_points hb =
     (if hb_AccuracyM hb < 50 then 20
      else if hb_AccuracyM hb < 200 then 15
      else if hb_AccuracyM hb < 500 then 10
      else 5)"

definition movement_points :: "Heartbeat \<Rightarrow> int" where
  \<comment> \<open>a negative speed matches neither case of the switch\<close>
  "movement_points hb =
     (case hb_Speed hb of
        Some speed \<Rightarrow>
          (if speed \<ge> 0 \<and> speed < 100 then 20
           else if speed \<ge> 100 then 10
           else 0)
      | None \<Rightarrow> 15)"

definition signal_points :: "Heartbeat \<Rightarrow> int" where
  "signal_points hb =
     (if ci_RSSI (hb_CellInfo hb) > - 70 then 10
      else if ci_RSSI (hb_CellInfo hb) > - 90 then 5
      else 0)"

definition source_points :: "Heartbeat \<Rightarrow> int" where
  "source_points hb = (if hb_Source hb = ''http'' then 5 else 3)"

definition battery_points :: "Heartbeat \<Rightarrow> int" where
  "battery_points hb =
     (case hb_BatteryPct hb of
        Some b \<Rightarrow> (if b > 20 then 15 else if b > 5 then 10 else 5)
      | None \<Rightarrow> 10)"

definition calculateSafetyScore :: "Time \<Rightarrow> UUID \<Rightarrow> Heartbeat \<Rightarrow> int" where
  "calculateSafetyScore now userID hb =
     (let score = 0;
          score = score + recency_points (time_Since now (hb_Timestamp hb));
          score = score + accuracy_points hb;
          score = score + movement_points hb;
          score = score + signal_points hb;
          score = score + source_points hb;
          score = score + battery_points hb;
          score = (if score > 100 then 100 else score);
          score = (if score < 0 then 0 else score)
      in score)"

text \<open>The instants that one evaluation reads, in the order of the source: \<^verbatim>\<open>NOW()\<close> of the
  LastGasp query, \<^verbatim>\<open>time.Since\<close> in the rules and again in the score,
  \<^verbatim>\<open>time.Now()\<close> for \<^verbatim>\<open>UpdatedAt\<close>, the cache's clock at the \<^verbatim>\<open>SET\<close> and the
  \<^verbatim>\<open>GET\<close> of the user's state and at the \<^verbatim>\<open>EXISTS\<close> of the alert mark,
  \<^verbatim>\<open>time.Now()\<close> for the alert's \<^verbatim>\<open>CreatedAt\<close>, and the cache's clock at the
  \<^verbatim>\<open>SET\<close> of the alert mark.\<close>

record clock =
  lastgasp_now :: Time
  rules_now :: Time
  score_now :: Time
  state_now :: Time
  set_now :: Time
  get_now :: Time
  exists_now :: Time
  alert_now :: Time
  mark_now :: Time

definition alert_goroutine ::
  "Time \<Rightarrow> User \<Rightarrow> Heartbeat option \<Rightarrow> int \<Rightarrow> string \<Rightarrow> UUID \<Rightarrow> world \<Rightarrow> world" where
  \<comment> \<open>the body of the \<^verbatim>\<open>go func()\<close> of \<^verbatim>\<open>handleStateTransition\<close>, run to its end
    before anything else happens; a panic ends it before the mark, and the error of the
    mark is dropped\<close>
  "alert_goroutine now user hb score reason userID s =
     (case SendAlertToContacts user hb score reason s of
        (Some NilPointerPanic, s1) \<Rightarrow> s1
      | (_, s1) \<Rightarrow>
          (case MarkAlertSent now userID (5 * Minute) s1 of
             Inl _ \<Rightarrow> s1
           | Inr s2 \<Rightarrow> s2))"

definition handleStateTransition ::
  "clock \<Rightarrow> UUID \<Rightarrow> UUID \<Rightarrow> string \<Rightarrow> int \<Rightarrow> string \<Rightarrow> world \<Rightarrow> error option \<times> world" where
  "handleStateTransition clk new_id userID newState score reason s =
     (case GetUserState (get_now clk) userID s of
        Inl e \<Rightarrow> (Some e, s)
      | Inr prevState \<Rightarrow>
          if (case prevState of None \<Rightarrow> False | Some p \<Rightarrow> us_State p = newState)
             \<and> newState \<noteq> StateAlert
          then (None, s)
          else
            (case (if newState = StateAtRisk \<or> newState = StateAlert
                   then CheckAlertSent (exists_now clk) userID (5 * Minute) s else Inr False) of
               Inl e \<Rightarrow> (Some e, s)
             | Inr alreadySent \<Rightarrow>
                 if alreadySent then (None, s)
                 else if newState = StateCaution then (None, s)
                 else if newState = StateAtRisk \<or> newState = StateAlert then
                   (let alert = \<lparr>al_ID = new_id, al_UserID = userID, al_State = newState,
                                  al_Score = score, al_Reason = reason, al_SentTo = [],
                                  al_CreatedAt = alert_now clk, al_ResolvedAt = None\<rparr>
                    in case CreateAlert alert s of
                         Inl e \<Rightarrow> (Some (Wrap ''failed to create alert'' e), s)
                       | Inr s1 \<Rightarrow>
                           (case GetUserByID userID s1 of
                              Inl e \<Rightarrow> (Some (Wrap ''failed to get user'' e), s1)
                            | Inr None \<Rightarrow> (Some (Errorf ''user not found''), s1)
                            | Inr (Some user) \<Rightarrow>
                                (case GetLatestHeartbeat userID s1 of
                                   Inl e \<Rightarrow> (Some e, s1)
                                 | Inr hb \<Rightarrow>
                                     (None,
                                      alert_goroutine (mark_now clk) user hb score reason
                                        userID s1))))
                 else (None, s)))"

definition EvaluateUserSafety ::
  "golib \<Rightarrow> Config \<Rightarrow> clock \<Rightarrow> UUID \<Rightarrow> UUID \<Rightarrow> world \<Rightarrow> (error + EvaluationResult) \<times> world" where
  \<comment> \<open>the error of \<^verbatim>\<open>SetUserState\<close> is dropped by the source\<close>
  "EvaluateUserSafety L cfg clk new_id userID s =
     (case GetActiveLastGasp (lastgasp_now clk) userID s of
        Inl e \<Rightarrow> (Inl (Wrap ''failed to check lastgasp'' e), s)
      | Inr (Some lastGasp) \<Rightarrow>
          (Inr \<lparr>er_State = StateWaitLastGasp, er_Score = 0,
                er_Reason = ''LastGasp active - monitoring connectivity''\<rparr>, s)
      | Inr None \<Rightarrow>
          (case GetLatestHeartbeat userID s of
             Inl e \<Rightarrow> (Inl (Wrap ''failed to get heartbeat'' e), s)
           | Inr None \<Rightarrow>
               (Inr \<lparr>er_State = StateSafe, er_Score = 100,
                     er_Reason = ''No heartbeat data yet''\<rparr>, s)
           | Inr (Some heartbeat) \<Rightarrow>
               (case checkDeterministicRules L cfg (rules_now clk) heartbeat of
                  Some deterministicResult \<Rightarrow> (Inr deterministicResult, s)
                | None \<Rightarrow>
                    (let score = calculateSafetyScore (score_now clk) userID heartbeat;
                         (state, reason) =
                           (if score \<ge> 80 then (StateSafe, ''All indicators normal'')
                            else if score \<ge> 50 then
                              (StateCaution, ''Some indicators concerning - silent check initiated'')
                            else (StateAtRisk, ''Multiple risk indicators detected''));
                         result = \<lparr>er_State = state, er_Score = score, er_Reason = reason\<rparr>;
                         userState = \<lparr>us_UserID = userID, us_State = state, us_Score = score,
                                      us_LastHeartbeat = hb_Timestamp heartbeat,
                                      us_LastGaspActive = False, us_LastGaspExpiry = None,
                                      us_UpdatedAt = state_now clk\<rparr>;
                         s1 = (case SetUserState (set_now clk) userState s of
                                 Inl _ \<Rightarrow> s
                               | Inr s' \<Rightarrow> s')
                     in case handleStateTransition clk new_id userID state score reason s1 of
                          (Some e, s2) \<Rightarrow> (Inl (Wrap ''failed to handle state transition'' e), s2)
                        | (None, s2) \<Rightarrow> (Inr result, s2)))))"

section \<open>SMS codec\<close>

text \<open>\<^verbatim>\<open>strings.Split(s, sep)\<close> and \<^verbatim>\<open>strings.Join(parts, sep)\<close> for a separator of one
  byte, and \<^verbatim>\<open>strings.SplitN(s, sep, 2)\<close>.\<close>

fun Split :: "char \<Rightarrow> string \<Rightarrow> string list" where
  "Split sep [] = [[]]"
| "Split sep (c # cs) =
     (if c = sep then [] # Split sep cs
      else (case Split sep cs of
              [] \<Rightarrow> [[c]]
            | p # ps \<Rightarrow> (c # p) # ps))"

fun Join :: "char \<Rightarrow> string list \<Rightarrow> string" where
  "Join sep [] = []"
| "Join sep [p] = p"
| "Join sep (p # q # ps) = p @ sep # Join sep (q # ps)"

definition SplitN2 :: "char \<Rightarrow> string \<Rightarrow> string list" where
  "SplitN2 sep s =
     (if sep \<in> set s then [takeWhile (\<lambda>c. c \<noteq> sep) s, tl (dropWhile (\<lambda>c. c \<noteq> sep) s)]
      else [s])"

text \<open>\<^verbatim>\<open>strings.TrimSpace\<close> removes leading and trailing white space as Unicode defines
  it. On the bytes of a string these are the UTF-8 encodings of U+0009 to U+000D, U+0020,
  U+0085, U+00A0, U+1680, U+2000 to U+200A, U+2028, U+2029, U+202F, U+205F and U+3000.\<close>

definition white_space :: "string list" where
  "white_space =
     [[CHR 0x09], [CHR 0x0A], [CHR 0x0B], [CHR 0x0C], [CHR 0x0D], [CHR 0x20],
      [CHR 0xC2, CHR 0x85], [CHR 0xC2, CHR 0xA0], [CHR 0xE1, CHR 0x9A, CHR 0x80],
      [CHR 0xE2, CHR 0x80, CHR 0x80], [CHR 0xE2, CHR 0x80, CHR 0x81],
      [CHR 0xE2, CHR 0x80, CHR 0x82], [CHR 0xE2, CHR 0x80, CHR 0x83],
      [CHR 0xE2, CHR 0x80, CHR 0x84], [CHR 0xE2, CHR 0x80, CHR 0x85],
      [CHR 0xE2, CHR 0x80, CHR 0x86], [CHR 0xE2, CHR 0x80, CHR 0x87],
      [CHR 0xE2, CHR 0x80, CHR 0x88], [CHR 0xE2, CHR 0x80, CHR 0x89],
      [CHR 0xE2, CHR 0x80, CHR 0x8A], [CHR 0xE2, CHR 0x80, CHR 0xA8],
      [CHR 0xE2, CHR 0x80, CHR 0xA9], [CHR 0xE2, CHR 0x80, CHR 0xAF],
      [CHR 0xE2, CHR 0x81, CHR 0x9F], [CHR 0xE3, CHR 0x80, CHR 0x80]]"

definition leading_space :: "string \<Rightarrow> string option" where
  "leading_space s = find (\<lambda>w. take (length w) s = w) white_space"

definition trailing_space :: "string \<Rightarrow> string option" where
  "trailing_space s = find (\<lambda>w. drop (length s - length w) s = w) white_space"

function TrimLeft :: "string \<Rightarrow> string" where
  "TrimLeft s =
     (case leading_space s of
        None \<Rightarrow> s
      | Some w \<Rightarrow> TrimLeft (drop (length w) s))"
  by pat_completeness auto

function TrimRight :: "string \<Rightarrow> string" where
  "TrimRight s =
     (case trailing_space s of
        None \<Rightarrow> s
      | Some w \<Rightarrow> TrimRight (take (length s - length w) s))"
  by pat_completeness auto

lemma white_space_nonempty: "w \<in> set white_space \<Longrightarrow> w \<noteq> []"
  by (auto simp: white_space_def)

lemma find_Some_mem: "find P xs = Some x \<Longrightarrow> x \<in> set xs \<and> P x"
  by (induction xs) (auto split: if_splits)

lemma leading_space_Some:
  assumes "leading_space s = Some w"
  shows "w \<noteq> [] \<and> length w \<le> length s"
proof -
  from assms have w: "w \<in> set white_space" and t: "take (length w) s = w"
    unfolding leading_space_def by (auto dest: find_Some_mem)
  from arg_cong [OF t, of length] have "length w \<le> length s"
    by simp
  with w show ?thesis by (simp add: white_space_nonempty)
qed

lemma trailing_space_Some:
  assumes "trailing_space s = Some w"
  shows "w \<noteq> [] \<and> length w \<le> length s"
proof -
  from assms have w: "w \<in> set white_space" and t: "drop (length s - length w) s = w"
    unfolding trailing_space_def by (auto dest: find_Some_mem)
  from arg_cong [OF t, of length] have "length w \<le> length s"
    by simp
  with w show ?thesis by (simp add: white_space_nonempty)
qed

termination TrimLeft
proof (relation "measure length")
  show "wf (measure length)" by simp
next
  fix s w assume "leading_space s = Some w"
  from leading_space_Some [OF this] have "0 < length w" "length w \<le> length s" by auto
  then show "(drop (length w) s, s) \<in> measure length" by (cases w) simp_all
qed

termination TrimRight
proof (relation "measure length")
  show "wf (measure length)" by simp
next
  fix s w assume "trailing_space s = Some w"
  from trailing_space_Some [OF this] have "0 < length w" "length w \<le> length s" by auto
  then show "(take (length s - length w) s, s) \<in> measure length" by (cases w) simp_all
qed

declare TrimLeft.simps [simp del]
declare TrimRight.simps [simp del]

definition TrimSpace :: "string \<Rightarrow> string" where
  "TrimSpace s = TrimRight (TrimLeft s)"

text \<open>\<^verbatim>\<open>strconv.Atoi\<close>: an optional sign, then one or more decimal digits, and a value
  that fits a signed 64-bit integer; everything else is an error.\<close>

definition is_digit :: "char \<Rightarrow> bool" where
  "is_digit c = (c \<in> set ''0123456789'')"

definition digit_val :: "char \<Rightarrow> nat" where
  "digit_val c = of_char c - 48"

definition digits_value :: "string \<Rightarrow> nat" where
  "digits_value ds = foldl (\<lambda>n c. 10 * n + digit_val c) 0 ds"

definition Atoi :: "string \<Rightarrow> int option" where
  "Atoi s =
     (let (neg, ds) =
            (case s of
               [] \<Rightarrow> (False, [])
             | c # cs \<Rightarrow>
                 if c = CHR ''-'' then (True, cs)
                 else if c = CHR ''+'' then (False, cs)
                 else (False, s))
      in if ds = [] \<or> \<not> list_all is_digit ds then None
         else
           let n = int (digits_value ds);
               v = (if neg then - n else n)
           in if v < - (2 ^ 63) \<or> 2 ^ 63 - 1 < v then None else Some v)"

definition zero_CellInfo :: CellInfo where
  "zero_CellInfo =
     \<lparr>ci_MCC = 0, ci_MNC = 0, ci_CID = 0, ci_LAC = 0, ci_RSSI = 0,
      ci_NetworkType = [], ci_Neighbors = []\<rparr>"

definition parseCellInfo :: "string \<Rightarrow> error + CellInfo" where
  "parseCellInfo cellStr =
     (let parts = Split CHR '','' cellStr in
      if length parts < 5 then Inl (Errorf ''invalid cell info format'')
      else case Atoi (parts ! 0) of
        None \<Rightarrow> Inl (Wrap ''invalid MCC'' (LibError (parts ! 0)))
      | Some mcc \<Rightarrow>
      (case Atoi (parts ! 1) of
        None \<Rightarrow> Inl (Wrap ''invalid MNC'' (LibError (parts ! 1)))
      | Some mnc \<Rightarrow>
      (case Atoi (parts ! 2) of
        None \<Rightarrow> Inl (Wrap ''invalid CID'' (LibError (parts ! 2)))
      | Some cid \<Rightarrow>
      (case Atoi (parts ! 3) of
        None \<Rightarrow> Inl (Wrap ''invalid LAC'' (LibError (parts ! 3)))
      | Some lac \<Rightarrow>
      (case Atoi (parts ! 4) of
        None \<Rightarrow> Inl (Wrap ''invalid RSSI'' (LibError (parts ! 4)))
      | Some rssi \<Rightarrow>
          Inr \<lparr>ci_MCC = mcc, ci_MNC = mnc, ci_CID = cid, ci_LAC = lac, ci_RSSI = rssi,
                ci_NetworkType = [], ci_Neighbors = []\<rparr>)))))"

definition parse_field :: "golib \<Rightarrow> string \<Rightarrow> string \<Rightarrow> Heartbeat \<Rightarrow> error + Heartbeat" where
  \<comment> \<open>the \<^verbatim>\<open>switch key\<close> of the loop of \<^verbatim>\<open>ParseHeartbeatSMS\<close>\<close>
  "parse_field L key v hb =
     (if key = ''uid'' then
        (case uuid_Parse L v of
           None \<Rightarrow> Inl (Wrap ''invalid user ID'' (LibError v))
         | Some userID \<Rightarrow> Inr (hb\<lparr>hb_UserID := userID\<rparr>))
      else if key = ''ts'' then
        (case time_Parse L v of
           None \<Rightarrow> Inl (Wrap ''invalid timestamp'' (LibError v))
         | Some timestamp \<Rightarrow> Inr (hb\<lparr>hb_Timestamp := timestamp\<rparr>))
      else if key = ''lat'' then
        (case ParseFloat L v of
           None \<Rightarrow> Inl (Wrap ''invalid latitude'' (LibError v))
         | Some lat \<Rightarrow> Inr (hb\<lparr>hb_Lat := lat\<rparr>))
      else if key = ''lng'' then
        (case ParseFloat L v of
           None \<Rightarrow> Inl (Wrap ''invalid longitude'' (LibError v))
         | Some lng \<Rightarrow> Inr (hb\<lparr>hb_Lng := lng\<rparr>))
      else if key = ''acc'' then
        (case Atoi v of
           None \<Rightarrow> Inl (Wrap ''invalid accuracy'' (LibError v))
         | Some acc \<Rightarrow> Inr (hb\<lparr>hb_AccuracyM := acc\<rparr>))
      else if key = ''cell'' then
        (case parseCellInfo v of
           Inl e \<Rightarrow> Inl (Wrap ''invalid cell info'' e)
         | Inr cellInfo \<Rightarrow> Inr (hb\<lparr>hb_CellInfo := cellInfo\<rparr>))
      else if key = ''bat'' then
        (case Atoi v of
           None \<Rightarrow> Inr hb
         | Some bat \<Rightarrow> Inr (hb\<lparr>hb_BatteryPct := Some bat\<rparr>))
      else if key = ''spd'' then
        (case ParseFloat L v of
           None \<Rightarrow> Inr hb
         | Some spd \<Rightarrow> Inr (hb\<lparr>hb_Speed := Some spd\<rparr>))
      else if key = ''lg'' then Inr (hb\<lparr>hb_LastGasp := (v = ''1'' \<or> v = ''true'')\<rparr>)
      else if key = ''sig'' then Inr (hb\<lparr>hb_Signature := v\<rparr>)
      else Inr hb)"

definition parse_part :: "golib \<Rightarrow> string \<Rightarrow> Heartbeat \<Rightarrow> error + Heartbeat" where
  \<comment> \<open>one turn of the loop: a part with no \<^verbatim>\<open>=\<close> is skipped\<close>
  "parse_part L part hb =
     (case SplitN2 CHR ''='' part of
        [k, v] \<Rightarrow> parse_field L (TrimSpace k) (TrimSpace v) hb
      | _ \<Rightarrow> Inr hb)"

fun parse_parts :: "golib \<Rightarrow> string list \<Rightarrow> Heartbeat \<Rightarrow> error + Heartbeat" where
  "parse_parts L [] hb = Inr hb"
| "parse_parts L (part # parts) hb =
     (case parse_part L part hb of
        Inl e \<Rightarrow> Inl e
      | Inr hb' \<Rightarrow> parse_parts L parts hb')"

definition zero_Heartbeat :: Heartbeat where
  "zero_Heartbeat =
     \<lparr>hb_ID = 0, hb_UserID = 0, hb_Source = [], hb_Lat = 0, hb_Lng = 0, hb_AccuracyM = 0,
      hb_CellInfo = zero_CellInfo, hb_BatteryPct = None, hb_Speed = None,
      hb_LastGasp = False, hb_Timestamp = 0, hb_Signature = [], hb_CreatedAt = 0\<rparr>"

definition ParseHeartbeatSMS :: "golib \<Rightarrow> UUID \<Rightarrow> Time \<Rightarrow> string \<Rightarrow> error + Heartbeat" where
  "ParseHeartbeatSMS L new_id now smsBody =
     (let parts = Split CHR '';'' smsBody in
      if length parts < 6 then Inl (Errorf ''invalid SMS format: insufficient fields'')
      else
        case parse_parts L parts
               (zero_Heartbeat\<lparr>hb_ID := new_id, hb_Source := ''sms'', hb_CreatedAt := now\<rparr>) of
          Inl e \<Rightarrow> Inl e
        | Inr hb \<Rightarrow>
            if hb_UserID hb = 0 then Inl (Errorf ''missing user ID'')
            else if hb_Timestamp hb = 0 then Inl (Errorf ''missing timestamp'')
            else if hb_Signature hb = [] then Inl (Errorf ''missing signature'')
            else Inr hb)"

definition BuildSMSPayload :: "golib \<Rightarrow> Heartbeat \<Rightarrow> string" where
  "BuildSMSPayload L hb =
     (let parts =
            [''uid='' @ uuid_String L (hb_UserID hb),
             ''ts='' @ time_Format L (hb_Timestamp hb),
             ''lat='' @ Sprintf_f6 L (hb_Lat hb),
             ''lng='' @ Sprintf_f6 L (hb_Lng hb),
             ''acc='' @ Itoa (hb_AccuracyM hb),
             ''cell='' @ Itoa (ci_MCC (hb_CellInfo hb)) @ '','' @ Itoa (ci_MNC (hb_CellInfo hb))
               @ '','' @ Itoa (ci_CID (hb_CellInfo hb)) @ '','' @ Itoa (ci_LAC (hb_CellInfo hb))
               @ '','' @ Itoa (ci_RSSI (hb_CellInfo hb))];
          parts = (case hb_BatteryPct hb of None \<Rightarrow> parts | Some bat \<Rightarrow> parts @ [''bat='' @ Itoa bat]);
          parts = (case hb_Speed hb of None \<Rightarrow> parts | Some spd \<Rightarrow> parts @ [''spd='' @ Sprintf_f1 L spd]);
          parts = (if hb_LastGasp hb then parts @ [''lg=1''] else parts);
          parts = parts @ [''sig='' @ hb_Signature hb]
      in Join CHR '';'' parts)"

section \<open>Signer\<close>

definition SignString :: "golib \<Rightarrow> string \<Rightarrow> string \<Rightarrow> string" where
  "SignString L data secret = hmac_sha256_base64 L secret data"

definition VerifyStringSignature :: "golib \<Rightarrow> string \<Rightarrow> string \<Rightarrow> string \<Rightarrow> bool" where
  \<comment> \<open>\<^verbatim>\<open>hmac.Equal\<close> is equality of the two byte strings\<close>
  "VerifyStringSignature L data signature secret = (signature = SignString L data secret)"

section \<open>Session API\<close>

text \<open>An HTTP response: the status code and what was rendered (a JSON or XML object of
  \<^verbatim>\<open>gin.H\<close>, a marshalled \<^verbatim>\<open>UserState\<close>, the TwiML document
  \<^verbatim>\<open><Response><Message>...</Message></Response>\<close> with the given message, or the
  empty body of a recovered panic).\<close>

datatype json =
  JString string
  | JUUID UUID

datatype rendered =
  JSON "(string \<times> json) list"
  | JSONUserState UserState
  | XML "(string \<times> json) list"
  | TwiML string
  | Recovered

type_synonym response = "nat \<times> rendered"

definition GetUserStatus :: "golib \<Rightarrow> Time \<Rightarrow> string \<Rightarrow> world \<Rightarrow> response" where
  \<comment> \<open>\<^verbatim>\<open>GET /v1/user/:id/status\<close>\<close>
  "GetUserStatus L now id_param s =
     (case uuid_Parse L id_param of
        None \<Rightarrow> (400, JSON [(''error'', JString ''invalid user_id'')])
      | Some userID \<Rightarrow>
          (case GetUserState now userID s of
             Inl e \<Rightarrow> (500, JSON [(''error'', JString ''failed to get state'')])
           | Inr None \<Rightarrow>
               (200, JSON [(''user_id'', JUUID userID), (''state'', JString ''UNKNOWN''),
                              (''message'', JString ''No data available'')])
           | Inr (Some state) \<Rightarrow> (200, JSONUserState state)))"

definition ResolveAlert_handler ::
  "golib \<Rightarrow> Time \<Rightarrow> string \<Rightarrow> world \<Rightarrow> response \<times> world" where
  \<comment> \<open>\<^verbatim>\<open>POST /v1/alert/:id/resolve\<close>\<close>
  "ResolveAlert_handler L now id_param s =
     (case uuid_Parse L id_param of
        None \<Rightarrow> ((400, JSON [(''error'', JString ''invalid alert_id'')]), s)
      | Some alertID \<Rightarrow>
          (case ResolveAlert now alertID s of
             Inl e \<Rightarrow> ((500, JSON [(''error'', JString ''failed to resolve alert'')]), s)
           | Inr s' \<Rightarrow>
               ((200, JSON [(''status'', JString ''success''),
                               (''message'', JString ''alert resolved'')]), s')))"

section \<open>SMS ingress\<close>

definition signed_bytes :: "string \<Rightarrow> string \<Rightarrow> string option" where
  \<comment> \<open>\<^verbatim>\<open>body[:len(body)-len(heartbeat.Signature)-5]\<close>; \<open>None\<close> is the panic of a
    negative slice bound\<close>
  "signed_bytes body signature =
     (if length body < length signature + 5 then None
      else Some (take (length body - length signature - 5) body))"

text \<open>The instants the SMS handler reads with \<^verbatim>\<open>time.Now()\<close>: in the parser, for the
  heartbeat's \<^verbatim>\<open>CreatedAt\<close>, and for the LastGasp's \<^verbatim>\<open>CreatedAt\<close> and
  \<^verbatim>\<open>ExpiryTs\<close>.\<close>

record sms_clock =
  parse_now :: Time
  created_now :: Time
  lg_created_now :: Time
  lg_expiry_now :: Time

definition HandleIncomingSMS ::
  "golib \<Rightarrow> Config \<Rightarrow> sms_clock \<Rightarrow> UUID \<Rightarrow> UUID \<Rightarrow> UUID \<Rightarrow> string \<Rightarrow> world \<Rightarrow> response \<times> world" where
  \<comment> \<open>\<^verbatim>\<open>POST /v1/sms/webhook\<close> up to its response; the evaluation it starts in a
    goroutine is a step of its own. A panic is answered 500 by gin's recovery.\<close>
  "HandleIncomingSMS L cfg clk id1 id2 id3 body s =
     (if body = [] then ((400, JSON [(''error'', JString ''empty message body'')]), s)
      else case ParseHeartbeatSMS L id1 (parse_now clk) body of
        Inl e \<Rightarrow> ((200, XML [(''Response'', JString ''Message received but could not be parsed'')]), s)
      | Inr heartbeat \<Rightarrow>
          (case signed_bytes body (hb_Signature heartbeat) of
             None \<Rightarrow> ((500, Recovered), s)
           | Some data \<Rightarrow>
               if \<not> VerifyStringSignature L data (hb_Signature heartbeat) (HMACSecret cfg)
               then ((200, XML [(''Response'', JString ''Invalid signature'')]), s)
               else
                 (case GetUserByID (hb_UserID heartbeat) s of
                    Inl e \<Rightarrow> ((200, XML [(''Response'', JString ''User not found'')]), s)
                  | Inr None \<Rightarrow> ((200, XML [(''Response'', JString ''User not found'')]), s)
                  | Inr (Some user) \<Rightarrow>
                      (let heartbeat = heartbeat\<lparr>hb_ID := id2, hb_Source := ''sms'',
                                                 hb_CreatedAt := created_now clk\<rparr>
                       in case CreateHeartbeat heartbeat s of
                            Inl e \<Rightarrow> ((200, XML [(''Response'', JString ''Storage error'')]), s)
                          | Inr s1 \<Rightarrow>
                              (let s2 =
                                 (if hb_LastGasp heartbeat then
                                    (let lastGasp =
                                       \<lparr>lg_ID = id3, lg_UserID = hb_UserID heartbeat,
                                        lg_Lat = hb_Lat heartbeat, lg_Lng = hb_Lng heartbeat,
                                        lg_AccuracyM = hb_AccuracyM heartbeat,
                                        lg_CellInfo = hb_CellInfo heartbeat,
                                        lg_CreatedAt = lg_created_now clk,
                                        lg_ExpiryTs =
                                          lg_expiry_now clk
                                            + wrap64 (LastGaspTimeoutSeconds cfg * Second)\<rparr>
                                     in case CreateLastGasp lastGasp s1 of
                                          Inl _ \<Rightarrow> s1
                                        | Inr s' \<Rightarrow> s')
                                  else s1)
                               in ((200, TwiML ''Heartbeat received''),
                                   s2))))))"

section \<open>The service as a transition system\<close>

text \<open>What can happen to the world: a request to one of the modelled handlers, a run of
  the evaluator (the handlers start it in a goroutine, so it may run at any later point),
  the writes of the handlers and tools that are not modelled as a whole (onboarding,
  the HTTP heartbeat handler's rate limit and inserts), and the stores going down or
  coming back.\<close>

datatype operation =
  OpCreateUser User
  | OpCreateHeartbeat Heartbeat
  | OpCreateLastGasp LastGasp
  | OpCheckRateLimit Time Time UUID
  | OpIncomingSMS sms_clock UUID UUID UUID string
  | OpEvaluate clock UUID UUID
  | OpResolveAlert Time string
  | OpAvailability bool bool bool

definition keep :: "error + world \<Rightarrow> world \<Rightarrow> world" where
  \<comment> \<open>a write whose error the caller does not act on\<close>
  "keep r s = (case r of Inl _ \<Rightarrow> s | Inr s' \<Rightarrow> s')"

fun perform :: "golib \<Rightarrow> Config \<Rightarrow> operation \<Rightarrow> world \<Rightarrow> world" where
  "perform L cfg (OpCreateUser user) s = keep (CreateUser user s) s"
| "perform L cfg (OpCreateHeartbeat hb) s = keep (CreateHeartbeat hb s) s"
| "perform L cfg (OpCreateLastGasp lg) s = keep (CreateLastGasp lg s) s"
| "perform L cfg (OpCheckRateLimit now_incr now_expire userID) s =
     snd (CheckRateLimit now_incr now_expire userID (30 * Second) 1 s)"
| "perform L cfg (OpIncomingSMS clk id1 id2 id3 body) s =
     snd (HandleIncomingSMS L cfg clk id1 id2 id3 body s)"
| "perform L cfg (OpEvaluate clk new_id userID) s =
     snd (EvaluateUserSafety L cfg clk new_id userID s)"
| "perform L cfg (OpResolveAlert now id_param) s = snd (ResolveAlert_handler L now id_param s)"
| "perform L cfg (OpAvailability p r w) s = s\<lparr>pg_ok := p, redis_ok := r, redis_writable := w\<rparr>"

fun run :: "golib \<Rightarrow> Config \<Rightarrow> operation list \<Rightarrow> world \<Rightarrow> world" where
  "run L cfg [] s = s"
| "run L cfg (x # xs) s = run L cfg xs (perform L cfg x s)"

section \<open>Sample data\<close>

text \<open>The heartbeats of the scenarios, a user, and worlds built from them. \<open>t0\<close> is
  2025-11-19T12:50:00Z.\<close>

definition t0 :: Time where
  "t0 = 63899153400 * Second"

definition sample_user_id :: UUID where
  "sample_user_id = 113059749145936325402354257176981405696"

definition sample_cell :: "int \<Rightarrow> CellInfo" where
  "sample_cell rssi =
     \<lparr>ci_MCC = 621, ci_MNC = 20, ci_CID = 12345, ci_LAC = 678, ci_RSSI = rssi,
      ci_NetworkType = [], ci_Neighbors = []\<rparr>"

definition fresh_heartbeat :: Heartbeat where
  "fresh_heartbeat =
     \<lparr>hb_ID = 1, hb_UserID = sample_user_id, hb_Source = ''http'', hb_Lat = 6.5244,
      hb_Lng = 3.3792, hb_AccuracyM = 20, hb_CellInfo = sample_cell (- 60),
      hb_BatteryPct = Some 80, hb_Speed = Some 5, hb_LastGasp = False, hb_Timestamp = t0,
      hb_Signature = ''c2ln'', hb_CreatedAt = t0\<rparr>"

definition degraded_heartbeat :: Heartbeat where
  "degraded_heartbeat =
     \<lparr>hb_ID = 2, hb_UserID = sample_user_id, hb_Source = ''sms'', hb_Lat = 6.5244,
      hb_Lng = 3.3792, hb_AccuracyM = 300, hb_CellInfo = sample_cell (- 95),
      hb_BatteryPct = Some 10, hb_Speed = None, hb_LastGasp = False, hb_Timestamp = t0,
      hb_Signature = ''c2ln'', hb_CreatedAt = t0\<rparr>"

definition poor_heartbeat :: Heartbeat where
  "poor_heartbeat =
     \<lparr>hb_ID = 3, hb_UserID = sample_user_id, hb_Source = ''sms'', hb_Lat = 6.5244,
      hb_Lng = 3.3792, hb_AccuracyM = 600, hb_CellInfo = sample_cell (- 95),
      hb_BatteryPct = Some 3, hb_Speed = Some 120, hb_LastGasp = False, hb_Timestamp = t0,
      hb_Signature = ''c2ln'', hb_CreatedAt = t0\<rparr>"

definition sample_last_gasp :: LastGasp where
  "sample_last_gasp =
     \<lparr>lg_ID = 4, lg_UserID = sample_user_id, lg_Lat = 6.5244, lg_Lng = 3.3792,
      lg_AccuracyM = 20, lg_CellInfo = sample_cell (- 60), lg_CreatedAt = t0,
      lg_ExpiryTs = t0 + 3600 * Second\<rparr>"

definition sample_user :: User where
  "sample_user =
     \<lparr>u_ID = sample_user_id, u_Phone = ''+2348000000001'', u_Name = ''Ada'',
      u_TrustedContacts = [\<lparr>c_ID = ''c1'', c_Name = ''Bola'', c_Phone = ''+2348000000002''\<rparr>]\<rparr>"

definition sample_alert :: Alert where
  "sample_alert =
     \<lparr>al_ID = 5, al_UserID = sample_user_id, al_State = ''AT_RISK'', al_Score = 30,
      al_Reason = ''No heartbeat for 15 minutes'', al_SentTo = [], al_CreatedAt = t0,
      al_ResolvedAt = None\<rparr>"

definition sample_world :: "Heartbeat list \<Rightarrow> LastGasp list \<Rightarrow> world" where
  "sample_world hbs lgs =
     empty_world\<lparr>users := [sample_user], heartbeats := hbs, last_gasps := lgs\<rparr>"

definition paced :: "Time \<Rightarrow> Duration \<Rightarrow> clock" where
  \<comment> \<open>the reads of an evaluation that starts at \<open>t\<close> and reads its clocks \<open>d\<close> apart\<close>
  "paced t d =
     \<lparr>lastgasp_now = t, rules_now = t + d, score_now = t + 2 * d, state_now = t + 3 * d,
      set_now = t + 4 * d, get_now = t + 5 * d, exists_now = t + 6 * d, alert_now = t + 7 * d,
      mark_now = t + 8 * d\<rparr>"

section \<open>Notions and samples used in the statements\<close>

subsection \<open>Evaluation and session\<close>

text \<open>The result and the cache entry that the scoring branch of \<open>EvaluateUserSafety\<close>
  builds from a score; the score a call returned; and the score that steps C and D of the
  evaluation give a heartbeat, the rules reading the clock at \<open>rules_now\<close> and the
  composite score at \<open>score_now\<close>.\<close>

definition scored_result :: "int \<Rightarrow> EvaluationResult" where
  "scored_result score =
     (if score \<ge> 80 then \<lparr>er_State = StateSafe, er_Score = score, er_Reason = ''All indicators normal''\<rparr>
      else if score \<ge> 50 then
        \<lparr>er_State = StateCaution, er_Score = score,
         er_Reason = ''Some indicators concerning - silent check initiated''\<rparr>
      else \<lparr>er_State = StateAtRisk, er_Score = score,
            er_Reason = ''Multiple risk indicators detected''\<rparr>)"

definition cached_state :: "UUID \<Rightarrow> Time \<Rightarrow> Heartbeat \<Rightarrow> int \<Rightarrow> UserState" where
  "cached_state userID now hb score =
     \<lparr>us_UserID = userID, us_State = er_State (scored_result score), us_Score = score,
      us_LastHeartbeat = hb_Timestamp hb, us_LastGaspActive = False, us_LastGaspExpiry = None,
      us_UpdatedAt = now\<rparr>"

definition returned_score :: "(error + EvaluationResult) \<times> world \<Rightarrow> int option" where
  "returned_score out = (case fst out of Inl _ \<Rightarrow> None | Inr r \<Rightarrow> Some (er_Score r))"

definition evaluation_score :: "golib \<Rightarrow> Config \<Rightarrow> clock \<Rightarrow> UUID \<Rightarrow> Heartbeat \<Rightarrow> int" where
  "evaluation_score L cfg clk userID hb =
     (case checkDeterministicRules L cfg (rules_now clk) hb of
        Some r \<Rightarrow> er_Score r
      | None \<Rightarrow> calculateSafetyScore (score_now clk) userID hb)"

text \<open>The world in which the transition step of an evaluation runs: the world after the
  \<^verbatim>\<open>SET\<close> of the user's state, or the world as it was when the cache refused it.\<close>

definition after_set :: "clock \<Rightarrow> UUID \<Rightarrow> Heartbeat \<Rightarrow> int \<Rightarrow> world \<Rightarrow> world" where
  "after_set clk userID hb sc s =
     keep (SetUserState (set_now clk) (cached_state userID (state_now clk) hb sc) s) s"

text \<open>What the transition step may change: nothing, or one alert row more, with at most one
  burst of messages and the alert mark. What an evaluation may change: the user's cache
  entry, and then what the transition step may.\<close>

definition alert_step :: "world \<Rightarrow> world \<Rightarrow> bool" where
  "alert_step s s' =
     (pg_ok s' = pg_ok s \<and> redis_ok s' = redis_ok s \<and> redis_writable s' = redis_writable s
      \<and> users s' = users s \<and> heartbeats s' = heartbeats s \<and> last_gasps s' = last_gasps s
      \<and> user_state s' = user_state s \<and> ratelimit s' = ratelimit s
      \<and> (alerts s' = alerts s \<and> outbox s' = outbox s \<and> alert_sent s' = alert_sent s
          \<or> (\<exists>a. alerts s' = alerts s @ [a])
             \<and> (outbox s' = outbox s
                 \<or> (\<exists>user message. outbox s' = outbox s @ alert_burst user message))))"

definition evaluation_step :: "clock \<Rightarrow> UUID \<Rightarrow> world \<Rightarrow> world \<Rightarrow> bool" where
  "evaluation_step clk userID s s' =
     (alert_step s s'
      \<or> (\<exists>hb sc. alert_step
             (s\<lparr>user_state := (user_state s)(userID \<mapsto>
                  (cached_state userID (state_now clk) hb sc, set_now clk + 24 * Hour))\<rparr>) s'))"



definition status_code :: "response \<times> world \<Rightarrow> nat" where
  "status_code out = fst (fst out)"

text \<open>What \<^verbatim>\<open>UPDATE alerts SET resolved_at = NOW() WHERE id = $1\<close> does to one row, and
  the body the resolve handler sends on success.\<close>

definition mark_resolved :: "Time \<Rightarrow> UUID \<Rightarrow> Alert \<Rightarrow> Alert" where
  "mark_resolved now alertID a = (if al_ID a = alertID then a\<lparr>al_ResolvedAt := Some now\<rparr> else a)"

definition success_response :: response where
  "success_response =
     (200, JSON [(''status'', JString ''success''), (''message'', JString ''alert resolved'')])"

text \<open>The invariant of the cache: every stored state is one of the three the score bands
  produce. \<open>status_state\<close> reads the \<^verbatim>\<open>state\<close> member of a rendered response.\<close>

definition cache_scored :: "world \<Rightarrow> bool" where
  "cache_scored s =
     (\<forall>u st e. user_state s u = Some (st, e) \<longrightarrow> us_State st \<in> {''SAFE'', ''CAUTION'', ''AT_RISK''})"

definition status_state :: "response \<Rightarrow> string option" where
  "status_state resp =
     (case snd resp of
        JSONUserState st \<Rightarrow> Some (us_State st)
      | JSON kvs \<Rightarrow> (case map_of kvs ''state'' of Some (JString v) \<Rightarrow> Some v | _ \<Rightarrow> None)
      | _ \<Rightarrow> None)"

subsection \<open>The wire format\<close>

text \<open>The first and the last bytes of the white space characters; a string with neither
  at its ends is left alone by \<open>TrimSpace\<close>.\<close>

definition space_heads :: "char list" where
  "space_heads = [CHR 0x09, CHR 0x0A, CHR 0x0B, CHR 0x0C, CHR 0x0D, CHR 0x20,
                  CHR 0xC2, CHR 0xE1, CHR 0xE2, CHR 0xE3]"

definition space_tails :: "char list" where
  "space_tails = [CHR 0x09, CHR 0x0A, CHR 0x0B, CHR 0x0C, CHR 0x0D, CHR 0x20,
                  CHR 0x85, CHR 0xA0, CHR 0x80, CHR 0x81, CHR 0x82, CHR 0x83, CHR 0x84,
                  CHR 0x86, CHR 0x87, CHR 0x88, CHR 0x89, CHR 0x8A, CHR 0xA8, CHR 0xA9,
                  CHR 0xAF, CHR 0x9F]"

definition untrimmed :: "string \<Rightarrow> bool" where
  \<comment> \<open>a string that neither starts nor ends with a byte of a white space character\<close>
  "untrimmed s = (s = [] \<or> (hd s \<notin> set space_heads \<and> last s \<notin> set space_tails))"

definition int64 :: "int \<Rightarrow> bool" where
  "int64 i = (- (2 ^ 63) \<le> i \<and> i \<le> 2 ^ 63 - 1)"

definition clean :: "string \<Rightarrow> bool" where
  \<comment> \<open>a value that survives the wire: no separator inside, no white space around\<close>
  "clean s = (CHR '';'' \<notin> set s \<and> TrimSpace s = s)"

text \<open>The key and the value the parser reads from one part, the keys it knows, and a
  part it skips.\<close>

definition known_keys :: "string list" where
  "known_keys = [''uid'', ''ts'', ''lat'', ''lng'', ''acc'', ''cell'', ''bat'', ''spd'', ''lg'', ''sig'']"

definition part_key :: "string \<Rightarrow> string option" where
  "part_key part = (case SplitN2 CHR ''='' part of [k, v] \<Rightarrow> Some (TrimSpace k) | _ \<Rightarrow> None)"

definition part_value :: "string \<Rightarrow> string option" where
  "part_value part = (case SplitN2 CHR ''='' part of [k, v] \<Rightarrow> Some (TrimSpace v) | _ \<Rightarrow> None)"

definition unknown_part :: "string \<Rightarrow> bool" where
  "unknown_part part = (case part_key part of None \<Rightarrow> True | Some key \<Rightarrow> key \<notin> set known_keys)"

text \<open>The heartbeats the round trip is stated for, what the library must do for them,
  what the parser returns for them, and the parts \<open>BuildSMSPayload\<close> joins.\<close>

definition well_formed :: "Heartbeat \<Rightarrow> bool" where
  "well_formed h =
     (hb_UserID h \<noteq> 0 \<and> hb_Timestamp h \<noteq> 0 \<and> hb_Signature h \<noteq> [] \<and> clean (hb_Signature h)
      \<and> int64 (hb_AccuracyM h) \<and> int64 (ci_MCC (hb_CellInfo h)) \<and> int64 (ci_MNC (hb_CellInfo h))
      \<and> int64 (ci_CID (hb_CellInfo h)) \<and> int64 (ci_LAC (hb_CellInfo h))
      \<and> int64 (ci_RSSI (hb_CellInfo h))
      \<and> (case hb_BatteryPct h of None \<Rightarrow> True | Some bat \<Rightarrow> int64 bat))"

definition library_round_trips :: "golib \<Rightarrow> Heartbeat \<Rightarrow> bool" where
  "library_round_trips L h =
     (uuid_Parse L (uuid_String L (hb_UserID h)) = Some (hb_UserID h)
      \<and> clean (uuid_String L (hb_UserID h))
      \<and> time_Parse L (time_Format L (hb_Timestamp h)) = Some (hb_Timestamp h)
      \<and> clean (time_Format L (hb_Timestamp h))
      \<and> ParseFloat L (Sprintf_f6 L (hb_Lat h)) = Some (hb_Lat h)
      \<and> clean (Sprintf_f6 L (hb_Lat h))
      \<and> ParseFloat L (Sprintf_f6 L (hb_Lng h)) = Some (hb_Lng h)
      \<and> clean (Sprintf_f6 L (hb_Lng h))
      \<and> (case hb_Speed h of
            None \<Rightarrow> True
          | Some spd \<Rightarrow> ParseFloat L (Sprintf_f1 L spd) = Some spd \<and> clean (Sprintf_f1 L spd)))"

definition as_parsed :: "UUID \<Rightarrow> Time \<Rightarrow> Heartbeat \<Rightarrow> Heartbeat" where
  \<comment> \<open>what the wire format keeps of a heartbeat, with the fields the parser assigns\<close>
  "as_parsed new_id now h =
     h\<lparr>hb_ID := new_id, hb_Source := ''sms'', hb_CreatedAt := now,
       hb_CellInfo := (hb_CellInfo h)\<lparr>ci_NetworkType := [], ci_Neighbors := []\<rparr>\<rparr>"

definition cell_string :: "CellInfo \<Rightarrow> string" where
  "cell_string c = Itoa (ci_MCC c) @ '','' @ Itoa (ci_MNC c) @ '','' @ Itoa (ci_CID c)
     @ '','' @ Itoa (ci_LAC c) @ '','' @ Itoa (ci_RSSI c)"

definition optional_parts :: "golib \<Rightarrow> Heartbeat \<Rightarrow> string list" where
  "optional_parts L h =
     (case hb_BatteryPct h of None \<Rightarrow> [] | Some bat \<Rightarrow> [''bat='' @ Itoa bat])
     @ (case hb_Speed h of None \<Rightarrow> [] | Some spd \<Rightarrow> [''spd='' @ Sprintf_f1 L spd])
     @ (if hb_LastGasp h then [''lg=1''] else [])"

definition emitted_parts :: "golib \<Rightarrow> Heartbeat \<Rightarrow> string list" where
  "emitted_parts L h =
     [''uid='' @ uuid_String L (hb_UserID h), ''ts='' @ time_Format L (hb_Timestamp h),
      ''lat='' @ Sprintf_f6 L (hb_Lat h), ''lng='' @ Sprintf_f6 L (hb_Lng h),
      ''acc='' @ Itoa (hb_AccuracyM h), ''cell='' @ cell_string (hb_CellInfo h)]
     @ optional_parts L h @ [''sig='' @ hb_Signature h]"

text \<open>A value the parser rejects, the message of the error it wraps the cause in, and
  the heartbeat the loop of \<open>ParseHeartbeatSMS\<close> starts from.\<close>

definition rejected :: "golib \<Rightarrow> string \<Rightarrow> string \<Rightarrow> bool" where
  \<comment> \<open>a value of one of the four mandatory numeric fields that does not parse\<close>
  "rejected L key v =
     (key = ''lat'' \<and> ParseFloat L v = None \<or> key = ''lng'' \<and> ParseFloat L v = None
      \<or> key = ''acc'' \<and> Atoi v = None \<or> key = ''cell'' \<and> isl (parseCellInfo v))"

definition field_error :: "string \<Rightarrow> string" where
  "field_error key =
     (if key = ''lat'' then ''invalid latitude''
      else if key = ''lng'' then ''invalid longitude''
      else if key = ''acc'' then ''invalid accuracy''
      else ''invalid cell info'')"

definition initial_heartbeat :: "UUID \<Rightarrow> Time \<Rightarrow> Heartbeat" where
  "initial_heartbeat new_id now =
     zero_Heartbeat\<lparr>hb_ID := new_id, hb_Source := ''sms'', hb_CreatedAt := now\<rparr>"

subsection \<open>Further samples\<close>

text \<open>A stand-in for the library, for running the program on the strings of the
  examples: on the inputs listed it answers as Go does (the HMAC is the real one for
  the key \<^verbatim>\<open>secret\<close>); on every other input the parsers report an error and the
  formatters print nothing. \<open>Minutes\<close> is the quotient without rounding, which is what Go
  returns for the whole numbers of minutes of the examples.\<close>

definition sample_lib :: golib where
  "sample_lib =
     \<lparr>uuid_Parse = (\<lambda>s. if s = ''550e8400-e29b-41d4-a716-446655440000''
                          then Some sample_user_id else None),
      uuid_String = (\<lambda>u. if u = sample_user_id
                           then ''550e8400-e29b-41d4-a716-446655440000'' else []),
      time_Parse = (\<lambda>s. if s = ''2025-11-19T12:50:00Z'' then Some t0 else None),
      time_Format = (\<lambda>t. if t = t0 then ''2025-11-19T12:50:00Z'' else []),
      Minutes = (\<lambda>d. real_of_int d / 60000000000),
      ParseFloat = (\<lambda>s. if s = ''6.524400'' then Some 6.5244
                         else if s = ''3.379200'' then Some 3.3792
                         else if s = ''5.0'' then Some 5 else None),
      Sprintf_f6 = (\<lambda>x. if x = 6.5244 then ''6.524400''
                         else if x = 3.3792 then ''3.379200'' else []),
      Sprintf_f1 = (\<lambda>x. if x = 5 then ''5.0'' else []),
      hmac_sha256_base64 = (\<lambda>key data.
         if key = ''secret'' \<and> data = ''uid=550e8400-e29b-41d4-a716-446655440000;ts=2025-11-19T12:50:00Z;lat=6.524400;lng=3.379200;acc=200;cell=621,20,12345,678,-85''
         then ''V/TxUTiVkVpsLR87mVtwfzRTpti6/jV5s/W39Yf+POY='' else [])\<rparr>"

text \<open>A heartbeat that scores as low as a heartbeat can, a cache that answers reads and
  refuses writes, the result of scoring the poor heartbeat between 5 and 10 minutes, the
  clock reads of the SMS handler, a configuration with a 20 minute window, a fresh
  heartbeat carrying the last_gasp flag, a world with one alert that was resolved at
  12:51, and a short history.\<close>

definition worst_heartbeat :: Heartbeat where
  \<comment> \<open>the poor heartbeat with the speed of a fix that has none (\<open>-1\<close>)\<close>
  "worst_heartbeat = poor_heartbeat\<lparr>hb_Speed := Some (- 1)\<rparr>"




definition sample_sms_clock :: sms_clock where
  "sample_sms_clock =
     \<lparr>parse_now = t0 + 5 * Second, created_now = t0 + 5 * Second + Millisecond,
      lg_created_now = t0 + 5 * Second + 2 * Millisecond,
      lg_expiry_now = t0 + 5 * Second + 3 * Millisecond\<rparr>"

definition wide_window_Config :: Config where
  "wide_window_Config = default_Config\<lparr>HeartbeatWindowSeconds := 1200\<rparr>"

definition flagged_heartbeat :: Heartbeat where
  "flagged_heartbeat = fresh_heartbeat\<lparr>hb_LastGasp := True\<rparr>"

definition resolved_alert_world :: world where
  "resolved_alert_world =
     empty_world\<lparr>alerts := [sample_alert\<lparr>al_ID := sample_user_id,
                                           al_ResolvedAt := Some (t0 + 60 * Second)\<rparr>]\<rparr>"

definition sample_operations :: "operation list" where
  "sample_operations =
     [OpCreateUser sample_user, OpCreateHeartbeat fresh_heartbeat,
      OpEvaluate (paced (t0 + 30 * Second) Millisecond) 9 sample_user_id,
      OpCreateLastGasp sample_last_gasp]"

text \<open>The message of scenario 5, signed with the key \<^verbatim>\<open>secret\<close>, the heartbeat it
  parses to, the same heartbeat with a network type, and the message with a latitude
  that is not a number.\<close>

definition sample_payload :: string where
  "sample_payload = ''uid=550e8400-e29b-41d4-a716-446655440000;ts=2025-11-19T12:50:00Z;lat=6.524400;lng=3.379200;acc=200;cell=621,20,12345,678,-85''"

definition sample_signature :: string where
  "sample_signature = ''V/TxUTiVkVpsLR87mVtwfzRTpti6/jV5s/W39Yf+POY=''"

definition sample_sms :: string where
  "sample_sms = sample_payload @ '';sig='' @ sample_signature"

definition sms_heartbeat :: Heartbeat where
  "sms_heartbeat =
     \<lparr>hb_ID = 11, hb_UserID = sample_user_id, hb_Source = ''sms'', hb_Lat = 6.5244,
      hb_Lng = 3.3792, hb_AccuracyM = 200, hb_CellInfo = sample_cell (- 85),
      hb_BatteryPct = None, hb_Speed = None, hb_LastGasp = False, hb_Timestamp = t0,
      hb_Signature = sample_signature, hb_CreatedAt = t0 + 5 * Second\<rparr>"

definition lte_heartbeat :: Heartbeat where
  "lte_heartbeat = sms_heartbeat\<lparr>hb_CellInfo := (sample_cell (- 85))\<lparr>ci_NetworkType := ''4G''\<rparr>\<rparr>"

definition bad_latitude_sms :: string where
  "bad_latitude_sms = ''uid=550e8400-e29b-41d4-a716-446655440000;ts=2025-11-19T12:50:00Z;lat=abc;lng=3.379200;acc=200;cell=621,20,12345,678,-85;sig=V/TxUTiVkVpsLR87mVtwfzRTpti6/jV5s/W39Yf+POY=''"

lemmas sample_defs = sample_world_def empty_world_def sample_last_gasp_def fresh_heartbeat_def
  degraded_heartbeat_def poor_heartbeat_def sample_user_def sample_user_id_def sample_cell_def
  sample_alert_def paced_def t0_def Millisecond_def Second_def Minute_def Hour_def

lemmas state_defs = StateSafe_def StateCaution_def StateAtRisk_def StateAlert_def
  StateWaitLastGasp_def

lemmas points_defs = recency_points_def accuracy_points_def movement_points_def
  signal_points_def source_points_def battery_points_def

lemmas evaluator_defs = EvaluateUserSafety_def GetActiveLastGasp_def GetLatestHeartbeat_def
  checkDeterministicRules_def calculateSafetyScore_def handleStateTransition_def
  SetUserState_def GetUserState_def CheckAlertSent_def heartbeat_window_def wrap64_def
  time_Since_def time_Sub_def default_Config_def points_defs state_defs Let_def


section \<open>The LastGasp short-circuit\<close>

lemma latest_by_None: "latest_by k xs = None \<longleftrightarrow> xs = []"
  by (cases xs) (auto split: option.splits)

lemma GetActiveLastGasp_None:
  "GetActiveLastGasp now userID s = Inr None \<longleftrightarrow>
     pg_ok s \<and> (\<forall>g \<in> set (last_gasps s). lg_UserID g = userID \<longrightarrow> lg_ExpiryTs g \<le> now)"
  by (auto simp: GetActiveLastGasp_def latest_by_None filter_empty_conv not_less)

lemma GetActiveLastGasp_active:
  assumes "pg_ok s" and "g \<in> set (last_gasps s)" and "lg_UserID g = userID"
    and "now < lg_ExpiryTs g"
  shows "\<exists>a. GetActiveLastGasp now userID s = Inr (Some a)"
proof -
  let ?rows = "filter (\<lambda>g. lg_UserID g = userID \<and> now < lg_ExpiryTs g) (last_gasps s)"
  from assms have "?rows \<noteq> []" by (auto simp: filter_empty_conv)
  then have "latest_by lg_CreatedAt ?rows \<noteq> None" by (simp add: latest_by_None)
  then obtain a where "latest_by lg_CreatedAt ?rows = Some a" by auto
  with assms(1) show ?thesis by (simp add: GetActiveLastGasp_def)
qed

text \<open>
  Claim C1. When the database answers and the user has a LastGasp row whose expiry lies
  after the database's \<^verbatim>\<open>NOW()\<close>, \<open>EvaluateUserSafety\<close> returns WAIT_LASTGASP with score 0
  and the reason "LastGasp active - monitoring connectivity", whatever heartbeats are
  stored, and it returns the world it was given: no cache write, no alert row, no message.
\<close>

theorem C1_lastgasp_short_circuit:
  assumes "pg_ok s" and "g \<in> set (last_gasps s)" and "lg_UserID g = userID"
    and "lastgasp_now clk < lg_ExpiryTs g"
  shows "EvaluateUserSafety L cfg clk new_id userID s =
           (Inr \<lparr>er_State = ''WAIT_LASTGASP'', er_Score = 0,
                 er_Reason = ''LastGasp active - monitoring connectivity''\<rparr>, s)"
proof -
  from GetActiveLastGasp_active [OF assms] obtain a
    where "GetActiveLastGasp (lastgasp_now clk) userID s = Inr (Some a)" ..
  then show ?thesis by (simp add: EvaluateUserSafety_def StateWaitLastGasp_def)
qed

theorem C1_lastgasp_short_circuit_witness:
  "pg_ok (sample_world [fresh_heartbeat] [sample_last_gasp])
   \<and> sample_last_gasp \<in> set (last_gasps (sample_world [fresh_heartbeat] [sample_last_gasp]))
   \<and> lg_UserID sample_last_gasp = sample_user_id
   \<and> lastgasp_now (paced (t0 + 60 * Second) Millisecond) < lg_ExpiryTs sample_last_gasp
   \<and> EvaluateUserSafety sample_lib default_Config (paced (t0 + 60 * Second) Millisecond) 9
        sample_user_id (sample_world [fresh_heartbeat] [sample_last_gasp]) =
      (Inr \<lparr>er_State = ''WAIT_LASTGASP'', er_Score = 0,
            er_Reason = ''LastGasp active - monitoring connectivity''\<rparr>,
       sample_world [fresh_heartbeat] [sample_last_gasp])"
proof -
  have 1: "pg_ok (sample_world [fresh_heartbeat] [sample_last_gasp])"
    by (simp add: sample_world_def empty_world_def)
  have 2: "sample_last_gasp \<in> set (last_gasps (sample_world [fresh_heartbeat] [sample_last_gasp]))"
    by (simp add: sample_world_def)
  have 3: "lg_UserID sample_last_gasp = sample_user_id"
    by (simp add: sample_last_gasp_def)
  have 4: "lastgasp_now (paced (t0 + 60 * Second) Millisecond) < lg_ExpiryTs sample_last_gasp"
    by (simp add: sample_last_gasp_def paced_def Second_def)
  from C1_lastgasp_short_circuit [OF 1 2 3 4] 1 2 3 4 show ?thesis by simp
qed

section \<open>The stale-heartbeat rule\<close>

lemma int_of_float64_floor:
  assumes "0 \<le> k" and "real_of_int k \<le> x" and "x < real_of_int k + 1"
  shows "int_of_float64 x = k"
proof -
  from assms(1,2) have "0 \<le> x" by linarith
  moreover from assms(2,3) have "\<lfloor>x\<rfloor> = k" by linarith
  ultimately show ?thesis by (simp add: int_of_float64_def)
qed

lemma stale_rule:
  assumes "heartbeat_window cfg < time_Since now (hb_Timestamp hb)"
  shows "checkDeterministicRules L cfg now hb =
           Some \<lparr>er_State = ''AT_RISK'', er_Score = 30,
                 er_Reason = ''No heartbeat for ''
                   @ Itoa (int_of_float64 (Minutes L (time_Since now (hb_Timestamp hb))))
                   @ '' minutes''\<rparr>"
  using assms by (simp add: checkDeterministicRules_def Let_def StateAtRisk_def)

lemma boundary_rule:
  assumes "time_Since now (hb_Timestamp hb) = heartbeat_window cfg"
  shows "checkDeterministicRules L cfg now hb = None"
  using assms by (simp add: checkDeterministicRules_def Let_def)

lemma EvaluateUserSafety_deterministic:
  assumes "GetActiveLastGasp (lastgasp_now clk) userID s = Inr None"
    and "GetLatestHeartbeat userID s = Inr (Some hb)"
    and "checkDeterministicRules L cfg (rules_now clk) hb = Some r"
  shows "EvaluateUserSafety L cfg clk new_id userID s = (Inr r, s)"
  using assms by (simp add: EvaluateUserSafety_def)

text \<open>
  Claim C2, as stated: a latest heartbeat whose age is at least the heartbeat window gives
  AT_RISK with score 30, also at an age of exactly the window. At that age neither rule of
  \<open>checkDeterministicRules\<close> fires, since the first tests \<open><\<close> and the third \<open>>\<close>: with
  the default window of 600 s and no LastGasp, the fresh heartbeat of scenario 1, read by
  the rules at an age of exactly 600 s, is scored and comes out SAFE with score 80.
\<close>

theorem C2_window_boundary_is_scored:
  "GetActiveLastGasp (lastgasp_now (paced (t0 + 600 * Second - Millisecond) Millisecond))
       sample_user_id (sample_world [fresh_heartbeat] []) = Inr None
   \<and> GetLatestHeartbeat sample_user_id (sample_world [fresh_heartbeat] []) =
       Inr (Some fresh_heartbeat)
   \<and> time_Since (rules_now (paced (t0 + 600 * Second - Millisecond) Millisecond))
       (hb_Timestamp fresh_heartbeat) = heartbeat_window default_Config
   \<and> heartbeat_window default_Config = 600 * Second
   \<and> fst (EvaluateUserSafety sample_lib default_Config
             (paced (t0 + 600 * Second - Millisecond) Millisecond) 9 sample_user_id
             (sample_world [fresh_heartbeat] [])) =
       Inr \<lparr>er_State = ''SAFE'', er_Score = 80, er_Reason = ''All indicators normal''\<rparr>"
  by (simp add: evaluator_defs sample_defs)

text \<open>
  Claim C2, amended. With no active LastGasp and a latest heartbeat whose age, when the
  rules read the clock, is above the heartbeat window, \<open>EvaluateUserSafety\<close> returns AT_RISK
  with score 30 and the reason "No heartbeat for N minutes", and changes nothing. N is
  \<^verbatim>\<open>int(age.Minutes())\<close>; it is the floor of the age in minutes whenever the age is not
  negative and the float64 that \<^verbatim>\<open>Minutes\<close> returns lies in the same whole minute as the
  age. At an age of exactly the window \<open>checkDeterministicRules\<close> returns no result.
\<close>

theorem C2_stale_heartbeat_at_risk:
  assumes "GetActiveLastGasp (lastgasp_now clk) userID s = Inr None"
    and "GetLatestHeartbeat userID s = Inr (Some hb)"
    and "age = time_Since (rules_now clk) (hb_Timestamp hb)"
  shows "(heartbeat_window cfg < age \<longrightarrow>
            EvaluateUserSafety L cfg clk new_id userID s =
              (Inr \<lparr>er_State = ''AT_RISK'', er_Score = 30,
                    er_Reason = ''No heartbeat for '' @ Itoa (int_of_float64 (Minutes L age))
                      @ '' minutes''\<rparr>, s)
            \<and> (0 \<le> age \<and> real_of_int (age div Minute) \<le> Minutes L age
                  \<and> Minutes L age < real_of_int (age div Minute) + 1
                 \<longrightarrow> int_of_float64 (Minutes L age) = age div Minute))
         \<and> (age = heartbeat_window cfg \<longrightarrow> checkDeterministicRules L cfg (rules_now clk) hb = None)"
proof (intro conjI impI)
  assume "heartbeat_window cfg < age"
  then have "heartbeat_window cfg < time_Since (rules_now clk) (hb_Timestamp hb)"
    by (simp add: assms(3))
  from EvaluateUserSafety_deterministic [OF assms(1,2) stale_rule [OF this]]
  show "EvaluateUserSafety L cfg clk new_id userID s =
              (Inr \<lparr>er_State = ''AT_RISK'', er_Score = 30,
                    er_Reason = ''No heartbeat for '' @ Itoa (int_of_float64 (Minutes L age))
                      @ '' minutes''\<rparr>, s)"
    by (simp add: assms(3))
next
  assume "0 \<le> age \<and> real_of_int (age div Minute) \<le> Minutes L age
                  \<and> Minutes L age < real_of_int (age div Minute) + 1"
  moreover have "0 < Minute" by (simp add: Minute_def Second_def)
  ultimately show "int_of_float64 (Minutes L age) = age div Minute"
    by (intro int_of_float64_floor) (simp_all add: pos_imp_zdiv_nonneg_iff)
next
  assume "age = heartbeat_window cfg"
  then show "checkDeterministicRules L cfg (rules_now clk) hb = None"
    by (intro boundary_rule) (simp add: assms(3))
qed

theorem C2_stale_heartbeat_at_risk_witness:
  "GetActiveLastGasp (lastgasp_now (paced (t0 + 11 * Minute - Millisecond) Millisecond))
       sample_user_id (sample_world [fresh_heartbeat] []) = Inr None
   \<and> GetLatestHeartbeat sample_user_id (sample_world [fresh_heartbeat] []) =
       Inr (Some fresh_heartbeat)
   \<and> 11 * Minute =
       time_Since (rules_now (paced (t0 + 11 * Minute - Millisecond) Millisecond))
         (hb_Timestamp fresh_heartbeat)
   \<and> heartbeat_window default_Config < 11 * Minute
   \<and> 0 \<le> 11 * Minute
   \<and> real_of_int (11 * Minute div Minute) \<le> Minutes sample_lib (11 * Minute)
   \<and> Minutes sample_lib (11 * Minute) < real_of_int (11 * Minute div Minute) + 1
   \<and> EvaluateUserSafety sample_lib default_Config
        (paced (t0 + 11 * Minute - Millisecond) Millisecond) 9 sample_user_id
        (sample_world [fresh_heartbeat] []) =
      (Inr \<lparr>er_State = ''AT_RISK'', er_Score = 30,
            er_Reason = ''No heartbeat for 11 minutes''\<rparr>,
       sample_world [fresh_heartbeat] [])
   \<and> GetActiveLastGasp (lastgasp_now (paced (t0 + 600 * Second - Millisecond) Millisecond))
       sample_user_id (sample_world [fresh_heartbeat] []) = Inr None
   \<and> heartbeat_window default_Config =
       time_Since (rules_now (paced (t0 + 600 * Second - Millisecond) Millisecond))
         (hb_Timestamp fresh_heartbeat)
   \<and> checkDeterministicRules sample_lib default_Config
        (rules_now (paced (t0 + 600 * Second - Millisecond) Millisecond)) fresh_heartbeat = None"
proof -
  let ?w = "sample_world [fresh_heartbeat] []"
  let ?clk = "paced (t0 + 11 * Minute - Millisecond) Millisecond"
  have 1: "GetActiveLastGasp (lastgasp_now ?clk) sample_user_id ?w = Inr None"
    by (simp add: GetActiveLastGasp_def sample_defs)
  have 2: "GetLatestHeartbeat sample_user_id ?w = Inr (Some fresh_heartbeat)"
    by (simp add: GetLatestHeartbeat_def sample_world_def empty_world_def fresh_heartbeat_def)
  have 3: "11 * Minute = time_Since (rules_now ?clk) (hb_Timestamp fresh_heartbeat)"
    by (simp add: time_Since_def time_Sub_def sample_defs)
  have 4: "heartbeat_window default_Config < 11 * Minute"
    by (simp add: heartbeat_window_def wrap64_def default_Config_def Minute_def Second_def)
  have 5: "0 \<le> 11 * Minute" by (simp add: Minute_def Second_def)
  have 6: "real_of_int (11 * Minute div Minute) \<le> Minutes sample_lib (11 * Minute)"
    by (simp add: sample_lib_def Minute_def Second_def)
  have 7: "Minutes sample_lib (11 * Minute) < real_of_int (11 * Minute div Minute) + 1"
    by (simp add: sample_lib_def Minute_def Second_def)
  have n: "11 * Minute div Minute = 11" by (simp add: Minute_def Second_def)
  have d: "Itoa 11 = ''11''"
    by (simp add: Itoa_def nat_digits.simps digit_char_def)
  from C2_stale_heartbeat_at_risk [OF 1 2 3, of default_Config sample_lib 9] 4 5 6 7
  have "EvaluateUserSafety sample_lib default_Config ?clk 9 sample_user_id ?w =
          (Inr \<lparr>er_State = ''AT_RISK'', er_Score = 30,
                er_Reason = ''No heartbeat for ''
                  @ Itoa (int_of_float64 (Minutes sample_lib (11 * Minute))) @ '' minutes''\<rparr>, ?w)"
    and "int_of_float64 (Minutes sample_lib (11 * Minute)) = 11 * Minute div Minute"
    by blast+
  then have "EvaluateUserSafety sample_lib default_Config ?clk 9 sample_user_id ?w =
      (Inr \<lparr>er_State = ''AT_RISK'', er_Score = 30,
            er_Reason = ''No heartbeat for 11 minutes''\<rparr>, ?w)"
    by (simp add: n d)
  moreover
  let ?edge = "paced (t0 + 600 * Second - Millisecond) Millisecond"
  have 8: "GetActiveLastGasp (lastgasp_now ?edge) sample_user_id ?w = Inr None"
    by (simp add: GetActiveLastGasp_def sample_defs)
  have 9: "heartbeat_window default_Config =
             time_Since (rules_now ?edge) (hb_Timestamp fresh_heartbeat)"
    by (simp add: time_Since_def time_Sub_def heartbeat_window_def wrap64_def default_Config_def
        sample_defs)
  from C2_stale_heartbeat_at_risk [OF 8 2 9, of default_Config sample_lib 9]
  have "checkDeterministicRules sample_lib default_Config (rules_now ?edge) fresh_heartbeat = None"
    by simp
  ultimately show ?thesis using 1 2 3 4 5 6 7 8 9 by (simp only: simp_thms)
qed

section \<open>One run of the evaluator\<close>

lemma scored_result_state:
  "er_State (scored_result sc) \<in> {''SAFE'', ''CAUTION'', ''AT_RISK''}"
  by (simp add: scored_result_def state_defs)

lemma scored_result_not_alert: "er_State (scored_result sc) \<noteq> StateAlert"
  by (simp add: scored_result_def state_defs)

text \<open>In the scoring branch the evaluation is the transition step, run in the world that
  the \<^verbatim>\<open>SET\<close> of the user's state left.\<close>

lemma EvaluateUserSafety_scoring_shape:
  assumes "GetActiveLastGasp (lastgasp_now clk) userID s = Inr None"
    and "GetLatestHeartbeat userID s = Inr (Some hb)"
    and "checkDeterministicRules L cfg (rules_now clk) hb = None"
    and "sc = calculateSafetyScore (score_now clk) userID hb"
  shows "EvaluateUserSafety L cfg clk new_id userID s =
           (case handleStateTransition clk new_id userID (er_State (scored_result sc)) sc
                   (er_Reason (scored_result sc)) (after_set clk userID hb sc s) of
              (Some e, s2) \<Rightarrow> (Inl (Wrap ''failed to handle state transition'' e), s2)
            | (None, s2) \<Rightarrow> (Inr (scored_result sc), s2))"
  using assms
  by (simp add: EvaluateUserSafety_def Let_def scored_result_def cached_state_def
      after_set_def keep_def split: prod.split option.split)

lemma after_set_accepted:
  assumes "redis_ok s" and "redis_writable s"
  shows "after_set clk userID hb sc s =
           s\<lparr>user_state := (user_state s)(userID \<mapsto>
                (cached_state userID (state_now clk) hb sc, set_now clk + 24 * Hour))\<rparr>"
  using assms by (simp add: after_set_def keep_def SetUserState_def cached_state_def)

lemma after_set_refused:
  assumes "\<not> (redis_ok s \<and> redis_writable s)"
  shows "after_set clk userID hb sc s = s"
  using assms by (simp add: after_set_def keep_def SetUserState_def)

lemma after_set_cases:
  "after_set clk userID hb sc s = s
   \<or> after_set clk userID hb sc s =
       s\<lparr>user_state := (user_state s)(userID \<mapsto>
            (cached_state userID (state_now clk) hb sc, set_now clk + 24 * Hour))\<rparr>"
  using after_set_accepted [of s clk userID hb sc] after_set_refused [of s clk userID hb sc]
  by blast

lemma handleStateTransition_same_state:
  assumes "redis_ok s" and "user_state s userID = Some (st, e)" and "get_now clk < e"
    and "us_State st = newState" and "newState \<noteq> StateAlert"
  shows "handleStateTransition clk new_id userID newState score reason s = (None, s)"
  using assms by (simp add: handleStateTransition_def GetUserState_def)


text \<open>With the cache answering and accepting writes, and the entry read back before it
  expires, the transition step finds the state that was just written and does nothing.\<close>

lemma EvaluateUserSafety_scoring:
  assumes "redis_ok s" and "redis_writable s" and "get_now clk < set_now clk + 24 * Hour"
    and "GetActiveLastGasp (lastgasp_now clk) userID s = Inr None"
    and "GetLatestHeartbeat userID s = Inr (Some hb)"
    and "checkDeterministicRules L cfg (rules_now clk) hb = None"
  shows "EvaluateUserSafety L cfg clk new_id userID s =
           (Inr (scored_result (calculateSafetyScore (score_now clk) userID hb)),
            s\<lparr>user_state := (user_state s)(userID \<mapsto>
                (cached_state userID (state_now clk) hb
                   (calculateSafetyScore (score_now clk) userID hb),
                 set_now clk + 24 * Hour))\<rparr>)"
proof -
  define sc where "sc = calculateSafetyScore (score_now clk) userID hb"
  define st where "st = cached_state userID (state_now clk) hb sc"
  define s1 where "s1 = s\<lparr>user_state := (user_state s)(userID \<mapsto> (st, set_now clk + 24 * Hour))\<rparr>"
  have set: "after_set clk userID hb sc s = s1"
    using after_set_accepted [OF assms(1,2)] by (simp add: s1_def st_def)
  have "handleStateTransition clk new_id userID (er_State (scored_result sc)) sc
          (er_Reason (scored_result sc)) s1 = (None, s1)"
  proof (rule handleStateTransition_same_state)
    show "redis_ok s1" using assms(1) by (simp add: s1_def)
    show "user_state s1 userID = Some (st, set_now clk + 24 * Hour)" by (simp add: s1_def)
    show "get_now clk < set_now clk + 24 * Hour" by (rule assms(3))
    show "us_State st = er_State (scored_result sc)" by (simp add: st_def cached_state_def)
    show "er_State (scored_result sc) \<noteq> StateAlert" by (rule scored_result_not_alert)
  qed
  with EvaluateUserSafety_scoring_shape [OF assms(4-6) sc_def, of new_id] set
  have "EvaluateUserSafety L cfg clk new_id userID s = (Inr (scored_result sc), s1)"
    by simp
  then show ?thesis
    by (simp add: s1_def sc_def st_def)
qed

text \<open>Whatever the cache does, a result returned from the scoring branch is the scored
  result.\<close>

lemma EvaluateUserSafety_scored_result:
  assumes "GetActiveLastGasp (lastgasp_now clk) userID s = Inr None"
    and "GetLatestHeartbeat userID s = Inr (Some hb)"
    and "checkDeterministicRules L cfg (rules_now clk) hb = None"
    and "fst (EvaluateUserSafety L cfg clk new_id userID s) = Inr r"
  shows "r = scored_result (calculateSafetyScore (score_now clk) userID hb)"
proof -
  define sc where "sc = calculateSafetyScore (score_now clk) userID hb"
  obtain e s2 where h: "handleStateTransition clk new_id userID (er_State (scored_result sc)) sc
                   (er_Reason (scored_result sc)) (after_set clk userID hb sc s) = (e, s2)"
    by (cases "handleStateTransition clk new_id userID (er_State (scored_result sc)) sc
                   (er_Reason (scored_result sc)) (after_set clk userID hb sc s)") blast
  from EvaluateUserSafety_scoring_shape [OF assms(1-3) sc_def, of new_id] h assms(4)
  have "r = scored_result sc" by (cases e) simp_all
  then show ?thesis by (simp add: sc_def)
qed

text \<open>What the goroutine and the transition step may change.\<close>

lemma alert_step_refl: "alert_step s s"
  by (simp add: alert_step_def)

lemma alert_goroutine_effect:
  "pg_ok (alert_goroutine now user hb score reason userID s) = pg_ok s
   \<and> redis_ok (alert_goroutine now user hb score reason userID s) = redis_ok s
   \<and> redis_writable (alert_goroutine now user hb score reason userID s) = redis_writable s
   \<and> users (alert_goroutine now user hb score reason userID s) = users s
   \<and> heartbeats (alert_goroutine now user hb score reason userID s) = heartbeats s
   \<and> last_gasps (alert_goroutine now user hb score reason userID s) = last_gasps s
   \<and> user_state (alert_goroutine now user hb score reason userID s) = user_state s
   \<and> ratelimit (alert_goroutine now user hb score reason userID s) = ratelimit s
   \<and> alerts (alert_goroutine now user hb score reason userID s) = alerts s
   \<and> (outbox (alert_goroutine now user hb score reason userID s) = outbox s
       \<or> (\<exists>message. outbox (alert_goroutine now user hb score reason userID s) =
             outbox s @ alert_burst user message))"
  by (auto simp: alert_goroutine_def SendAlertToContacts_def MarkAlertSent_def Let_def
      split: option.split error.split sum.split)

lemma CreateAlert_effect:
  assumes "CreateAlert alert s = Inr s1"
  shows "pg_ok s1 = pg_ok s \<and> redis_ok s1 = redis_ok s \<and> redis_writable s1 = redis_writable s
         \<and> users s1 = users s \<and> heartbeats s1 = heartbeats s \<and> last_gasps s1 = last_gasps s
         \<and> user_state s1 = user_state s \<and> ratelimit s1 = ratelimit s
         \<and> outbox s1 = outbox s \<and> (\<exists>a. alerts s1 = alerts s @ [a])"
  using assms by (auto simp: CreateAlert_def split: if_splits)

lemma alert_step_created:
  assumes "CreateAlert alert s = Inr s1"
  shows "alert_step s s1"
  using CreateAlert_effect [OF assms] by (simp add: alert_step_def)

lemma alert_step_sent:
  assumes "CreateAlert alert s = Inr s1"
  shows "alert_step s (alert_goroutine now user hb score reason userID s1)"
  using CreateAlert_effect [OF assms] alert_goroutine_effect [of now user hb score reason userID s1]
  unfolding alert_step_def by metis

lemma handleStateTransition_step:
  "alert_step s (snd (handleStateTransition clk new_id userID newState score reason s))"
  by (auto simp: handleStateTransition_def Let_def alert_step_refl
      intro: alert_step_created alert_step_sent split: sum.split option.split)

lemma EvaluateUserSafety_step:
  "evaluation_step clk userID s (snd (EvaluateUserSafety L cfg clk new_id userID s))"
proof (cases "GetActiveLastGasp (lastgasp_now clk) userID s")
  case (Inl e)
  then show ?thesis by (simp add: EvaluateUserSafety_def evaluation_step_def alert_step_refl)
next
  case lg: (Inr active)
  show ?thesis
  proof (cases active)
    case (Some a)
    with lg show ?thesis by (simp add: EvaluateUserSafety_def evaluation_step_def alert_step_refl)
  next
    case None
    note nolg = lg [unfolded None]
    show ?thesis
    proof (cases "GetLatestHeartbeat userID s")
      case (Inl e)
      with nolg show ?thesis
        by (simp add: EvaluateUserSafety_def evaluation_step_def alert_step_refl)
    next
      case latest: (Inr found)
      show ?thesis
      proof (cases found)
        case None
        with nolg latest show ?thesis
          by (simp add: EvaluateUserSafety_def evaluation_step_def alert_step_refl)
      next
        case (Some hb)
        note hb = latest [unfolded Some]
        show ?thesis
        proof (cases "checkDeterministicRules L cfg (rules_now clk) hb")
          case (Some r)
          from EvaluateUserSafety_deterministic [OF nolg hb Some] show ?thesis
            by (simp add: evaluation_step_def alert_step_refl)
        next
          case None
          define sc where "sc = calculateSafetyScore (score_now clk) userID hb"
          let ?s1 = "after_set clk userID hb sc s"
          let ?h = "handleStateTransition clk new_id userID (er_State (scored_result sc)) sc
                      (er_Reason (scored_result sc)) ?s1"
          from EvaluateUserSafety_scoring_shape [OF nolg hb None sc_def, of new_id]
          have "snd (EvaluateUserSafety L cfg clk new_id userID s) = snd ?h"
            by (simp split: prod.split option.split)
          moreover have "alert_step ?s1 (snd ?h)" by (rule handleStateTransition_step)
          ultimately have "alert_step ?s1 (snd (EvaluateUserSafety L cfg clk new_id userID s))"
            by simp
          with after_set_cases [of clk userID hb sc s] show ?thesis
            unfolding evaluation_step_def by metis
        qed
      qed
    qed
  qed
qed








lemma EvaluateUserSafety_score:
  assumes "GetActiveLastGasp (lastgasp_now clk) userID s = Inr None"
    and "GetLatestHeartbeat userID s = Inr (Some hb)"
    and "fst (EvaluateUserSafety L cfg clk new_id userID s) = Inr r"
  shows "er_Score r = evaluation_score L cfg clk userID hb"
proof (cases "checkDeterministicRules L cfg (rules_now clk) hb")
  case None
  from EvaluateUserSafety_scored_result [OF assms(1,2) None assms(3)] show ?thesis
    by (simp add: evaluation_score_def None scored_result_def)
next
  case (Some d)
  from EvaluateUserSafety_deterministic [OF assms(1,2) Some, of new_id] assms(3) show ?thesis
    by (simp add: evaluation_score_def Some)
qed

lemma EvaluateUserSafety_returns:
  assumes "redis_ok s" and "redis_writable s" and "get_now clk < set_now clk + 24 * Hour"
    and "GetActiveLastGasp (lastgasp_now clk) userID s = Inr None"
    and "GetLatestHeartbeat userID s = Inr (Some hb)"
  shows "\<exists>r. fst (EvaluateUserSafety L cfg clk new_id userID s) = Inr r"
proof (cases "checkDeterministicRules L cfg (rules_now clk) hb")
  case None
  from EvaluateUserSafety_scoring [OF assms None, of new_id] show ?thesis by simp
next
  case (Some d)
  from EvaluateUserSafety_deterministic [OF assms(4,5) Some, of new_id] show ?thesis by simp
qed

section \<open>Score bands\<close>

text \<open>
  Claim C3. Take a heartbeat that reaches composite scoring: no active LastGasp, an age
  below the heartbeat window when the rules read the clock, last_gasp flag false. Every
  result that \<open>EvaluateUserSafety\<close> returns for it carries the composite score, and its
  state is SAFE exactly when the score is at least 80, CAUTION exactly when it is at least
  50 and below 80, and AT_RISK exactly when it is below 50. The degraded heartbeat of
  scenario 2 (age 8 min when the score is computed, accuracy 300 m, no speed, RSSI -95,
  battery 10, source sms) scores 20+10+15+0+3+10 = 58 and is CAUTION. A result is
  returned whenever the cache answers, accepts the write of the user's state and returns
  it before its 24 hours have passed.
\<close>

theorem C3_state_follows_score:
  assumes "GetActiveLastGasp (lastgasp_now clk) userID s = Inr None"
    and "GetLatestHeartbeat userID s = Inr (Some hb)"
    and "time_Since (rules_now clk) (hb_Timestamp hb) < heartbeat_window cfg"
    and "\<not> hb_LastGasp hb"
  shows "(redis_ok s \<and> redis_writable s \<and> get_now clk < set_now clk + 24 * Hour
            \<longrightarrow> (\<exists>r. fst (EvaluateUserSafety L cfg clk new_id userID s) = Inr r))
         \<and> (\<forall>r. fst (EvaluateUserSafety L cfg clk new_id userID s) = Inr r \<longrightarrow>
               er_Score r = calculateSafetyScore (score_now clk) userID hb
             \<and> (er_State r = ''SAFE'' \<longleftrightarrow> 80 \<le> er_Score r)
             \<and> (er_State r = ''CAUTION'' \<longleftrightarrow> 50 \<le> er_Score r \<and> er_Score r < 80)
             \<and> (er_State r = ''AT_RISK'' \<longleftrightarrow> er_Score r < 50)
             \<and> (time_Since (score_now clk) (hb_Timestamp hb) = 8 * Minute
                  \<and> hb_AccuracyM hb = 300 \<and> hb_Speed hb = None
                  \<and> ci_RSSI (hb_CellInfo hb) = - 95 \<and> hb_BatteryPct hb = Some 10
                  \<and> hb_Source hb = ''sms''
                 \<longrightarrow> er_Score r = 58 \<and> er_State r = ''CAUTION''))"
proof -
  let ?sc = "calculateSafetyScore (score_now clk) userID hb"
  from assms(3,4) have none: "checkDeterministicRules L cfg (rules_now clk) hb = None"
    by (simp add: checkDeterministicRules_def Let_def)
  have returns: "redis_ok s \<and> redis_writable s \<and> get_now clk < set_now clk + 24 * Hour
            \<longrightarrow> (\<exists>r. fst (EvaluateUserSafety L cfg clk new_id userID s) = Inr r)"
    using EvaluateUserSafety_returns [OF _ _ _ assms(1,2)] by blast
  have score: "er_Score (scored_result ?sc) = ?sc"
    by (simp add: scored_result_def)
  have safe: "er_State (scored_result ?sc) = ''SAFE'' \<longleftrightarrow> 80 \<le> er_Score (scored_result ?sc)"
    by (simp add: scored_result_def state_defs)
  have caution: "er_State (scored_result ?sc) = ''CAUTION''
      \<longleftrightarrow> 50 \<le> er_Score (scored_result ?sc) \<and> er_Score (scored_result ?sc) < 80"
    by (simp add: scored_result_def state_defs)
  have at_risk: "er_State (scored_result ?sc) = ''AT_RISK'' \<longleftrightarrow> er_Score (scored_result ?sc) < 50"
    by (simp add: scored_result_def state_defs)
  have degraded: "time_Since (score_now clk) (hb_Timestamp hb) = 8 * Minute
                  \<and> hb_AccuracyM hb = 300 \<and> hb_Speed hb = None
                  \<and> ci_RSSI (hb_CellInfo hb) = - 95 \<and> hb_BatteryPct hb = Some 10
                  \<and> hb_Source hb = ''sms''
                 \<longrightarrow> er_Score (scored_result ?sc) = 58 \<and> er_State (scored_result ?sc) = ''CAUTION''"
  proof
    assume "time_Since (score_now clk) (hb_Timestamp hb) = 8 * Minute
                  \<and> hb_AccuracyM hb = 300 \<and> hb_Speed hb = None
                  \<and> ci_RSSI (hb_CellInfo hb) = - 95 \<and> hb_BatteryPct hb = Some 10
                  \<and> hb_Source hb = ''sms''"
    then have "?sc = 58"
      by (simp add: calculateSafetyScore_def points_defs Let_def Minute_def Second_def)
    then show "er_Score (scored_result ?sc) = 58 \<and> er_State (scored_result ?sc) = ''CAUTION''"
      by (simp add: scored_result_def state_defs)
  qed
  have result: "r = scored_result ?sc"
    if "fst (EvaluateUserSafety L cfg clk new_id userID s) = Inr r" for r
    using EvaluateUserSafety_scored_result [OF assms(1,2) none that] .
  show ?thesis
  proof (rule conjI [OF returns], intro allI impI conjI)
    fix r assume "fst (EvaluateUserSafety L cfg clk new_id userID s) = Inr r"
    then have r: "r = scored_result ?sc" by (rule result)
    show "er_Score r = ?sc" unfolding r by (rule score)
    show "er_State r = ''SAFE'' \<longleftrightarrow> 80 \<le> er_Score r" unfolding r by (rule safe)
    show "er_State r = ''CAUTION'' \<longleftrightarrow> 50 \<le> er_Score r \<and> er_Score r < 80"
      unfolding r by (rule caution)
    show "er_State r = ''AT_RISK'' \<longleftrightarrow> er_Score r < 50" unfolding r by (rule at_risk)
    assume "time_Since (score_now clk) (hb_Timestamp hb) = 8 * Minute
                  \<and> hb_AccuracyM hb = 300 \<and> hb_Speed hb = None
                  \<and> ci_RSSI (hb_CellInfo hb) = - 95 \<and> hb_BatteryPct hb = Some 10
                  \<and> hb_Source hb = ''sms''"
    with degraded have both: "er_Score r = 58 \<and> er_State r = ''CAUTION''" unfolding r by blast
    from both show "er_Score r = 58" ..
    from both show "er_State r = ''CAUTION''" ..
  qed
qed

theorem C3_state_follows_score_witness:
  "GetActiveLastGasp (lastgasp_now (paced (t0 + 8 * Minute - 2 * Millisecond) Millisecond))
       sample_user_id (sample_world [degraded_heartbeat] []) = Inr None
   \<and> GetLatestHeartbeat sample_user_id (sample_world [degraded_heartbeat] []) =
       Inr (Some degraded_heartbeat)
   \<and> time_Since (rules_now (paced (t0 + 8 * Minute - 2 * Millisecond) Millisecond))
       (hb_Timestamp degraded_heartbeat) < heartbeat_window default_Config
   \<and> \<not> hb_LastGasp degraded_heartbeat
   \<and> redis_ok (sample_world [degraded_heartbeat] [])
   \<and> redis_writable (sample_world [degraded_heartbeat] [])
   \<and> get_now (paced (t0 + 8 * Minute - 2 * Millisecond) Millisecond)
       < set_now (paced (t0 + 8 * Minute - 2 * Millisecond) Millisecond) + 24 * Hour
   \<and> time_Since (score_now (paced (t0 + 8 * Minute - 2 * Millisecond) Millisecond))
       (hb_Timestamp degraded_heartbeat) = 8 * Minute
   \<and> fst (EvaluateUserSafety sample_lib default_Config
             (paced (t0 + 8 * Minute - 2 * Millisecond) Millisecond) 9 sample_user_id
             (sample_world [degraded_heartbeat] [])) =
      Inr \<lparr>er_State = ''CAUTION'', er_Score = 58,
           er_Reason = ''Some indicators concerning - silent check initiated''\<rparr>"
proof -
  let ?w = "sample_world [degraded_heartbeat] []"
  let ?clk = "paced (t0 + 8 * Minute - 2 * Millisecond) Millisecond"
  let ?E = "EvaluateUserSafety sample_lib default_Config ?clk 9 sample_user_id ?w"
  have 1: "GetActiveLastGasp (lastgasp_now ?clk) sample_user_id ?w = Inr None"
    by (simp add: GetActiveLastGasp_def sample_defs)
  have 2: "GetLatestHeartbeat sample_user_id ?w = Inr (Some degraded_heartbeat)"
    by (simp add: GetLatestHeartbeat_def sample_world_def empty_world_def degraded_heartbeat_def)
  have 3: "time_Since (rules_now ?clk) (hb_Timestamp degraded_heartbeat)
             < heartbeat_window default_Config"
    by (simp add: time_Since_def time_Sub_def heartbeat_window_def wrap64_def default_Config_def
        sample_defs)
  have 4: "\<not> hb_LastGasp degraded_heartbeat" by (simp add: degraded_heartbeat_def)
  have 5: "redis_ok ?w" "redis_writable ?w" by (simp_all add: sample_defs)
  have 6: "get_now ?clk < set_now ?clk + 24 * Hour" by (simp add: sample_defs)
  have 7: "time_Since (score_now ?clk) (hb_Timestamp degraded_heartbeat) = 8 * Minute"
    by (simp add: time_Since_def time_Sub_def sample_defs)
  have 8: "hb_AccuracyM degraded_heartbeat = 300 \<and> hb_Speed degraded_heartbeat = None
           \<and> ci_RSSI (hb_CellInfo degraded_heartbeat) = - 95
           \<and> hb_BatteryPct degraded_heartbeat = Some 10 \<and> hb_Source degraded_heartbeat = ''sms''"
    by (simp add: sample_defs)
  note C3 = C3_state_follows_score [OF 1 2 3 4, of sample_lib 9]
  from C3 5 6 obtain r where r: "fst ?E = Inr r" by blast
  with C3 7 8 have "er_Score r = 58" and "er_State r = ''CAUTION''" by blast+
  moreover have "fst ?E =
      Inr \<lparr>er_State = ''CAUTION'', er_Score = 58,
           er_Reason = ''Some indicators concerning - silent check initiated''\<rparr>"
    by (simp add: evaluator_defs sample_defs)
  ultimately show ?thesis using 1 2 3 4 5 6 7 by (simp only: simp_thms)
qed

section \<open>Score and staleness\<close>

lemma wide_window_rise:
  "returned_score (EvaluateUserSafety sample_lib wide_window_Config
      (paced (t0 + 16 * Minute) Millisecond) 9 sample_user_id
      (sample_world [poor_heartbeat] [])) = Some 23
   \<and> returned_score (EvaluateUserSafety sample_lib wide_window_Config
      (paced (t0 + 21 * Minute) Millisecond) 9 sample_user_id
      (sample_world [poor_heartbeat] [])) = Some 30"
  by (simp add: returned_score_def wide_window_Config_def evaluator_defs sample_defs)

lemma boundary_rise:
  "returned_score (EvaluateUserSafety sample_lib default_Config
      (paced (t0 + 599 * Second) Millisecond) 9 sample_user_id
      (sample_world [flagged_heartbeat] [])) = Some 60
   \<and> returned_score (EvaluateUserSafety sample_lib default_Config
      (paced (t0 + 600 * Second - Millisecond) Millisecond) 9 sample_user_id
      (sample_world [flagged_heartbeat] [])) = Some 80"
  by (simp add: returned_score_def flagged_heartbeat_def evaluator_defs sample_defs)

lemma second_read_rise:
  "rules_now (paced (t0 + 600 * Second - 150) 100) = t0 + 600 * Second - 50
   \<and> score_now (paced (t0 + 600 * Second - 150) 100) = t0 + 600 * Second + 50
   \<and> returned_score (EvaluateUserSafety sample_lib default_Config
      (paced (t0 + 600 * Second - 150) 100) 9 sample_user_id
      (sample_world [worst_heartbeat] [])) = Some 23
   \<and> returned_score (EvaluateUserSafety sample_lib default_Config
      (paced (t0 + 601 * Second) Millisecond) 9 sample_user_id
      (sample_world [worst_heartbeat] [])) = Some 30"
  by (simp add: returned_score_def worst_heartbeat_def evaluator_defs sample_defs)

lemma time_Since_mono: "now1 \<le> now2 \<Longrightarrow> time_Since now1 t \<le> time_Since now2 t"
  by (simp add: time_Since_def time_Sub_def)

lemma recency_points_mono: "a1 \<le> a2 \<Longrightarrow> recency_points a2 \<le> recency_points a1"
  by (simp add: recency_points_def)

lemma recency_points_recent: "a < 10 * Minute \<Longrightarrow> 20 \<le> recency_points a"
  by (simp add: recency_points_def)

lemma recency_points_range: "0 \<le> recency_points a \<and> recency_points a \<le> 30"
  by (simp add: recency_points_def)

lemma accuracy_points_range: "5 \<le> accuracy_points hb \<and> accuracy_points hb \<le> 20"
  by (simp add: accuracy_points_def)

lemma movement_points_range: "0 \<le> movement_points hb \<and> movement_points hb \<le> 20"
  by (simp add: movement_points_def split: option.split)

lemma signal_points_range: "0 \<le> signal_points hb \<and> signal_points hb \<le> 10"
  by (simp add: signal_points_def)

lemma source_points_range: "3 \<le> source_points hb \<and> source_points hb \<le> 5"
  by (simp add: source_points_def)

lemma battery_points_range: "5 \<le> battery_points hb \<and> battery_points hb \<le> 15"
  by (simp add: battery_points_def split: option.split)

lemma calculateSafetyScore_sum:
  "calculateSafetyScore now userID hb =
     recency_points (time_Since now (hb_Timestamp hb)) + accuracy_points hb + movement_points hb
       + signal_points hb + source_points hb + battery_points hb"
  using recency_points_range [of "time_Since now (hb_Timestamp hb)"] accuracy_points_range [of hb]
    movement_points_range [of hb] signal_points_range [of hb] source_points_range [of hb]
    battery_points_range [of hb]
  by (simp add: calculateSafetyScore_def Let_def)

lemma calculateSafetyScore_mono:
  "now1 \<le> now2 \<Longrightarrow> calculateSafetyScore now2 userID hb \<le> calculateSafetyScore now1 userID hb"
  by (simp add: calculateSafetyScore_sum recency_points_mono time_Since_mono)

lemma calculateSafetyScore_recent:
  assumes "time_Since now (hb_Timestamp hb) < 10 * Minute"
  shows "33 \<le> calculateSafetyScore now userID hb"
  using recency_points_recent [OF assms] accuracy_points_range [of hb]
    movement_points_range [of hb] signal_points_range [of hb] source_points_range [of hb]
    battery_points_range [of hb]
  by (simp add: calculateSafetyScore_sum)

lemma evaluation_score_mono:
  assumes "rules_now clk1 \<le> rules_now clk2" and "score_now clk1 \<le> score_now clk2"
    and "time_Since (rules_now clk1) (hb_Timestamp hb) \<noteq> heartbeat_window cfg"
    and "time_Since (rules_now clk2) (hb_Timestamp hb) \<noteq> heartbeat_window cfg"
    and "time_Since (rules_now clk1) (hb_Timestamp hb) < heartbeat_window cfg
         \<longrightarrow> time_Since (score_now clk1) (hb_Timestamp hb) < 10 * Minute"
  shows "evaluation_score L cfg clk2 userID hb \<le> evaluation_score L cfg clk1 userID hb"
proof -
  let ?a1 = "time_Since (rules_now clk1) (hb_Timestamp hb)"
  let ?a2 = "time_Since (rules_now clk2) (hb_Timestamp hb)"
  let ?W = "heartbeat_window cfg"
  have le: "?a1 \<le> ?a2" using assms(1) by (rule time_Since_mono)
  consider (both_recent) "?a2 < ?W" | (crossing) "?a1 < ?W" "?W < ?a2" | (both_stale) "?W < ?a1"
    using assms(3,4) le by linarith
  then show ?thesis
  proof cases
    case both_recent
    with le have "?a1 < ?W" by simp
    with both_recent show ?thesis
      using calculateSafetyScore_mono [OF assms(2), of userID hb]
      by (simp add: evaluation_score_def checkDeterministicRules_def Let_def)
  next
    case crossing
    from crossing(1) assms(5) have "time_Since (score_now clk1) (hb_Timestamp hb) < 10 * Minute"
      by simp
    from calculateSafetyScore_recent [OF this, of userID] crossing show ?thesis
      by (simp add: evaluation_score_def checkDeterministicRules_def Let_def)
  next
    case both_stale
    with le have "?W < ?a2" by simp
    with both_stale show ?thesis
      by (simp add: evaluation_score_def checkDeterministicRules_def Let_def)
  qed
qed

text \<open>
  Claim C4, as stated: with everything else fixed, a larger age never gives a larger
  score. It fails in three ways. With a heartbeat window of 1200 s the poor heartbeat
  scores 23 at 16 minutes and the stale rule gives it 30 at 21 minutes. With the default
  window a heartbeat carrying the last_gasp flag gets 60 at 599 s and, when the rules read
  the clock at exactly 600 s, where no deterministic rule fires, a composite score of 80.
  And since the rules and the score read the clock one after the other, a heartbeat with
  nothing in its favour that the rules see 50 ns before the default window ends and the
  score sees 50 ns after it gets 23, while a second later the stale rule gives it 30.
\<close>

theorem C4_score_rises_with_age:
  "returned_score (EvaluateUserSafety sample_lib wide_window_Config
      (paced (t0 + 16 * Minute) Millisecond) 9 sample_user_id
      (sample_world [poor_heartbeat] [])) = Some 23
   \<and> returned_score (EvaluateUserSafety sample_lib wide_window_Config
      (paced (t0 + 21 * Minute) Millisecond) 9 sample_user_id
      (sample_world [poor_heartbeat] [])) = Some 30
   \<and> returned_score (EvaluateUserSafety sample_lib default_Config
      (paced (t0 + 599 * Second) Millisecond) 9 sample_user_id
      (sample_world [flagged_heartbeat] [])) = Some 60
   \<and> returned_score (EvaluateUserSafety sample_lib default_Config
      (paced (t0 + 600 * Second - Millisecond) Millisecond) 9 sample_user_id
      (sample_world [flagged_heartbeat] [])) = Some 80
   \<and> rules_now (paced (t0 + 600 * Second - 150) 100) = t0 + 600 * Second - 50
   \<and> score_now (paced (t0 + 600 * Second - 150) 100) = t0 + 600 * Second + 50
   \<and> returned_score (EvaluateUserSafety sample_lib default_Config
      (paced (t0 + 600 * Second - 150) 100) 9 sample_user_id
      (sample_world [worst_heartbeat] [])) = Some 23
   \<and> returned_score (EvaluateUserSafety sample_lib default_Config
      (paced (t0 + 601 * Second) Millisecond) 9 sample_user_id
      (sample_world [worst_heartbeat] [])) = Some 30"
  using wide_window_rise boundary_rise second_read_rise by simp

text \<open>
  Claim C4, amended. Take two evaluations of the same latest heartbeat in the same world,
  with no active LastGasp, the second reading the clock for the rules and for the score no
  earlier than the first. Suppose the age that the rules see equals the heartbeat window
  in neither, and that the first evaluation, if its rules see the heartbeat younger than
  the window, computes the score while the heartbeat is less than 10 minutes old. Then
  whenever both return a result, the score of the second is at most the score of the
  first; and both return a result when the cache answers, accepts the write of the user's
  state and returns it before its 24 hours have passed.
\<close>

theorem C4_score_monotone_in_age:
  assumes "GetActiveLastGasp (lastgasp_now clk1) userID s = Inr None"
    and "GetActiveLastGasp (lastgasp_now clk2) userID s = Inr None"
    and "GetLatestHeartbeat userID s = Inr (Some hb)"
    and "rules_now clk1 \<le> rules_now clk2" and "score_now clk1 \<le> score_now clk2"
    and "time_Since (rules_now clk1) (hb_Timestamp hb) \<noteq> heartbeat_window cfg"
    and "time_Since (rules_now clk2) (hb_Timestamp hb) \<noteq> heartbeat_window cfg"
    and "time_Since (rules_now clk1) (hb_Timestamp hb) < heartbeat_window cfg
         \<longrightarrow> time_Since (score_now clk1) (hb_Timestamp hb) < 10 * Minute"
  shows "(\<forall>r1 r2. fst (EvaluateUserSafety L cfg clk1 id1 userID s) = Inr r1
                 \<and> fst (EvaluateUserSafety L cfg clk2 id2 userID s) = Inr r2
                \<longrightarrow> er_Score r2 \<le> er_Score r1)
         \<and> (redis_ok s \<and> redis_writable s \<and> get_now clk1 < set_now clk1 + 24 * Hour
              \<and> get_now clk2 < set_now clk2 + 24 * Hour
             \<longrightarrow> (\<exists>r1 r2. fst (EvaluateUserSafety L cfg clk1 id1 userID s) = Inr r1
                         \<and> fst (EvaluateUserSafety L cfg clk2 id2 userID s) = Inr r2))"
proof (intro conjI allI impI)
  fix r1 r2 :: EvaluationResult
  assume both: "fst (EvaluateUserSafety L cfg clk1 id1 userID s) = Inr r1
                 \<and> fst (EvaluateUserSafety L cfg clk2 id2 userID s) = Inr r2"
  from both EvaluateUserSafety_score [OF assms(1,3), of L cfg id1 r1]
  have 1: "er_Score r1 = evaluation_score L cfg clk1 userID hb" by simp
  from both EvaluateUserSafety_score [OF assms(2,3), of L cfg id2 r2]
  have 2: "er_Score r2 = evaluation_score L cfg clk2 userID hb" by simp
  from evaluation_score_mono [OF assms(4-8)] 1 2 show "er_Score r2 \<le> er_Score r1" by simp
next
  assume up: "redis_ok s \<and> redis_writable s \<and> get_now clk1 < set_now clk1 + 24 * Hour
              \<and> get_now clk2 < set_now clk2 + 24 * Hour"
  from up EvaluateUserSafety_returns [OF _ _ _ assms(1,3), of L cfg id1]
  obtain r1 where "fst (EvaluateUserSafety L cfg clk1 id1 userID s) = Inr r1" by blast
  moreover from up EvaluateUserSafety_returns [OF _ _ _ assms(2,3), of L cfg id2]
  obtain r2 where "fst (EvaluateUserSafety L cfg clk2 id2 userID s) = Inr r2" by blast
  ultimately show "\<exists>r1 r2. fst (EvaluateUserSafety L cfg clk1 id1 userID s) = Inr r1
                         \<and> fst (EvaluateUserSafety L cfg clk2 id2 userID s) = Inr r2"
    by blast
qed

theorem C4_score_monotone_in_age_witness:
  "GetActiveLastGasp (lastgasp_now (paced (t0 + 8 * Minute) Millisecond)) sample_user_id
       (sample_world [poor_heartbeat] []) = Inr None
   \<and> GetActiveLastGasp (lastgasp_now (paced (t0 + 11 * Minute) Millisecond)) sample_user_id
       (sample_world [poor_heartbeat] []) = Inr None
   \<and> GetLatestHeartbeat sample_user_id (sample_world [poor_heartbeat] []) = Inr (Some poor_heartbeat)
   \<and> rules_now (paced (t0 + 8 * Minute) Millisecond) \<le> rules_now (paced (t0 + 11 * Minute) Millisecond)
   \<and> score_now (paced (t0 + 8 * Minute) Millisecond) \<le> score_now (paced (t0 + 11 * Minute) Millisecond)
   \<and> time_Since (rules_now (paced (t0 + 8 * Minute) Millisecond)) (hb_Timestamp poor_heartbeat)
       < heartbeat_window default_Config
   \<and> time_Since (score_now (paced (t0 + 8 * Minute) Millisecond)) (hb_Timestamp poor_heartbeat)
       < 10 * Minute
   \<and> heartbeat_window default_Config
       < time_Since (rules_now (paced (t0 + 11 * Minute) Millisecond)) (hb_Timestamp poor_heartbeat)
   \<and> redis_ok (sample_world [poor_heartbeat] []) \<and> redis_writable (sample_world [poor_heartbeat] [])
   \<and> get_now (paced (t0 + 8 * Minute) Millisecond)
       < set_now (paced (t0 + 8 * Minute) Millisecond) + 24 * Hour
   \<and> get_now (paced (t0 + 11 * Minute) Millisecond)
       < set_now (paced (t0 + 11 * Minute) Millisecond) + 24 * Hour
   \<and> returned_score (EvaluateUserSafety sample_lib default_Config
        (paced (t0 + 8 * Minute) Millisecond) 9 sample_user_id
        (sample_world [poor_heartbeat] [])) = Some 43
   \<and> returned_score (EvaluateUserSafety sample_lib default_Config
        (paced (t0 + 11 * Minute) Millisecond) 9 sample_user_id
        (sample_world [poor_heartbeat] [])) = Some 30
   \<and> (30::int) \<le> 43"
proof -
  let ?w = "sample_world [poor_heartbeat] []"
  let ?c1 = "paced (t0 + 8 * Minute) Millisecond"
  let ?c2 = "paced (t0 + 11 * Minute) Millisecond"
  let ?E1 = "EvaluateUserSafety sample_lib default_Config ?c1 9 sample_user_id ?w"
  let ?E2 = "EvaluateUserSafety sample_lib default_Config ?c2 9 sample_user_id ?w"
  have 1: "GetActiveLastGasp (lastgasp_now ?c1) sample_user_id ?w = Inr None"
    by (simp add: GetActiveLastGasp_def sample_defs)
  have 2: "GetActiveLastGasp (lastgasp_now ?c2) sample_user_id ?w = Inr None"
    by (simp add: GetActiveLastGasp_def sample_defs)
  have 3: "GetLatestHeartbeat sample_user_id ?w = Inr (Some poor_heartbeat)"
    by (simp add: GetLatestHeartbeat_def sample_world_def empty_world_def poor_heartbeat_def)
  have 4: "rules_now ?c1 \<le> rules_now ?c2" by (simp add: paced_def Minute_def Second_def)
  have 5: "score_now ?c1 \<le> score_now ?c2" by (simp add: paced_def Minute_def Second_def)
  have 6: "time_Since (rules_now ?c1) (hb_Timestamp poor_heartbeat) < heartbeat_window default_Config"
    by (simp add: time_Since_def time_Sub_def heartbeat_window_def wrap64_def default_Config_def
        sample_defs)
  have 7: "time_Since (score_now ?c1) (hb_Timestamp poor_heartbeat) < 10 * Minute"
    by (simp add: time_Since_def time_Sub_def sample_defs)
  have 8: "heartbeat_window default_Config < time_Since (rules_now ?c2) (hb_Timestamp poor_heartbeat)"
    by (simp add: time_Since_def time_Sub_def heartbeat_window_def wrap64_def default_Config_def
        sample_defs)
  have 9: "redis_ok ?w" "redis_writable ?w" by (simp_all add: sample_defs)
  have 10: "get_now ?c1 < set_now ?c1 + 24 * Hour" "get_now ?c2 < set_now ?c2 + 24 * Hour"
    by (simp_all add: sample_defs)
  have a: "returned_score ?E1 = Some 43"
    by (simp add: returned_score_def evaluator_defs sample_defs)
  have b: "returned_score ?E2 = Some 30"
    by (simp add: returned_score_def evaluator_defs sample_defs)
  from 6 have n1: "time_Since (rules_now ?c1) (hb_Timestamp poor_heartbeat) \<noteq> heartbeat_window default_Config"
    by simp
  from 8 have n2: "time_Since (rules_now ?c2) (hb_Timestamp poor_heartbeat) \<noteq> heartbeat_window default_Config"
    by simp
  from 7 have s: "time_Since (rules_now ?c1) (hb_Timestamp poor_heartbeat) < heartbeat_window default_Config
         \<longrightarrow> time_Since (score_now ?c1) (hb_Timestamp poor_heartbeat) < 10 * Minute"
    by simp
  note C4 = C4_score_monotone_in_age [OF 1 2 3 4 5 n1 n2 s, where L = sample_lib and ?id1.0 = 9
      and ?id2.0 = 9]
  from C4 9 10 obtain r1 r2 where r: "fst ?E1 = Inr r1" "fst ?E2 = Inr r2" by blast
  with C4 have "er_Score r2 \<le> er_Score r1" by blast
  moreover from r a b have "er_Score r1 = 43" "er_Score r2 = 30"
    by (simp_all add: returned_score_def)
  ultimately have "(30::int) \<le> 43" by simp
  with 1 2 3 4 5 6 7 8 9 10 a b show ?thesis by (simp only: simp_thms)
qed

section \<open>Alert deduplication\<close>






section \<open>Resolving alerts\<close>

lemma mark_resolved_id: "al_ID (mark_resolved now alertID a) = al_ID a"
  by (simp add: mark_resolved_def)

lemma mark_resolved_hit:
  "al_ID a = alertID \<Longrightarrow> al_ResolvedAt (mark_resolved now alertID a) = Some now"
  by (simp add: mark_resolved_def)

lemma mark_resolved_miss: "al_ID a \<noteq> alertID \<Longrightarrow> mark_resolved now alertID a = a"
  by (simp add: mark_resolved_def)

lemma ResolveAlert_rows:
  "pg_ok s \<Longrightarrow> ResolveAlert now alertID s = Inr (s\<lparr>alerts := map (mark_resolved now alertID) (alerts s)\<rparr>)"
  by (simp add: ResolveAlert_def mark_resolved_def)

lemma ResolveAlert_handler_invalid:
  assumes "uuid_Parse L id_param = None"
  shows "ResolveAlert_handler L now id_param s =
           ((400, JSON [(''error'', JString ''invalid alert_id'')]), s)"
  using assms by (simp add: ResolveAlert_handler_def)

lemma ResolveAlert_handler_failed:
  assumes "uuid_Parse L id_param = Some alertID" and "\<not> pg_ok s"
  shows "ResolveAlert_handler L now id_param s =
           ((500, JSON [(''error'', JString ''failed to resolve alert'')]), s)"
  using assms by (simp add: ResolveAlert_handler_def ResolveAlert_def)

lemma ResolveAlert_handler_resolved:
  assumes "uuid_Parse L id_param = Some alertID" and "pg_ok s"
  shows "ResolveAlert_handler L now id_param s =
           (success_response, s\<lparr>alerts := map (mark_resolved now alertID) (alerts s)\<rparr>)"
  using assms by (simp add: ResolveAlert_handler_def ResolveAlert_rows success_response_def)

lemma ResolveAlert_handler_rows:
  assumes "s' = s\<lparr>alerts := map (mark_resolved now alertID) (alerts s)\<rparr>"
  shows "map al_ID (alerts s') = map al_ID (alerts s)
         \<and> (\<forall>a \<in> set (alerts s'). al_ID a = alertID \<longrightarrow> al_ResolvedAt a = Some now)
         \<and> (\<forall>a \<in> set (alerts s). al_ID a \<noteq> alertID \<longrightarrow> a \<in> set (alerts s'))
         \<and> (alertID \<notin> al_ID ` set (alerts s) \<longrightarrow> s' = s)"
proof -
  let ?rows = "map (mark_resolved now alertID) (alerts s)"
  have ids: "map al_ID (alerts s') = map al_ID (alerts s)"
    by (simp add: assms comp_def mark_resolved_id)
  have hit: "\<forall>a \<in> set (alerts s'). al_ID a = alertID \<longrightarrow> al_ResolvedAt a = Some now"
  proof (intro ballI impI)
    fix a assume "a \<in> set (alerts s')" and id: "al_ID a = alertID"
    then have "a \<in> mark_resolved now alertID ` set (alerts s)" by (simp add: assms)
    then obtain b where a: "a = mark_resolved now alertID b" ..
    with id have "al_ID b = alertID" by (simp add: mark_resolved_id)
    then show "al_ResolvedAt a = Some now" unfolding a by (rule mark_resolved_hit)
  qed
  have miss: "\<forall>a \<in> set (alerts s). al_ID a \<noteq> alertID \<longrightarrow> a \<in> set (alerts s')"
  proof (intro ballI impI)
    fix a assume a: "a \<in> set (alerts s)" and "al_ID a \<noteq> alertID"
    then have "mark_resolved now alertID a = a" by (rule_tac mark_resolved_miss)
    moreover from a have "mark_resolved now alertID a \<in> mark_resolved now alertID ` set (alerts s)"
      by (rule imageI)
    ultimately show "a \<in> set (alerts s')" by (simp add: assms)
  qed
  have unknown: "alertID \<notin> al_ID ` set (alerts s) \<longrightarrow> s' = s"
  proof
    assume none: "alertID \<notin> al_ID ` set (alerts s)"
    have "?rows = alerts s"
    proof (rule map_idI)
      fix a assume "a \<in> set (alerts s)"
      with none have "al_ID a \<noteq> alertID" by (metis imageI)
      then show "mark_resolved now alertID a = a" by (rule mark_resolved_miss)
    qed
    then show "s' = s" by (simp add: assms)
  qed
  from ids hit miss unknown show ?thesis by (intro conjI)
qed

text \<open>
  Claim C9, as stated: an alert is resolvable exactly once, and an unknown id is answered
  404. Neither holds. Resolving the same alert at 12:51 and again at 12:52 leaves 12:52
  stored, and resolving an id no alert has is answered 200 with "alert resolved".
\<close>

theorem C9_resolve_twice_and_unknown_id:
  "map al_ResolvedAt (alerts (snd (ResolveAlert_handler sample_lib (t0 + 60 * Second)
       ''550e8400-e29b-41d4-a716-446655440000''
       (empty_world\<lparr>alerts := [sample_alert\<lparr>al_ID := sample_user_id\<rparr>]\<rparr>)))) = [Some (t0 + 60 * Second)]
   \<and> map al_ResolvedAt (alerts (snd (ResolveAlert_handler sample_lib (t0 + 120 * Second)
       ''550e8400-e29b-41d4-a716-446655440000''
       (snd (ResolveAlert_handler sample_lib (t0 + 60 * Second)
          ''550e8400-e29b-41d4-a716-446655440000''
          (empty_world\<lparr>alerts := [sample_alert\<lparr>al_ID := sample_user_id\<rparr>]\<rparr>)))))) = [Some (t0 + 120 * Second)]
   \<and> ResolveAlert_handler sample_lib (t0 + 60 * Second) ''550e8400-e29b-41d4-a716-446655440000''
        empty_world = (success_response, empty_world)"
  by (simp add: ResolveAlert_handler_def ResolveAlert_def sample_lib_def empty_world_def
      sample_alert_def success_response_def)

text \<open>
  Claim C9, amended. The resolve handler answers 400 exactly when the id is not a UUID,
  500 exactly when the id is a UUID and the database fails, and 200 exactly when the id is
  a UUID and the database answers; it never answers 404, and when it does not answer 200
  it changes nothing. When it answers 200 the body is "alert resolved"; afterwards every
  alert with that id carries the time of this call as resolved_at, whether or not it was
  resolved before; alerts with other ids are as they were; and when no alert has the id
  the world is unchanged.
\<close>

theorem C9_resolve_overwrites:
  "(status_code (ResolveAlert_handler L now id_param s) = 400 \<longleftrightarrow> uuid_Parse L id_param = None)
   \<and> (status_code (ResolveAlert_handler L now id_param s) = 500
        \<longleftrightarrow> uuid_Parse L id_param \<noteq> None \<and> \<not> pg_ok s)
   \<and> (status_code (ResolveAlert_handler L now id_param s) = 200
        \<longleftrightarrow> uuid_Parse L id_param \<noteq> None \<and> pg_ok s)
   \<and> status_code (ResolveAlert_handler L now id_param s) \<noteq> 404
   \<and> (status_code (ResolveAlert_handler L now id_param s) \<noteq> 200
        \<longrightarrow> snd (ResolveAlert_handler L now id_param s) = s)
   \<and> (\<forall>alertID. uuid_Parse L id_param = Some alertID \<and> pg_ok s \<longrightarrow>
        (\<exists>s'. ResolveAlert_handler L now id_param s = (success_response, s')
           \<and> map al_ID (alerts s') = map al_ID (alerts s)
           \<and> (\<forall>a \<in> set (alerts s'). al_ID a = alertID \<longrightarrow> al_ResolvedAt a = Some now)
           \<and> (\<forall>a \<in> set (alerts s). al_ID a \<noteq> alertID \<longrightarrow> a \<in> set (alerts s'))
           \<and> (alertID \<notin> al_ID ` set (alerts s) \<longrightarrow> s' = s)))"
proof (cases "uuid_Parse L id_param")
  case None
  from ResolveAlert_handler_invalid [OF None, of now s] None show ?thesis
    by (simp add: status_code_def)
next
  case (Some alertID)
  show ?thesis
  proof (cases "pg_ok s")
    case False
    from ResolveAlert_handler_failed [OF Some False, of now] Some False show ?thesis
      by (simp add: status_code_def)
  next
    case True
    let ?s' = "s\<lparr>alerts := map (mark_resolved now alertID) (alerts s)\<rparr>"
    note run = ResolveAlert_handler_resolved [OF Some True, of now]
    have codes: "status_code (ResolveAlert_handler L now id_param s) = 200"
      by (simp add: run status_code_def success_response_def)
    have rows: "\<exists>s'. ResolveAlert_handler L now id_param s = (success_response, s')
           \<and> map al_ID (alerts s') = map al_ID (alerts s)
           \<and> (\<forall>a \<in> set (alerts s'). al_ID a = alertID \<longrightarrow> al_ResolvedAt a = Some now)
           \<and> (\<forall>a \<in> set (alerts s). al_ID a \<noteq> alertID \<longrightarrow> a \<in> set (alerts s'))
           \<and> (alertID \<notin> al_ID ` set (alerts s) \<longrightarrow> s' = s)"
      using run ResolveAlert_handler_rows [OF refl, where s = s and now = now and alertID = alertID]
      by (intro exI [of _ ?s']) simp
    from codes rows Some True show ?thesis by simp
  qed
qed

theorem C9_resolve_overwrites_witness:
  "uuid_Parse sample_lib ''550e8400-e29b-41d4-a716-446655440000'' = Some sample_user_id
   \<and> pg_ok resolved_alert_world
   \<and> map al_ResolvedAt (alerts resolved_alert_world) = [Some (t0 + 60 * Second)]
   \<and> fst (ResolveAlert_handler sample_lib (t0 + 120 * Second)
        ''550e8400-e29b-41d4-a716-446655440000'' resolved_alert_world) = success_response
   \<and> map al_ResolvedAt (alerts (snd (ResolveAlert_handler sample_lib (t0 + 120 * Second)
        ''550e8400-e29b-41d4-a716-446655440000'' resolved_alert_world))) = [Some (t0 + 120 * Second)]
   \<and> uuid_Parse sample_lib ''alert-5'' = None
   \<and> status_code (ResolveAlert_handler sample_lib (t0 + 120 * Second) ''alert-5''
        resolved_alert_world) = 400
   \<and> snd (ResolveAlert_handler sample_lib (t0 + 120 * Second) ''alert-5'' resolved_alert_world) =
       resolved_alert_world
   \<and> \<not> pg_ok (resolved_alert_world\<lparr>pg_ok := False\<rparr>)
   \<and> status_code (ResolveAlert_handler sample_lib (t0 + 120 * Second)
        ''550e8400-e29b-41d4-a716-446655440000'' (resolved_alert_world\<lparr>pg_ok := False\<rparr>)) = 500
   \<and> snd (ResolveAlert_handler sample_lib (t0 + 120 * Second)
        ''550e8400-e29b-41d4-a716-446655440000'' (resolved_alert_world\<lparr>pg_ok := False\<rparr>)) =
       resolved_alert_world\<lparr>pg_ok := False\<rparr>"
proof -
  let ?id = "''550e8400-e29b-41d4-a716-446655440000''"
  let ?now = "t0 + 120 * Second"
  let ?down = "resolved_alert_world\<lparr>pg_ok := False\<rparr>"
  have 1: "pg_ok resolved_alert_world" by (simp add: resolved_alert_world_def empty_world_def)
  have 2: "uuid_Parse sample_lib ?id = Some sample_user_id"
    by (simp add: sample_lib_def)
  have 3: "map al_ResolvedAt (alerts resolved_alert_world) = [Some (t0 + 60 * Second)]"
    by (simp add: resolved_alert_world_def)
  have 4: "map al_ID (alerts resolved_alert_world) = [sample_user_id]"
    by (simp add: resolved_alert_world_def)
  have 5: "uuid_Parse sample_lib ''alert-5'' = None" by (simp add: sample_lib_def)
  have 6: "\<not> pg_ok ?down" by simp
  from C9_resolve_overwrites [of sample_lib ?now ?id resolved_alert_world] 1 2 obtain s'
    where run: "ResolveAlert_handler sample_lib ?now ?id resolved_alert_world = (success_response, s')"
      and ids: "map al_ID (alerts s') = map al_ID (alerts resolved_alert_world)"
      and hit: "\<forall>a \<in> set (alerts s'). al_ID a = sample_user_id \<longrightarrow> al_ResolvedAt a = Some ?now"
    by blast
  from ids 4 obtain a where a: "alerts s' = [a]" and "al_ID a = sample_user_id"
    by (cases "alerts s'") auto
  with hit have over: "map al_ResolvedAt (alerts s') = [Some ?now]" by simp
  from C9_resolve_overwrites [of sample_lib ?now "''alert-5''" resolved_alert_world] 5
  have bad: "status_code (ResolveAlert_handler sample_lib ?now ''alert-5'' resolved_alert_world) = 400"
    by blast
  from C9_resolve_overwrites [of sample_lib ?now "''alert-5''" resolved_alert_world] bad
  have same: "snd (ResolveAlert_handler sample_lib ?now ''alert-5'' resolved_alert_world) =
      resolved_alert_world"
    by simp
  from C9_resolve_overwrites [of sample_lib ?now ?id ?down] 2 6
  have down: "status_code (ResolveAlert_handler sample_lib ?now ?id ?down) = 500"
    by simp
  from C9_resolve_overwrites [of sample_lib ?now ?id ?down] down
  have kept: "snd (ResolveAlert_handler sample_lib ?now ?id ?down) = ?down"
    by simp
  from run over 1 2 3 5 6 bad same down kept show ?thesis by (simp only: simp_thms fst_conv snd_conv)
qed

section \<open>The cached state\<close>

lemma keep_user_state:
  assumes "\<And>s'. r = Inr s' \<Longrightarrow> user_state s' = user_state s"
  shows "user_state (keep r s) = user_state s"
  using assms by (cases r) (simp_all add: keep_def)

lemma CreateHeartbeat_user_state:
  "CreateHeartbeat hb s = Inr s' \<Longrightarrow> user_state s' = user_state s"
  by (auto simp: CreateHeartbeat_def split: if_splits)

lemma CreateLastGasp_user_state:
  "CreateLastGasp lg s = Inr s' \<Longrightarrow> user_state s' = user_state s"
  by (auto simp: CreateLastGasp_def split: if_splits)

lemma CreateUser_user_state:
  "CreateUser user s = Inr s' \<Longrightarrow> user_state s' = user_state s"
  by (auto simp: CreateUser_def split: if_splits)

lemma HandleIncomingSMS_user_state:
  "user_state (snd (HandleIncomingSMS L cfg clk id1 id2 id3 body s)) = user_state s"
proof -
  have lg: "user_state (case CreateLastGasp g s1 of Inl x \<Rightarrow> s1 | Inr s' \<Rightarrow> s') = user_state s1"
    for g s1
    by (cases "CreateLastGasp g s1") (simp_all add: CreateLastGasp_user_state)
  show ?thesis
    by (simp add: HandleIncomingSMS_def Let_def lg CreateHeartbeat_user_state
        split: sum.split option.split)
qed

lemma ResolveAlert_handler_user_state:
  "user_state (snd (ResolveAlert_handler L now id_param s)) = user_state s"
  by (simp add: ResolveAlert_handler_def ResolveAlert_def split: option.split)

lemma alert_step_cache_scored:
  assumes "alert_step s s'" and "cache_scored s"
  shows "cache_scored s'"
  using assms by (simp add: alert_step_def cache_scored_def)

lemma EvaluateUserSafety_cache_scored:
  assumes "cache_scored s"
  shows "cache_scored (snd (EvaluateUserSafety L cfg clk new_id userID s))"
  using EvaluateUserSafety_step [of clk userID s L cfg new_id] unfolding evaluation_step_def
proof
  assume "alert_step s (snd (EvaluateUserSafety L cfg clk new_id userID s))"
  then show ?thesis using assms by (rule alert_step_cache_scored)
next
  assume "\<exists>hb sc. alert_step
             (s\<lparr>user_state := (user_state s)(userID \<mapsto>
                  (cached_state userID (state_now clk) hb sc, set_now clk + 24 * Hour))\<rparr>)
             (snd (EvaluateUserSafety L cfg clk new_id userID s))"
  then obtain hb sc where step: "alert_step
             (s\<lparr>user_state := (user_state s)(userID \<mapsto>
                  (cached_state userID (state_now clk) hb sc, set_now clk + 24 * Hour))\<rparr>)
             (snd (EvaluateUserSafety L cfg clk new_id userID s))"
    by blast
  have "us_State (cached_state userID (state_now clk) hb sc) \<in> {''SAFE'', ''CAUTION'', ''AT_RISK''}"
    using scored_result_state [of sc] by (simp add: cached_state_def)
  with assms have "cache_scored
             (s\<lparr>user_state := (user_state s)(userID \<mapsto>
                  (cached_state userID (state_now clk) hb sc, set_now clk + 24 * Hour))\<rparr>)"
    unfolding cache_scored_def by (auto split: if_splits)
  with step show ?thesis by (rule alert_step_cache_scored)
qed

lemma perform_cache_scored:
  assumes "cache_scored s"
  shows "cache_scored (perform L cfg x s)"
proof (cases x)
  case (OpEvaluate clk new_id userID)
  with assms show ?thesis by (simp add: EvaluateUserSafety_cache_scored)
next
  case (OpIncomingSMS clk id1 id2 id3 body)
  with assms show ?thesis by (simp add: cache_scored_def HandleIncomingSMS_user_state)
next
  case (OpResolveAlert now id_param)
  with assms show ?thesis by (simp add: cache_scored_def ResolveAlert_handler_user_state)
next
  case (OpCreateUser user)
  with assms show ?thesis
    by (simp add: cache_scored_def keep_user_state CreateUser_user_state)
next
  case (OpCreateHeartbeat hb)
  with assms show ?thesis
    by (simp add: cache_scored_def keep_user_state CreateHeartbeat_user_state)
next
  case (OpCreateLastGasp lg)
  with assms show ?thesis
    by (simp add: cache_scored_def keep_user_state CreateLastGasp_user_state)
next
  case (OpCheckRateLimit now_incr now_expire userID)
  with assms show ?thesis by (simp add: cache_scored_def CheckRateLimit_def Let_def)
next
  case (OpAvailability p r w)
  with assms show ?thesis by (simp add: cache_scored_def)
qed

lemma run_cache_scored: "cache_scored s \<Longrightarrow> cache_scored (run L cfg xs s)"
  by (induction xs arbitrary: s) (simp_all add: perform_cache_scored)

lemma run_append: "run L cfg (xs @ ys) s = run L cfg ys (run L cfg xs s)"
  by (induction xs arbitrary: s) simp_all

lemma GetUserStatus_scored:
  assumes "cache_scored s"
  shows "status_state (GetUserStatus L now id_param s) \<noteq> Some ''WAIT_LASTGASP''"
proof (cases "uuid_Parse L id_param")
  case None
  then show ?thesis by (simp add: GetUserStatus_def status_state_def)
next
  case (Some userID)
  show ?thesis
  proof (cases "GetUserState now userID s")
    case (Inl e)
    with Some show ?thesis by (simp add: GetUserStatus_def status_state_def)
  next
    case (Inr found)
    show ?thesis
    proof (cases found)
      case None
      with Some Inr show ?thesis by (simp add: GetUserStatus_def status_state_def)
    next
      case st: (Some st)
      with Inr obtain e where "user_state s userID = Some (st, e)"
        by (auto simp: GetUserState_def split: if_splits option.splits)
      with assms have "us_State st \<in> {''SAFE'', ''CAUTION'', ''AT_RISK''}"
        unfolding cache_scored_def by blast
      with Some Inr st show ?thesis by (auto simp: GetUserStatus_def status_state_def)
    qed
  qed
qed

lemma sample_run:
  "run sample_lib default_Config sample_operations empty_world =
     empty_world\<lparr>users := [sample_user], heartbeats := [fresh_heartbeat],
        last_gasps := [sample_last_gasp],
        user_state := [sample_user_id \<mapsto>
          (cached_state sample_user_id (t0 + 30 * Second + 3 * Millisecond) fresh_heartbeat 100,
           t0 + 30 * Second + 4 * Millisecond + 24 * Hour)]\<rparr>"
  by (simp add: sample_operations_def keep_def CreateUser_def CreateHeartbeat_def
      CreateLastGasp_def user_exists_def int32_def pg_timestamp_def evaluator_defs sample_defs
      cached_state_def scored_result_def)

text \<open>
  Claim C10. WAIT_LASTGASP is never written to the cache. From a world whose cache holds
  only SAFE, CAUTION or AT_RISK entries (the empty cache at start-up is one), after any
  sequence of operations the status endpoint does not report WAIT_LASTGASP; and while the
  user has an unexpired LastGasp, an evaluation returns WAIT_LASTGASP and leaves the
  answer of the status endpoint as it was before: the cached state, or UNKNOWN.
\<close>

theorem C10_status_never_wait_lastgasp:
  assumes "cache_scored s0"
  shows "status_state (GetUserStatus L now id_param (run L cfg ops s0)) \<noteq> Some ''WAIT_LASTGASP''
         \<and> (pg_ok (run L cfg ops s0) \<and> g \<in> set (last_gasps (run L cfg ops s0))
              \<and> lg_UserID g = userID \<and> lastgasp_now clk < lg_ExpiryTs g
             \<longrightarrow> fst (EvaluateUserSafety L cfg clk new_id userID (run L cfg ops s0)) =
                   Inr \<lparr>er_State = ''WAIT_LASTGASP'', er_Score = 0,
                        er_Reason = ''LastGasp active - monitoring connectivity''\<rparr>
                 \<and> GetUserStatus L now id_param (run L cfg (ops @ [OpEvaluate clk new_id userID]) s0) =
                   GetUserStatus L now id_param (run L cfg ops s0))"
proof
  from run_cache_scored [OF assms] show
    "status_state (GetUserStatus L now id_param (run L cfg ops s0)) \<noteq> Some ''WAIT_LASTGASP''"
    by (rule GetUserStatus_scored)
next
  let ?s = "run L cfg ops s0"
  have append: "run L cfg (ops @ [OpEvaluate clk new_id userID]) s0 =
      perform L cfg (OpEvaluate clk new_id userID) ?s"
    by (simp add: run_append)
  show "pg_ok ?s \<and> g \<in> set (last_gasps ?s) \<and> lg_UserID g = userID \<and> lastgasp_now clk < lg_ExpiryTs g
        \<longrightarrow> fst (EvaluateUserSafety L cfg clk new_id userID ?s) =
              Inr \<lparr>er_State = ''WAIT_LASTGASP'', er_Score = 0,
                   er_Reason = ''LastGasp active - monitoring connectivity''\<rparr>
            \<and> GetUserStatus L now id_param (run L cfg (ops @ [OpEvaluate clk new_id userID]) s0) =
              GetUserStatus L now id_param ?s"
  proof
    assume "pg_ok ?s \<and> g \<in> set (last_gasps ?s) \<and> lg_UserID g = userID
            \<and> lastgasp_now clk < lg_ExpiryTs g"
    then obtain a where "GetActiveLastGasp (lastgasp_now clk) userID ?s = Inr (Some a)"
      using GetActiveLastGasp_active [of ?s g userID "lastgasp_now clk"] by blast
    then have "EvaluateUserSafety L cfg clk new_id userID ?s =
                 (Inr \<lparr>er_State = ''WAIT_LASTGASP'', er_Score = 0,
                   er_Reason = ''LastGasp active - monitoring connectivity''\<rparr>, ?s)"
      by (simp add: EvaluateUserSafety_def StateWaitLastGasp_def)
    then show "fst (EvaluateUserSafety L cfg clk new_id userID ?s) =
              Inr \<lparr>er_State = ''WAIT_LASTGASP'', er_Score = 0,
                   er_Reason = ''LastGasp active - monitoring connectivity''\<rparr>
            \<and> GetUserStatus L now id_param (run L cfg (ops @ [OpEvaluate clk new_id userID]) s0) =
              GetUserStatus L now id_param ?s"
      by (simp add: append)
  qed
qed

theorem C10_status_never_wait_lastgasp_witness:
  "cache_scored empty_world
   \<and> pg_ok (run sample_lib default_Config sample_operations empty_world)
   \<and> sample_last_gasp \<in> set (last_gasps (run sample_lib default_Config sample_operations empty_world))
   \<and> lg_UserID sample_last_gasp = sample_user_id
   \<and> lastgasp_now (paced (t0 + 60 * Second) Millisecond) < lg_ExpiryTs sample_last_gasp
   \<and> status_state (GetUserStatus sample_lib (t0 + 90 * Second) ''550e8400-e29b-41d4-a716-446655440000''
        (run sample_lib default_Config sample_operations empty_world)) = Some ''SAFE''
   \<and> fst (EvaluateUserSafety sample_lib default_Config (paced (t0 + 60 * Second) Millisecond) 10
        sample_user_id (run sample_lib default_Config sample_operations empty_world)) =
       Inr \<lparr>er_State = ''WAIT_LASTGASP'', er_Score = 0,
            er_Reason = ''LastGasp active - monitoring connectivity''\<rparr>
   \<and> status_state (GetUserStatus sample_lib (t0 + 90 * Second) ''550e8400-e29b-41d4-a716-446655440000''
        (run sample_lib default_Config
           (sample_operations @ [OpEvaluate (paced (t0 + 60 * Second) Millisecond) 10 sample_user_id])
           empty_world)) = Some ''SAFE''"
proof -
  let ?s = "run sample_lib default_Config sample_operations empty_world"
  let ?id = "''550e8400-e29b-41d4-a716-446655440000''"
  let ?clk = "paced (t0 + 60 * Second) Millisecond"
  have 0: "cache_scored empty_world" by (simp add: cache_scored_def empty_world_def)
  have 1: "pg_ok ?s" unfolding sample_run by (simp add: empty_world_def)
  have 2: "sample_last_gasp \<in> set (last_gasps ?s)" by (simp add: sample_run)
  have 3: "lg_UserID sample_last_gasp = sample_user_id" by (simp add: sample_last_gasp_def)
  have 4: "lastgasp_now ?clk < lg_ExpiryTs sample_last_gasp"
    by (simp add: sample_last_gasp_def paced_def Second_def)
  have 5: "status_state (GetUserStatus sample_lib (t0 + 90 * Second) ?id ?s) = Some ''SAFE''"
    unfolding sample_run
    by (simp add: GetUserStatus_def GetUserState_def status_state_def sample_lib_def
        empty_world_def cached_state_def scored_result_def state_defs Hour_def Minute_def
        Second_def Millisecond_def)
  from C10_status_never_wait_lastgasp [OF 0, of sample_lib "t0 + 90 * Second" ?id default_Config
      sample_operations sample_last_gasp sample_user_id ?clk 10] 1 2 3 4
  have "fst (EvaluateUserSafety sample_lib default_Config ?clk 10 sample_user_id ?s) =
          Inr \<lparr>er_State = ''WAIT_LASTGASP'', er_Score = 0,
               er_Reason = ''LastGasp active - monitoring connectivity''\<rparr>"
    and "GetUserStatus sample_lib (t0 + 90 * Second) ?id
           (run sample_lib default_Config
              (sample_operations @ [OpEvaluate ?clk 10 sample_user_id]) empty_world) =
         GetUserStatus sample_lib (t0 + 90 * Second) ?id ?s"
    by blast+
  with 0 1 2 3 4 5 show ?thesis by (simp only: simp_thms)
qed

section \<open>SMS codec: strings and numbers\<close>

lemma white_space_heads: "w \<in> set white_space \<Longrightarrow> hd w \<in> set space_heads"
  by (auto simp: white_space_def space_heads_def)

lemma white_space_tails: "w \<in> set white_space \<Longrightarrow> last w \<in> set space_tails"
  by (auto simp: white_space_def space_tails_def)

lemma find_None_iff2: "find P xs = None \<longleftrightarrow> (\<forall>x \<in> set xs. \<not> P x)"
  by (induction xs) auto

lemma leading_space_None:
  assumes "s = [] \<or> hd s \<notin> set space_heads"
  shows "leading_space s = None"
proof -
  have "take (length w) s \<noteq> w" if w: "w \<in> set white_space" for w
  proof
    assume eq: "take (length w) s = w"
    from w have "w \<noteq> []" by (rule white_space_nonempty)
    with eq have "s \<noteq> []" by auto
    moreover from eq \<open>w \<noteq> []\<close> have "hd w = hd s"
      by (metis hd_take length_greater_0_conv)
    ultimately show False using assms white_space_heads [OF w] by simp
  qed
  then show ?thesis by (simp add: leading_space_def find_None_iff2)
qed

lemma trailing_space_None:
  assumes "s = [] \<or> last s \<notin> set space_tails"
  shows "trailing_space s = None"
proof -
  have "drop (length s - length w) s \<noteq> w" if w: "w \<in> set white_space" for w
  proof
    assume eq: "drop (length s - length w) s = w"
    from w have ne: "w \<noteq> []" by (rule white_space_nonempty)
    with eq have "s \<noteq> []" by auto
    moreover from eq ne have "last w = last s"
      by (metis last_drop drop_eq_Nil not_le)
    ultimately show False using assms white_space_tails [OF w] by simp
  qed
  then show ?thesis by (simp add: trailing_space_def find_None_iff2)
qed

lemma TrimLeft_id: "s = [] \<or> hd s \<notin> set space_heads \<Longrightarrow> TrimLeft s = s"
  by (subst TrimLeft.simps) (simp add: leading_space_None)

lemma TrimRight_id: "s = [] \<or> last s \<notin> set space_tails \<Longrightarrow> TrimRight s = s"
  by (subst TrimRight.simps) (simp add: trailing_space_None)

lemma TrimSpace_untrimmed: "untrimmed s \<Longrightarrow> TrimSpace s = s"
  unfolding untrimmed_def TrimSpace_def
  by (auto simp: TrimLeft_id TrimRight_id)

lemma Split_no_sep: "sep \<notin> set s \<Longrightarrow> Split sep s = [s]"
  by (induction s) auto

lemma Split_nonempty: "Split sep s \<noteq> []"
  by (induction s) (auto split: list.split)

lemma Split_append: "sep \<notin> set a \<Longrightarrow> Split sep (a @ sep # b) = a # Split sep b"
  by (induction a) (auto split: list.split)

lemma Split_Join:
  assumes "parts \<noteq> []" and "\<forall>p \<in> set parts. sep \<notin> set p"
  shows "Split sep (Join sep parts) = parts"
  using assms
proof (induction sep parts rule: Join.induct)
  case (1 sep)
  then show ?case by simp
next
  case (2 sep p)
  then show ?case by (simp add: Split_no_sep)
next
  case (3 sep p q ps)
  then show ?case by (simp add: Split_append)
qed

lemma Join_Cons_Cons: "Join sep ((c # a) # ps) = c # Join sep (a # ps)"
  by (cases ps) simp_all

lemma Join_Split: "Join sep (Split sep s) = s"
proof (induction s)
  case Nil
  then show ?case by simp
next
  case (Cons c cs)
  then show ?case
  proof (cases "Split sep cs")
    case Nil
    then show ?thesis by (simp add: Split_nonempty)
  next
    case (Cons a ps)
    with Cons.IH have "Join sep (a # ps) = cs" by simp
    with Cons show ?thesis by (simp add: Join_Cons_Cons del: Join.simps) simp
  qed
qed

lemma SplitN2_key: "sep \<notin> set k \<Longrightarrow> SplitN2 sep (k @ sep # v) = [k, v]"
  by (induction k) (auto simp: SplitN2_def)

lemma SplitN2_no_sep: "sep \<notin> set s \<Longrightarrow> SplitN2 sep s = [s]"
  by (simp add: SplitN2_def)

lemma digit_char_props:
  assumes "d < 10"
  shows "is_digit (digit_char d)" and "digit_val (digit_char d) = d"
proof -
  from assms have "d = 0 \<or> d = 1 \<or> d = 2 \<or> d = 3 \<or> d = 4 \<or> d = 5 \<or> d = 6
    \<or> d = 7 \<or> d = 8 \<or> d = 9" by arith
  then show "is_digit (digit_char d)"
    by (elim disjE) (simp_all add: digit_char_def is_digit_def)
  from assms have "d = 0 \<or> d = 1 \<or> d = 2 \<or> d = 3 \<or> d = 4 \<or> d = 5 \<or> d = 6
    \<or> d = 7 \<or> d = 8 \<or> d = 9" by arith
  then show "digit_val (digit_char d) = d"
    by (elim disjE) (simp_all add: digit_char_def digit_val_def)
qed

lemma nat_digits_nonempty: "nat_digits n \<noteq> []"
  by (subst nat_digits.simps) simp

lemma nat_digits_all_digits: "list_all is_digit (nat_digits n)"
proof (induction n rule: nat_digits.induct)
  case (1 n)
  show ?case
  proof (cases "n < 10")
    case True
    then show ?thesis by (subst nat_digits.simps) (simp add: digit_char_props)
  next
    case False
    with 1 show ?thesis by (subst nat_digits.simps) (simp add: digit_char_props)
  qed
qed

lemma digits_value_snoc: "digits_value (ds @ [c]) = 10 * digits_value ds + digit_val c"
  by (simp add: digits_value_def)

lemma digits_value_nat_digits: "digits_value (nat_digits n) = n"
proof (induction n rule: nat_digits.induct)
  case (1 n)
  show ?case
  proof (cases "n < 10")
    case True
    then show ?thesis
      by (subst nat_digits.simps) (simp add: digits_value_def digit_char_props)
  next
    case False
    with 1 have "digits_value (nat_digits (n div 10)) = n div 10" by simp
    with False show ?thesis
      by (subst nat_digits.simps) (simp add: digits_value_snoc digit_char_props)
  qed
qed

lemma is_digit_not_sign: "is_digit c \<Longrightarrow> c \<noteq> CHR ''-'' \<and> c \<noteq> CHR ''+''"
  by (auto simp: is_digit_def)

lemma nat_digits_hd: "is_digit (hd (nat_digits n))"
  using nat_digits_all_digits [of n] nat_digits_nonempty [of n]
  by (cases "nat_digits n") simp_all

lemma Atoi_nat_digits:
  assumes "int n \<le> 2 ^ 63 - 1"
  shows "Atoi (nat_digits n) = Some (int n)"
proof -
  obtain c cs where cs: "nat_digits n = c # cs"
    using nat_digits_nonempty [of n] by (cases "nat_digits n") auto
  with nat_digits_hd [of n] have "c \<noteq> CHR ''-''" "c \<noteq> CHR ''+''"
    by (auto dest: is_digit_not_sign)
  then have "Atoi (c # cs) =
      (if \<not> list_all is_digit (c # cs) then None
       else if int (digits_value (c # cs)) < - (2 ^ 63) \<or> 2 ^ 63 - 1 < int (digits_value (c # cs))
       then None else Some (int (digits_value (c # cs))))"
    by (simp add: Atoi_def Let_def)
  with assms show ?thesis
    using nat_digits_all_digits [of n] digits_value_nat_digits [of n]
    by (simp add: cs [symmetric])
qed

lemma Atoi_minus_nat_digits:
  assumes "int n \<le> 2 ^ 63"
  shows "Atoi (CHR ''-'' # nat_digits n) = Some (- int n)"
  using assms nat_digits_all_digits [of n] digits_value_nat_digits [of n] nat_digits_nonempty [of n]
  by (simp add: Atoi_def Let_def)

lemma Atoi_Itoa:
  assumes "- (2 ^ 63) \<le> i" and "i \<le> 2 ^ 63 - 1"
  shows "Atoi (Itoa i) = Some i"
proof (cases "i < 0")
  case True
  with assms have "int (nat (- i)) \<le> 2 ^ 63" by simp
  from Atoi_minus_nat_digits [OF this] True show ?thesis by (simp add: Itoa_def)
next
  case False
  with assms have "int (nat i) \<le> 2 ^ 63 - 1" by simp
  from Atoi_nat_digits [OF this] False show ?thesis by (simp add: Itoa_def)
qed

lemma nat_digits_chars: "c \<in> set (nat_digits n) \<Longrightarrow> is_digit c"
  using nat_digits_all_digits [of n] by (simp add: list_all_iff)

lemma Itoa_chars: "c \<in> set (Itoa i) \<Longrightarrow> is_digit c \<or> c = CHR ''-''"
  by (cases "i < 0") (auto simp: Itoa_def dest: nat_digits_chars)

lemma Itoa_nonempty: "Itoa i \<noteq> []"
  by (simp add: Itoa_def nat_digits_nonempty)

lemma Itoa_last: "is_digit (last (Itoa i))"
proof -
  have "last (nat_digits n) \<in> set (nat_digits n)" for n
    by (simp add: nat_digits_nonempty)
  then have "is_digit (last (nat_digits n))" for n
    by (rule nat_digits_chars)
  then show ?thesis by (simp add: Itoa_def nat_digits_nonempty)
qed

lemma is_digit_not_edge: "is_digit c \<Longrightarrow> c \<notin> set space_heads \<and> c \<notin> set space_tails"
  by (auto simp: is_digit_def space_heads_def space_tails_def)

lemma Itoa_untrimmed: "untrimmed (Itoa i)"
proof -
  have "hd (Itoa i) \<in> set (Itoa i)" by (simp add: Itoa_nonempty)
  then have "is_digit (hd (Itoa i)) \<or> hd (Itoa i) = CHR ''-''" by (rule Itoa_chars)
  then have h: "hd (Itoa i) \<notin> set space_heads"
    by (auto dest: is_digit_not_edge simp: space_heads_def)
  from Itoa_last [of i] have "last (Itoa i) \<notin> set space_tails"
    by (simp add: is_digit_not_edge)
  with h show ?thesis by (simp add: untrimmed_def)
qed

lemma Itoa_no_separator:
  "CHR '';'' \<notin> set (Itoa i)" "CHR '','' \<notin> set (Itoa i)" "CHR ''='' \<notin> set (Itoa i)"
  by (auto dest!: Itoa_chars simp: is_digit_def)

lemma SplitN2_cases:
  obtains (pair) k v where "SplitN2 sep s = [k, v]" | (single) "SplitN2 sep s = [s]"
  by (cases "sep \<in> set s") (auto simp: SplitN2_def)

lemma parse_part_keyed:
  assumes "part_key part = Some key" and "part_value part = Some v"
  shows "parse_part L part hb = parse_field L key v hb"
  using assms by (cases rule: SplitN2_cases [of "CHR ''=''" part])
    (auto simp: parse_part_def part_key_def part_value_def)

lemma parse_part_no_key: "part_key part = None \<Longrightarrow> parse_part L part hb = Inr hb"
  by (cases rule: SplitN2_cases [of "CHR ''=''" part])
    (auto simp: parse_part_def part_key_def)

lemma part_key_value: "(part_key part = None) = (part_value part = None)"
  by (cases rule: SplitN2_cases [of "CHR ''=''" part]) (auto simp: part_key_def part_value_def)

lemma parse_field_unknown: "key \<notin> set known_keys \<Longrightarrow> parse_field L key v hb = Inr hb"
  by (simp add: parse_field_def known_keys_def)

lemma parse_part_unknown: "unknown_part part \<Longrightarrow> parse_part L part hb = Inr hb"
proof (cases "part_key part")
  case None
  then show ?thesis by (rule parse_part_no_key)
next
  case (Some key)
  assume "unknown_part part"
  with Some have k: "key \<notin> set known_keys" by (simp add: unknown_part_def)
  from Some obtain v where "part_value part = Some v"
    using part_key_value [of part] by (cases "part_value part") auto
  with Some k show ?thesis by (simp add: parse_part_keyed parse_field_unknown)
qed

lemma parse_parts_append:
  "parse_parts L (xs @ ys) hb =
     (case parse_parts L xs hb of Inl e \<Rightarrow> Inl e | Inr hb' \<Rightarrow> parse_parts L ys hb')"
  by (induction xs arbitrary: hb) (auto split: sum.split)

lemma parse_parts_insert_unknown:
  "unknown_part x \<Longrightarrow> parse_parts L (pre @ x # post) hb = parse_parts L (pre @ post) hb"
  by (simp add: parse_parts_append parse_part_unknown split: sum.split)

lemma Split_parts_no_sep: "p \<in> set (Split sep s) \<Longrightarrow> sep \<notin> set p"
proof (induction s arbitrary: p)
  case Nil
  then show ?case by simp
next
  case (Cons c cs)
  show ?case
  proof (cases "c = sep")
    case True
    with Cons show ?thesis by auto
  next
    case False
    obtain q qs where q: "Split sep cs = q # qs"
      using Split_nonempty [of sep cs] by (cases "Split sep cs") auto
    with False Cons.prems have "p = c # q \<or> p \<in> set qs" by simp
    then show ?thesis
    proof
      assume "p = c # q"
      moreover from q have "sep \<notin> set q" by (intro Cons.IH) simp
      ultimately show ?thesis using False by simp
    next
      assume "p \<in> set qs"
      with q show ?thesis by (intro Cons.IH) simp
    qed
  qed
qed

lemma ParseHeartbeatSMS_insert_unknown:
  assumes split: "Split CHR '';'' body = pre @ post" and len: "6 \<le> length (Split CHR '';'' body)"
    and x: "CHR '';'' \<notin> set x" "unknown_part x"
  shows "ParseHeartbeatSMS L new_id now (Join CHR '';'' (pre @ x # post)) =
         ParseHeartbeatSMS L new_id now body"
proof -
  have "\<forall>p \<in> set (pre @ post). CHR '';'' \<notin> set p"
    using Split_parts_no_sep [of _ "CHR '';''" body] by (simp add: split)
  with x(1) have "\<forall>p \<in> set (pre @ x # post). CHR '';'' \<notin> set p" by auto
  then have parts: "Split CHR '';'' (Join CHR '';'' (pre @ x # post)) = pre @ x # post"
    by (intro Split_Join) simp_all
  from len have "6 \<le> length (pre @ x # post)" by (simp add: split)
  with len show ?thesis
    by (simp add: ParseHeartbeatSMS_def parts split parse_parts_insert_unknown [OF x(2)]
        del: parse_parts.simps)
qed

lemma BuildSMSPayload_parts: "BuildSMSPayload L h = Join CHR '';'' (emitted_parts L h)"
  by (simp add: BuildSMSPayload_def emitted_parts_def optional_parts_def cell_string_def Let_def
      split: option.split)

lemma parse_part_emitted:
  assumes "CHR ''='' \<notin> set k" and "untrimmed k" and "TrimSpace v = v"
  shows "parse_part L (k @ CHR ''='' # v) hb = parse_field L k v hb"
  using assms by (simp add: parse_part_def SplitN2_key TrimSpace_untrimmed)

lemma untrimmed_keys:
  "untrimmed ''uid''" "untrimmed ''ts''" "untrimmed ''lat''" "untrimmed ''lng''" "untrimmed ''acc''"
  "untrimmed ''cell''" "untrimmed ''bat''" "untrimmed ''spd''" "untrimmed ''lg''" "untrimmed ''sig''"
  by (simp_all add: untrimmed_def space_heads_def space_tails_def)

lemma parse_part_keys:
  assumes "TrimSpace v = v"
  shows "parse_part L (''uid='' @ v) hb = parse_field L ''uid'' v hb"
    and "parse_part L (''ts='' @ v) hb = parse_field L ''ts'' v hb"
    and "parse_part L (''lat='' @ v) hb = parse_field L ''lat'' v hb"
    and "parse_part L (''lng='' @ v) hb = parse_field L ''lng'' v hb"
    and "parse_part L (''acc='' @ v) hb = parse_field L ''acc'' v hb"
    and "parse_part L (''cell='' @ v) hb = parse_field L ''cell'' v hb"
    and "parse_part L (''bat='' @ v) hb = parse_field L ''bat'' v hb"
    and "parse_part L (''spd='' @ v) hb = parse_field L ''spd'' v hb"
    and "parse_part L (''lg='' @ v) hb = parse_field L ''lg'' v hb"
    and "parse_part L (''sig='' @ v) hb = parse_field L ''sig'' v hb"
  using parse_part_emitted [of "''uid''" v L hb] parse_part_emitted [of "''ts''" v L hb]
    parse_part_emitted [of "''lat''" v L hb] parse_part_emitted [of "''lng''" v L hb]
    parse_part_emitted [of "''acc''" v L hb] parse_part_emitted [of "''cell''" v L hb]
    parse_part_emitted [of "''bat''" v L hb] parse_part_emitted [of "''spd''" v L hb]
    parse_part_emitted [of "''lg''" v L hb] parse_part_emitted [of "''sig''" v L hb]
    assms untrimmed_keys
  by simp_all

lemmas parse_part_key = parse_part_keys [unfolded append_Cons append_Nil]

lemma int64_Atoi: "int64 i \<Longrightarrow> Atoi (Itoa i) = Some i"
  by (simp add: int64_def Atoi_Itoa)

lemma Split_cell_string:
  "Split CHR '','' (cell_string c) =
     [Itoa (ci_MCC c), Itoa (ci_MNC c), Itoa (ci_CID c), Itoa (ci_LAC c), Itoa (ci_RSSI c)]"
proof -
  have "Split CHR '','' (a @ CHR '','' # rest) = a # Split CHR '','' rest"
    if "CHR '','' \<notin> set a" for a rest
    using that by (rule Split_append)
  then show ?thesis
    by (simp add: cell_string_def Itoa_no_separator Split_no_sep)
qed

lemma parseCellInfo_cell_string:
  assumes "int64 (ci_MCC c)" "int64 (ci_MNC c)" "int64 (ci_CID c)" "int64 (ci_LAC c)"
    "int64 (ci_RSSI c)"
  shows "parseCellInfo (cell_string c) = Inr (c\<lparr>ci_NetworkType := [], ci_Neighbors := []\<rparr>)"
  using assms by (simp add: parseCellInfo_def Split_cell_string int64_Atoi)

lemma cell_string_clean: "clean (cell_string c)"
proof -
  have ne: "cell_string c \<noteq> []" by (simp add: cell_string_def Itoa_nonempty)
  have "hd (cell_string c) = hd (Itoa (ci_MCC c))"
    by (simp add: cell_string_def Itoa_nonempty)
  moreover have "last (cell_string c) = last (Itoa (ci_RSSI c))"
    by (simp add: cell_string_def Itoa_nonempty)
  ultimately have "untrimmed (cell_string c)"
    using Itoa_untrimmed [of "ci_MCC c"] Itoa_untrimmed [of "ci_RSSI c"] ne
    by (simp add: untrimmed_def Itoa_nonempty)
  moreover have "CHR '';'' \<notin> set (cell_string c)"
    by (simp add: cell_string_def Itoa_no_separator)
  ultimately show ?thesis by (simp add: clean_def TrimSpace_untrimmed)
qed

lemma Itoa_clean: "clean (Itoa i)"
  by (simp add: clean_def Itoa_no_separator TrimSpace_untrimmed Itoa_untrimmed)

lemma clean_part: "clean v \<Longrightarrow> CHR '';'' \<notin> set k \<Longrightarrow> CHR '';'' \<notin> set (k @ v)"
  by (simp add: clean_def)

lemma parse_parts_optional:
  assumes "well_formed h" and "library_round_trips L h"
    and "hb_BatteryPct hb = None" and "hb_Speed hb = None" and "\<not> hb_LastGasp hb"
  shows "parse_parts L (optional_parts L h) hb =
           Inr (hb\<lparr>hb_BatteryPct := hb_BatteryPct h, hb_Speed := hb_Speed h,
                    hb_LastGasp := hb_LastGasp h\<rparr>)"
proof -
  have bat: "parse_parts L (case hb_BatteryPct h of None \<Rightarrow> [] | Some bat \<Rightarrow> [''bat='' @ Itoa bat]) x
      = Inr (x\<lparr>hb_BatteryPct := hb_BatteryPct h\<rparr>)" if "hb_BatteryPct x = None" for x
  proof (cases "hb_BatteryPct h")
    case None
    with that show ?thesis by simp
  next
    case (Some bat)
    with assms(1) have "int64 bat" by (simp add: well_formed_def)
    with Some show ?thesis
      using Itoa_clean [of bat]
      by (simp add: parse_part_key clean_def parse_field_def int64_Atoi)
  qed
  have spd: "parse_parts L (case hb_Speed h of None \<Rightarrow> [] | Some spd \<Rightarrow> [''spd='' @ Sprintf_f1 L spd]) x
      = Inr (x\<lparr>hb_Speed := hb_Speed h\<rparr>)" if "hb_Speed x = None" for x
  proof (cases "hb_Speed h")
    case None
    with that show ?thesis by simp
  next
    case (Some v)
    with assms(2) have "ParseFloat L (Sprintf_f1 L v) = Some v" "clean (Sprintf_f1 L v)"
      by (simp_all add: library_round_trips_def)
    with Some show ?thesis
      by (simp add: parse_part_key clean_def parse_field_def)
  qed
  have lg: "parse_parts L (if hb_LastGasp h then [''lg=1''] else []) x
      = Inr (x\<lparr>hb_LastGasp := hb_LastGasp h\<rparr>)" if "\<not> hb_LastGasp x" for x
  proof (cases "hb_LastGasp h")
    case True
    have "TrimSpace ''1'' = ''1''"
      by (simp add: TrimSpace_untrimmed untrimmed_def space_heads_def space_tails_def)
    from parse_part_key(9) [OF this, of L x] True show ?thesis
      by (simp add: parse_field_def)
  next
    case False
    with that show ?thesis by simp
  qed
  show ?thesis
    using assms(3-5)
    by (simp add: optional_parts_def parse_parts_append bat spd lg del: parse_parts.simps)
qed

lemma emitted_parts_no_separator:
  assumes "well_formed h" and "library_round_trips L h"
  shows "\<forall>p \<in> set (emitted_parts L h). CHR '';'' \<notin> set p"
proof -
  have opt: "\<forall>p \<in> set (optional_parts L h). CHR '';'' \<notin> set p"
    using assms(2) Itoa_no_separator(1)
    by (auto simp: optional_parts_def library_round_trips_def clean_def split: option.splits)
  from assms cell_string_clean [of "hb_CellInfo h"] opt show ?thesis
    by (simp add: emitted_parts_def well_formed_def library_round_trips_def clean_def
        Itoa_no_separator)
qed

lemma emitted_parts_length: "6 \<le> length (emitted_parts L h)"
  by (simp add: emitted_parts_def)

lemma Split_BuildSMSPayload:
  assumes "well_formed h" and "library_round_trips L h"
  shows "Split CHR '';'' (BuildSMSPayload L h) = emitted_parts L h"
  unfolding BuildSMSPayload_parts
  using emitted_parts_no_separator [OF assms]
  by (intro Split_Join) (simp_all add: emitted_parts_def)

lemma parse_parts_emitted:
  assumes wf: "well_formed h" and lib: "library_round_trips L h"
  shows "parse_parts L (emitted_parts L h)
           (zero_Heartbeat\<lparr>hb_ID := new_id, hb_Source := ''sms'', hb_CreatedAt := now\<rparr>) =
         Inr (as_parsed new_id now h)"
proof -
  let ?hb0 = "zero_Heartbeat\<lparr>hb_ID := new_id, hb_Source := ''sms'', hb_CreatedAt := now\<rparr>"
  let ?hb6 = "?hb0\<lparr>hb_UserID := hb_UserID h, hb_Timestamp := hb_Timestamp h, hb_Lat := hb_Lat h,
                   hb_Lng := hb_Lng h, hb_AccuracyM := hb_AccuracyM h,
                   hb_CellInfo := (hb_CellInfo h)\<lparr>ci_NetworkType := [], ci_Neighbors := []\<rparr>\<rparr>"
  from wf have ints: "int64 (hb_AccuracyM h)" "int64 (ci_MCC (hb_CellInfo h))"
    "int64 (ci_MNC (hb_CellInfo h))" "int64 (ci_CID (hb_CellInfo h))"
    "int64 (ci_LAC (hb_CellInfo h))" "int64 (ci_RSSI (hb_CellInfo h))"
    and sig: "TrimSpace (hb_Signature h) = hb_Signature h"
    by (simp_all add: well_formed_def clean_def)
  from lib have trims: "TrimSpace (uuid_String L (hb_UserID h)) = uuid_String L (hb_UserID h)"
    "TrimSpace (time_Format L (hb_Timestamp h)) = time_Format L (hb_Timestamp h)"
    "TrimSpace (Sprintf_f6 L (hb_Lat h)) = Sprintf_f6 L (hb_Lat h)"
    "TrimSpace (Sprintf_f6 L (hb_Lng h)) = Sprintf_f6 L (hb_Lng h)"
    and parses: "uuid_Parse L (uuid_String L (hb_UserID h)) = Some (hb_UserID h)"
    "time_Parse L (time_Format L (hb_Timestamp h)) = Some (hb_Timestamp h)"
    "ParseFloat L (Sprintf_f6 L (hb_Lat h)) = Some (hb_Lat h)"
    "ParseFloat L (Sprintf_f6 L (hb_Lng h)) = Some (hb_Lng h)"
    by (simp_all add: library_round_trips_def clean_def)
  have acc: "TrimSpace (Itoa (hb_AccuracyM h)) = Itoa (hb_AccuracyM h)"
    and cell: "TrimSpace (cell_string (hb_CellInfo h)) = cell_string (hb_CellInfo h)"
    using Itoa_clean cell_string_clean by (simp_all add: clean_def)
  have base: "parse_parts L
      [''uid='' @ uuid_String L (hb_UserID h), ''ts='' @ time_Format L (hb_Timestamp h),
       ''lat='' @ Sprintf_f6 L (hb_Lat h), ''lng='' @ Sprintf_f6 L (hb_Lng h),
       ''acc='' @ Itoa (hb_AccuracyM h), ''cell='' @ cell_string (hb_CellInfo h)] ?hb0 = Inr ?hb6"
    by (simp add: parse_part_key trims acc cell parse_field_def parses int64_Atoi ints
        parseCellInfo_cell_string)
  have opt: "parse_parts L (optional_parts L h) ?hb6 =
      Inr (?hb6\<lparr>hb_BatteryPct := hb_BatteryPct h, hb_Speed := hb_Speed h,
                 hb_LastGasp := hb_LastGasp h\<rparr>)"
    by (rule parse_parts_optional [OF wf lib]) (simp_all add: zero_Heartbeat_def)
  have last: "parse_parts L [''sig='' @ hb_Signature h] x = Inr (x\<lparr>hb_Signature := hb_Signature h\<rparr>)"
    for x by (simp add: parse_part_key sig parse_field_def)
  have "parse_parts L (emitted_parts L h) ?hb0 =
      Inr (?hb6\<lparr>hb_BatteryPct := hb_BatteryPct h, hb_Speed := hb_Speed h,
                 hb_LastGasp := hb_LastGasp h, hb_Signature := hb_Signature h\<rparr>)"
    by (simp only: emitted_parts_def parse_parts_append base opt last sum.case)
  also have "?hb6\<lparr>hb_BatteryPct := hb_BatteryPct h, hb_Speed := hb_Speed h,
                 hb_LastGasp := hb_LastGasp h, hb_Signature := hb_Signature h\<rparr> =
             as_parsed new_id now h"
    by (simp add: as_parsed_def zero_Heartbeat_def)
  finally show ?thesis .
qed

lemma round_trip:
  assumes wf: "well_formed h" and lib: "library_round_trips L h"
  shows "ParseHeartbeatSMS L new_id now (BuildSMSPayload L h) = Inr (as_parsed new_id now h)"
proof -
  from wf have "hb_UserID (as_parsed new_id now h) \<noteq> 0"
    "hb_Timestamp (as_parsed new_id now h) \<noteq> 0" "hb_Signature (as_parsed new_id now h) \<noteq> []"
    by (simp_all add: well_formed_def as_parsed_def)
  then show ?thesis
    using emitted_parts_length [of L h]
    by (simp add: ParseHeartbeatSMS_def Split_BuildSMSPayload [OF wf lib]
        parse_parts_emitted [OF wf lib] del: parse_parts.simps)
qed

lemma Itoa_samples:
  "Itoa 200 = ''200''" "Itoa 621 = ''621''" "Itoa 20 = ''20''" "Itoa 12345 = ''12345''"
  "Itoa 678 = ''678''" "Itoa (- 85) = ''-85''"
  by (simp_all add: Itoa_def nat_digits.simps digit_char_def)

lemma untrimmedI: "s \<noteq> [] \<Longrightarrow> hd s \<notin> set space_heads \<Longrightarrow> last s \<notin> set space_tails \<Longrightarrow> untrimmed s"
  by (simp add: untrimmed_def)

lemma sample_clean:
  "clean ''550e8400-e29b-41d4-a716-446655440000''" "clean ''2025-11-19T12:50:00Z''"
  "clean ''6.524400''" "clean ''3.379200''" "clean sample_signature"
  by (simp_all add: clean_def TrimSpace_untrimmed untrimmed_def space_heads_def space_tails_def
      sample_signature_def)

lemma sms_heartbeat_well_formed: "well_formed sms_heartbeat"
  using sample_clean(5)
  by (simp add: well_formed_def sms_heartbeat_def int64_def sample_cell_def sample_user_id_def
      t0_def Second_def sample_signature_def)

lemma sms_heartbeat_library: "library_round_trips sample_lib sms_heartbeat"
  using sample_clean
  by (simp add: library_round_trips_def sms_heartbeat_def sample_lib_def sample_user_id_def
      t0_def Second_def)

lemma sample_sms_built: "BuildSMSPayload sample_lib sms_heartbeat = sample_sms"
  by (simp add: BuildSMSPayload_def sms_heartbeat_def sample_lib_def sample_cell_def Itoa_samples
      sample_sms_def sample_payload_def sample_signature_def)

lemma lte_heartbeat_well_formed: "well_formed lte_heartbeat"
  using sms_heartbeat_well_formed
  by (simp add: well_formed_def lte_heartbeat_def sms_heartbeat_def sample_cell_def)

lemma lte_heartbeat_library: "library_round_trips sample_lib lte_heartbeat"
  using sms_heartbeat_library
  by (simp add: library_round_trips_def lte_heartbeat_def sms_heartbeat_def)

section \<open>Codec round trip\<close>

text \<open>
  Claim C7, as stated: parsing the emitted payload gives the heartbeat back, field for
  field. It does not: the payload carries only the five numbers of the cell, so a
  heartbeat whose cell has network type 4G comes back with an empty network type, even
  when the parser is handed the heartbeat's own id and creation time.
\<close>

theorem C7_network_type_is_lost:
  "ParseHeartbeatSMS sample_lib (hb_ID lte_heartbeat) (hb_CreatedAt lte_heartbeat)
     (BuildSMSPayload sample_lib lte_heartbeat) = Inr sms_heartbeat
   \<and> sms_heartbeat \<noteq> lte_heartbeat"
proof -
  have "as_parsed (hb_ID lte_heartbeat) (hb_CreatedAt lte_heartbeat) lte_heartbeat = sms_heartbeat"
    by (simp add: as_parsed_def lte_heartbeat_def sms_heartbeat_def sample_cell_def)
  with round_trip [OF lte_heartbeat_well_formed lte_heartbeat_library]
  have "ParseHeartbeatSMS sample_lib (hb_ID lte_heartbeat) (hb_CreatedAt lte_heartbeat)
     (BuildSMSPayload sample_lib lte_heartbeat) = Inr sms_heartbeat"
    by simp
  moreover have "ci_NetworkType (hb_CellInfo sms_heartbeat) \<noteq> ci_NetworkType (hb_CellInfo lte_heartbeat)"
    by (simp add: lte_heartbeat_def sms_heartbeat_def sample_cell_def)
  then have "sms_heartbeat \<noteq> lte_heartbeat" by auto
  ultimately show ?thesis by simp
qed

text \<open>
  Claim C7, amended. Take a heartbeat with a user id and a timestamp other than the zero
  values, a non-empty signature with no semicolon in it and no white space around it,
  and integers that fit 64 bits, and a library whose parsers give back what its formatters
  were given for this heartbeat's user id, timestamp, latitude, longitude and speed, in
  strings with no semicolon and no white space around them. Then parsing the emitted
  payload returns the heartbeat with every field the payload carries (user id, timestamp,
  latitude, longitude, accuracy, the five cell numbers, battery, speed, last_gasp,
  signature) as it was, with ID and CreatedAt set by the parser, Source set to sms and the
  cell's network type and neighbours empty. Putting one more part with no semicolon and a
  key that is not one of the ten known keys (or with no equals sign) anywhere between the
  parts does not change that result.
\<close>

theorem C7_codec_round_trip:
  assumes "well_formed h" and "library_round_trips L h"
  shows "ParseHeartbeatSMS L new_id now (BuildSMSPayload L h) = Inr (as_parsed new_id now h)
         \<and> (Split CHR '';'' (BuildSMSPayload L h) = pre @ post \<and> CHR '';'' \<notin> set x \<and> unknown_part x
              \<longrightarrow> ParseHeartbeatSMS L new_id now (Join CHR '';'' (pre @ x # post)) =
                    Inr (as_parsed new_id now h))"
proof
  show rt: "ParseHeartbeatSMS L new_id now (BuildSMSPayload L h) = Inr (as_parsed new_id now h)"
    using assms by (rule round_trip)
  show "Split CHR '';'' (BuildSMSPayload L h) = pre @ post \<and> CHR '';'' \<notin> set x \<and> unknown_part x
        \<longrightarrow> ParseHeartbeatSMS L new_id now (Join CHR '';'' (pre @ x # post)) =
              Inr (as_parsed new_id now h)"
  proof
    assume a: "Split CHR '';'' (BuildSMSPayload L h) = pre @ post \<and> CHR '';'' \<notin> set x \<and> unknown_part x"
    have "6 \<le> length (Split CHR '';'' (BuildSMSPayload L h))"
      by (simp add: Split_BuildSMSPayload [OF assms] emitted_parts_length)
    with a have "ParseHeartbeatSMS L new_id now (Join CHR '';'' (pre @ x # post)) =
        ParseHeartbeatSMS L new_id now (BuildSMSPayload L h)"
      by (intro ParseHeartbeatSMS_insert_unknown) simp_all
    with rt show "ParseHeartbeatSMS L new_id now (Join CHR '';'' (pre @ x # post)) =
        Inr (as_parsed new_id now h)" by simp
  qed
qed

lemma sample_sms_split:
  "Split CHR '';'' sample_sms =
     [''uid=550e8400-e29b-41d4-a716-446655440000'', ''ts=2025-11-19T12:50:00Z'', ''lat=6.524400'']
     @ [''lng=3.379200'', ''acc=200'', ''cell=621,20,12345,678,-85'',
        ''sig=V/TxUTiVkVpsLR87mVtwfzRTpti6/jV5s/W39Yf+POY='']"
  by (simp add: sample_sms_def sample_payload_def sample_signature_def)

lemma unknown_part_sample: "unknown_part ''ver=2''"
  by (simp add: unknown_part_def part_key_def SplitN2_def known_keys_def TrimSpace_untrimmed
      untrimmed_def space_heads_def space_tails_def)

theorem C7_codec_round_trip_witness:
  "well_formed sms_heartbeat \<and> library_round_trips sample_lib sms_heartbeat
   \<and> BuildSMSPayload sample_lib sms_heartbeat = sample_sms
   \<and> ParseHeartbeatSMS sample_lib 11 (t0 + 5 * Second) sample_sms = Inr sms_heartbeat
   \<and> unknown_part ''ver=2''
   \<and> ParseHeartbeatSMS sample_lib 11 (t0 + 5 * Second)
        ''uid=550e8400-e29b-41d4-a716-446655440000;ts=2025-11-19T12:50:00Z;lat=6.524400;ver=2;lng=3.379200;acc=200;cell=621,20,12345,678,-85;sig=V/TxUTiVkVpsLR87mVtwfzRTpti6/jV5s/W39Yf+POY=''
       = Inr sms_heartbeat"
proof -
  let ?pre = "[''uid=550e8400-e29b-41d4-a716-446655440000'', ''ts=2025-11-19T12:50:00Z'', ''lat=6.524400'']"
  let ?post = "[''lng=3.379200'', ''acc=200'', ''cell=621,20,12345,678,-85'',
        ''sig=V/TxUTiVkVpsLR87mVtwfzRTpti6/jV5s/W39Yf+POY='']"
  have same: "as_parsed 11 (t0 + 5 * Second) sms_heartbeat = sms_heartbeat"
    by (simp add: as_parsed_def sms_heartbeat_def sample_cell_def)
  have split: "Split CHR '';'' (BuildSMSPayload sample_lib sms_heartbeat) = ?pre @ ?post"
    unfolding sample_sms_built by (rule sample_sms_split)
  have x: "CHR '';'' \<notin> set ''ver=2''" by simp
  have joined: "Join CHR '';'' (?pre @ ''ver=2'' # ?post) =
    ''uid=550e8400-e29b-41d4-a716-446655440000;ts=2025-11-19T12:50:00Z;lat=6.524400;ver=2;lng=3.379200;acc=200;cell=621,20,12345,678,-85;sig=V/TxUTiVkVpsLR87mVtwfzRTpti6/jV5s/W39Yf+POY=''"
    by simp
  from C7_codec_round_trip [OF sms_heartbeat_well_formed sms_heartbeat_library,
      of 11 "t0 + 5 * Second" ?pre ?post "''ver=2''"] split x unknown_part_sample
  have "ParseHeartbeatSMS sample_lib 11 (t0 + 5 * Second) (BuildSMSPayload sample_lib sms_heartbeat)
          = Inr sms_heartbeat"
    and "ParseHeartbeatSMS sample_lib 11 (t0 + 5 * Second) (Join CHR '';'' (?pre @ ''ver=2'' # ?post))
          = Inr sms_heartbeat"
    by (simp_all only: same simp_thms)
  then show ?thesis
    using sms_heartbeat_well_formed sms_heartbeat_library unknown_part_sample
    by (simp only: sample_sms_built joined simp_thms)
qed

lemmas parse_eval = ParseHeartbeatSMS_def parse_part_key TrimSpace_untrimmed untrimmed_def
  space_heads_def space_tails_def parse_field_def parseCellInfo_def Atoi_def is_digit_def
  digit_val_def digits_value_def sample_lib_def zero_Heartbeat_def zero_CellInfo_def
  sms_heartbeat_def sample_cell_def sample_user_id_def sample_signature_def t0_def Second_def Let_def

lemma bad_battery_parses:
  "ParseHeartbeatSMS sample_lib 11 (t0 + 5 * Second)
     ''uid=550e8400-e29b-41d4-a716-446655440000;ts=2025-11-19T12:50:00Z;lat=6.524400;lng=3.379200;acc=200;cell=621,20,12345,678,-85;bat=abc;sig=V/TxUTiVkVpsLR87mVtwfzRTpti6/jV5s/W39Yf+POY=''
     = Inr sms_heartbeat"
  by (simp add: parse_eval)

lemma short_body_rejected:
  "ParseHeartbeatSMS sample_lib 11 (t0 + 5 * Second) ''lat=abc''
     = Inl (Errorf ''invalid SMS format: insufficient fields'')"
  by (simp add: ParseHeartbeatSMS_def)

lemma bad_uid_comes_first:
  "ParseHeartbeatSMS sample_lib 11 (t0 + 5 * Second)
     ''uid=nobody;ts=2025-11-19T12:50:00Z;lat=abc;lng=3.379200;acc=200;cell=621,20,12345,678,-85;sig=V/TxUTiVkVpsLR87mVtwfzRTpti6/jV5s/W39Yf+POY=''
     = Inl (Wrap ''invalid user ID'' (LibError ''nobody''))"
  by (simp add: parse_eval)

lemma parse_field_rejected:
  assumes "rejected L key v"
  shows "\<exists>e. parse_field L key v hb = Inl (Wrap (field_error key) e)"
proof -
  from assms consider "key = ''lat''" "ParseFloat L v = None" | "key = ''lng''" "ParseFloat L v = None"
    | "key = ''acc''" "Atoi v = None" | e where "key = ''cell''" "parseCellInfo v = Inl e"
    by (auto simp: rejected_def isl_def)
  then show ?thesis
    by cases (simp_all add: parse_field_def field_error_def)
qed

lemma parse_parts_rejects:
  assumes "part \<in> set parts" and "\<And>hb. isl (parse_part L part hb)"
  shows "isl (parse_parts L parts hb0)"
  using assms(1)
proof (induction parts arbitrary: hb0)
  case Nil
  then show ?case by simp
next
  case (Cons p ps)
  show ?case
  proof (cases "parse_part L p hb0")
    case (Inl e)
    then show ?thesis by simp
  next
    case (Inr hb1)
    show ?thesis
    proof (cases "p = part")
      case True
      with assms(2) [of hb0] Inr show ?thesis by simp
    next
      case False
      with Cons.prems have "part \<in> set ps" by simp
      with Inr Cons.IH show ?thesis by simp
    qed
  qed
qed

lemma ParseHeartbeatSMS_cases:
  "ParseHeartbeatSMS L new_id now body =
     (if length (Split CHR '';'' body) < 6 then Inl (Errorf ''invalid SMS format: insufficient fields'')
      else case parse_parts L (Split CHR '';'' body) (initial_heartbeat new_id now) of
        Inl e \<Rightarrow> Inl e
      | Inr hb \<Rightarrow>
          if hb_UserID hb = 0 then Inl (Errorf ''missing user ID'')
          else if hb_Timestamp hb = 0 then Inl (Errorf ''missing timestamp'')
          else if hb_Signature hb = [] then Inl (Errorf ''missing signature'')
          else Inr hb)"
  by (simp add: ParseHeartbeatSMS_def initial_heartbeat_def Let_def)

lemma ParseHeartbeatSMS_failed_parts:
  "isl (parse_parts L (Split CHR '';'' body) (initial_heartbeat new_id now))
   \<Longrightarrow> isl (ParseHeartbeatSMS L new_id now body)"
  by (auto simp: ParseHeartbeatSMS_cases isl_def)

lemma key_cases:
  "key = ''uid'' \<or> key = ''ts'' \<or> key = ''lat'' \<or> key = ''lng'' \<or> key = ''acc'' \<or> key = ''cell''
   \<or> key = ''bat'' \<or> key = ''spd'' \<or> key = ''lg'' \<or> key = ''sig'' \<or> key \<notin> set known_keys"
  by (simp add: known_keys_def) blast

lemma parse_field_keeps:
  assumes "parse_field L key v hb = Inr hb'"
  shows "(key \<noteq> ''uid'' \<longrightarrow> hb_UserID hb' = hb_UserID hb)
     \<and> (key \<noteq> ''ts'' \<longrightarrow> hb_Timestamp hb' = hb_Timestamp hb)
     \<and> (key \<noteq> ''sig'' \<longrightarrow> hb_Signature hb' = hb_Signature hb)"
  using key_cases [of key]
proof (elim disjE)
  assume "key = ''uid''"
  with assms show ?thesis by (auto simp: parse_field_def split: option.splits)
next
  assume "key = ''ts''"
  with assms show ?thesis by (auto simp: parse_field_def split: option.splits)
next
  assume "key = ''lat''"
  with assms show ?thesis by (auto simp: parse_field_def split: option.splits)
next
  assume "key = ''lng''"
  with assms show ?thesis by (auto simp: parse_field_def split: option.splits)
next
  assume "key = ''acc''"
  with assms show ?thesis by (auto simp: parse_field_def split: option.splits)
next
  assume "key = ''cell''"
  with assms show ?thesis by (auto simp: parse_field_def split: sum.splits)
next
  assume "key = ''bat''"
  with assms show ?thesis by (auto simp: parse_field_def split: option.splits)
next
  assume "key = ''spd''"
  with assms show ?thesis by (auto simp: parse_field_def split: option.splits)
next
  assume "key = ''lg''"
  with assms show ?thesis by (auto simp: parse_field_def)
next
  assume "key = ''sig''"
  with assms show ?thesis by (auto simp: parse_field_def)
next
  assume "key \<notin> set known_keys"
  with assms show ?thesis by (simp add: parse_field_unknown)
qed

lemma parse_part_keeps:
  assumes "parse_part L part hb = Inr hb'"
  shows "(part_key part \<noteq> Some ''uid'' \<longrightarrow> hb_UserID hb' = hb_UserID hb)
     \<and> (part_key part \<noteq> Some ''ts'' \<longrightarrow> hb_Timestamp hb' = hb_Timestamp hb)
     \<and> (part_key part \<noteq> Some ''sig'' \<longrightarrow> hb_Signature hb' = hb_Signature hb)"
proof (cases "part_key part")
  case None
  with assms show ?thesis by (simp add: parse_part_no_key)
next
  case (Some key)
  then obtain v where v: "part_value part = Some v"
    using part_key_value [of part] by (cases "part_value part") auto
  from assms have "parse_field L key v hb = Inr hb'"
    by (simp add: parse_part_keyed [OF Some v])
  from parse_field_keeps [OF this] Some show ?thesis by simp
qed

lemma parse_parts_keeps:
  assumes "parse_parts L parts hb = Inr hb'"
  shows "((\<forall>p \<in> set parts. part_key p \<noteq> Some ''uid'') \<longrightarrow> hb_UserID hb' = hb_UserID hb)
     \<and> ((\<forall>p \<in> set parts. part_key p \<noteq> Some ''ts'') \<longrightarrow> hb_Timestamp hb' = hb_Timestamp hb)
     \<and> ((\<forall>p \<in> set parts. part_key p \<noteq> Some ''sig'') \<longrightarrow> hb_Signature hb' = hb_Signature hb)"
  using assms
proof (induction parts arbitrary: hb)
  case Nil
  then show ?case by simp
next
  case (Cons p ps)
  from Cons.prems obtain hb1 where 1: "parse_part L p hb = Inr hb1"
    and 2: "parse_parts L ps hb1 = Inr hb'"
    by (cases "parse_part L p hb") simp_all
  from parse_part_keeps [OF 1] Cons.IH [OF 2] show ?case by simp
qed

lemma ParseHeartbeatSMS_missing:
  assumes "(\<forall>p \<in> set (Split CHR '';'' body). part_key p \<noteq> Some ''uid'')
     \<or> (\<forall>p \<in> set (Split CHR '';'' body). part_key p \<noteq> Some ''ts'')
     \<or> (\<forall>p \<in> set (Split CHR '';'' body). part_key p \<noteq> Some ''sig'')"
  shows "isl (ParseHeartbeatSMS L new_id now body)"
proof (cases "parse_parts L (Split CHR '';'' body) (initial_heartbeat new_id now)")
  case (Inl e)
  then show ?thesis by (simp add: ParseHeartbeatSMS_failed_parts)
next
  case (Inr hb)
  from parse_parts_keeps [OF Inr] assms
  have "hb_UserID hb = 0 \<or> hb_Timestamp hb = 0 \<or> hb_Signature hb = []"
    by (auto simp: initial_heartbeat_def zero_Heartbeat_def)
  with Inr show ?thesis by (auto simp: ParseHeartbeatSMS_cases)
qed


lemma signed_bytes_suffix: "signed_bytes (p @ '';sig='' @ s) s = Some p"
  by (simp add: signed_bytes_def)

lemma TrimSpace_trailing_blank:
  assumes "untrimmed s" and "s \<noteq> []"
  shows "TrimSpace (s @ '' '') = s"
proof -
  from assms have h: "hd (s @ '' '') \<notin> set space_heads" and l: "last s \<notin> set space_tails"
    by (simp_all add: untrimmed_def)
  then have left: "TrimLeft (s @ '' '') = s @ '' ''" by (simp add: TrimLeft_id)
  have "trailing_space (s @ '' '') = Some '' ''"
    by (simp add: trailing_space_def white_space_def)
  then have "TrimRight (s @ '' '') = TrimRight s"
    by (subst TrimRight.simps) simp
  with l left show ?thesis by (simp add: TrimSpace_def TrimRight_id)
qed

lemma parse_part_sig:
  "parse_part L (CHR ''s'' # CHR ''i'' # CHR ''g'' # CHR ''='' # v) hb =
     Inr (hb\<lparr>hb_Signature := TrimSpace v\<rparr>)"
  using SplitN2_key [of "CHR ''=''" "''sig''" v] untrimmed_keys(10)
  by (simp add: parse_part_def TrimSpace_untrimmed parse_field_def)

lemma sample_signature_trailing: "TrimSpace (sample_signature @ '' '') = sample_signature"
  by (rule TrimSpace_trailing_blank)
    (simp_all add: sample_signature_def untrimmed_def space_heads_def space_tails_def)

lemmas sample_signature_trailing' =
  sample_signature_trailing [unfolded sample_signature_def, simplified]

lemma trailing_space_parses:
  "ParseHeartbeatSMS sample_lib 11 (t0 + 5 * Second) (sample_sms @ '' '') = Inr sms_heartbeat"
  by (simp add: sample_sms_def sample_payload_def parse_part_sig sample_signature_trailing'
      parse_eval)

section \<open>The signed region\<close>

text \<open>
  Claim C5. The signature should be verified over the body up to the \<^verbatim>\<open>;sig=\<close> token.
  The handler cuts the body by length, \<^verbatim>\<open>len(body)-len(signature)-5\<close>, which is that
  prefix only when the body ends with \<^verbatim>\<open>;sig=\<close> and the signature exactly
  (\<open>signed_bytes_suffix\<close>). The parser trims white space, so the sample message followed
  by one space parses to the same heartbeat; the handler then verifies over the payload
  plus the semicolon and answers "Invalid signature", although the signature is the HMAC
  of the payload.
\<close>

theorem C5_trailing_space_shifts_signed_bytes:
  "ParseHeartbeatSMS sample_lib 11 (t0 + 5 * Second) (sample_sms @ '' '') = Inr sms_heartbeat
   \<and> sample_sms @ '' '' = sample_payload @ '';sig='' @ hb_Signature sms_heartbeat @ '' ''
   \<and> signed_bytes (sample_sms @ '' '') (hb_Signature sms_heartbeat) = Some (sample_payload @ '';'')
   \<and> VerifyStringSignature sample_lib sample_payload (hb_Signature sms_heartbeat) ''secret''
   \<and> fst (HandleIncomingSMS sample_lib default_Config sample_sms_clock 11 12 13
             (sample_sms @ '' '') (sample_world [] [])) =
       (200, XML [(''Response'', JString ''Invalid signature'')])"
proof -
  have 1: "sample_sms @ '' '' = sample_payload @ '';sig='' @ hb_Signature sms_heartbeat @ '' ''"
    by (simp add: sample_sms_def sms_heartbeat_def)
  have 2: "signed_bytes (sample_sms @ '' '') (hb_Signature sms_heartbeat) = Some (sample_payload @ '';'')"
    by (simp add: signed_bytes_def sample_sms_def sms_heartbeat_def sample_signature_def
        sample_payload_def)
  have 3: "VerifyStringSignature sample_lib sample_payload (hb_Signature sms_heartbeat) ''secret''"
    by (simp add: VerifyStringSignature_def SignString_def sample_lib_def sample_payload_def
        sms_heartbeat_def sample_signature_def)
  have 4: "\<not> VerifyStringSignature sample_lib (sample_payload @ '';'') (hb_Signature sms_heartbeat)
             (HMACSecret default_Config)"
    by (simp add: VerifyStringSignature_def SignString_def sample_lib_def sample_payload_def
        sms_heartbeat_def sample_signature_def default_Config_def)
  have "sample_sms @ '' '' \<noteq> []" by (simp add: sample_sms_def)
  with trailing_space_parses 2 4
  have 5: "fst (HandleIncomingSMS sample_lib default_Config sample_sms_clock 11 12 13
             (sample_sms @ '' '') (sample_world [] [])) =
       (200, XML [(''Response'', JString ''Invalid signature'')])"
    by (simp add: HandleIncomingSMS_def sample_sms_clock_def)
  show ?thesis by (intro conjI trailing_space_parses 1 2 3 5)
qed

lemma sample_sms_parses:
  "ParseHeartbeatSMS sample_lib 11 (t0 + 5 * Second) sample_sms = Inr sms_heartbeat"
proof -
  have "as_parsed 11 (t0 + 5 * Second) sms_heartbeat = sms_heartbeat"
    by (simp add: as_parsed_def sms_heartbeat_def sample_cell_def)
  with round_trip [OF sms_heartbeat_well_formed sms_heartbeat_library, of 11 "t0 + 5 * Second"]
  show ?thesis by (simp add: sample_sms_built)
qed

lemma sample_sms_accepted:
  "HandleIncomingSMS sample_lib default_Config sample_sms_clock 11 12 13 sample_sms
     (sample_world [] []) =
   ((200, TwiML ''Heartbeat received''),
    sample_world [sms_heartbeat\<lparr>hb_ID := 12, hb_CreatedAt := t0 + 5 * Second + Millisecond\<rparr>] [])"
proof -
  have p: "ParseHeartbeatSMS sample_lib 11 (t0 + 5 * Second) sample_sms = Inr sms_heartbeat"
    by (rule sample_sms_parses)
  have s: "signed_bytes sample_sms (hb_Signature sms_heartbeat) = Some sample_payload"
    by (simp add: sample_sms_def sms_heartbeat_def signed_bytes_def)
  have v: "VerifyStringSignature sample_lib sample_payload (hb_Signature sms_heartbeat)
             (HMACSecret default_Config)"
    by (simp add: VerifyStringSignature_def SignString_def sample_lib_def sample_payload_def
        sms_heartbeat_def sample_signature_def default_Config_def)
  have ne: "sample_sms \<noteq> []" by (simp add: sample_sms_def)
  have u: "GetUserByID (hb_UserID sms_heartbeat) (sample_world [] []) = Inr (Some sample_user)"
    by (simp add: GetUserByID_def sample_world_def empty_world_def sample_user_def sms_heartbeat_def)
  show ?thesis
    by (simp add: HandleIncomingSMS_def sample_sms_clock_def p s v ne u Let_def)
      (simp add: CreateHeartbeat_def user_exists_def int32_def pg_timestamp_def sample_defs
        sms_heartbeat_def)
qed

section \<open>Numeric parse failures\<close>

text \<open>
  Claim C6, as stated: every recognised numeric key whose value does not parse makes
  \<open>ParseHeartbeatSMS\<close> return an error naming the field. A body with \<^verbatim>\<open>bat=abc\<close> is
  parsed into a heartbeat with no battery level; a body that is only \<^verbatim>\<open>lat=abc\<close> is
  rejected for having too few parts; and when an earlier part is rejected (here the uid)
  the error names that part, not the bad latitude after it.
\<close>

theorem C6_battery_value_is_ignored:
  "ParseHeartbeatSMS sample_lib 11 (t0 + 5 * Second)
     ''uid=550e8400-e29b-41d4-a716-446655440000;ts=2025-11-19T12:50:00Z;lat=6.524400;lng=3.379200;acc=200;cell=621,20,12345,678,-85;bat=abc;sig=V/TxUTiVkVpsLR87mVtwfzRTpti6/jV5s/W39Yf+POY=''
     = Inr sms_heartbeat
   \<and> Atoi ''abc'' = None
   \<and> ParseHeartbeatSMS sample_lib 11 (t0 + 5 * Second) ''lat=abc''
     = Inl (Errorf ''invalid SMS format: insufficient fields'')
   \<and> ParseHeartbeatSMS sample_lib 11 (t0 + 5 * Second)
     ''uid=nobody;ts=2025-11-19T12:50:00Z;lat=abc;lng=3.379200;acc=200;cell=621,20,12345,678,-85;sig=V/TxUTiVkVpsLR87mVtwfzRTpti6/jV5s/W39Yf+POY=''
     = Inl (Wrap ''invalid user ID'' (LibError ''nobody''))"
  using bad_battery_parses short_body_rejected bad_uid_comes_first by (simp add: Atoi_def is_digit_def)

text \<open>
  Claim C6, amended. (1) A body with a part whose key is lat, lng, acc or cell and whose
  value does not parse is answered with an error and no heartbeat. (2) When the body has
  at least six parts and the parts before that one are accepted, the error is "invalid
  latitude", "invalid longitude", "invalid accuracy" or "invalid cell info", wrapping the
  cause. (3) A part with key bat or spd whose value does not parse raises no error and
  leaves the heartbeat as it is. (4) A body with no uid part, or no ts part, or no sig part
  is answered with an error.
\<close>

theorem C6_numeric_parse_failures:
  "(part \<in> set (Split CHR '';'' body) \<and> part_key part = Some key \<and> part_value part = Some v
      \<and> rejected L key v
     \<longrightarrow> isl (ParseHeartbeatSMS L new_id now body))
   \<and> (Split CHR '';'' body = pre @ part # post \<and> 6 \<le> length (Split CHR '';'' body)
      \<and> parse_parts L pre (initial_heartbeat new_id now) = Inr hb1
      \<and> part_key part = Some key \<and> part_value part = Some v \<and> rejected L key v
     \<longrightarrow> (\<exists>e. ParseHeartbeatSMS L new_id now body = Inl (Wrap (field_error key) e)))
   \<and> (part_key part = Some key \<and> part_value part = Some v
      \<and> (key = ''bat'' \<and> Atoi v = None \<or> key = ''spd'' \<and> ParseFloat L v = None)
     \<longrightarrow> parse_part L part hb = Inr hb)
   \<and> ((\<forall>p \<in> set (Split CHR '';'' body). part_key p \<noteq> Some ''uid'')
      \<or> (\<forall>p \<in> set (Split CHR '';'' body). part_key p \<noteq> Some ''ts'')
      \<or> (\<forall>p \<in> set (Split CHR '';'' body). part_key p \<noteq> Some ''sig'')
     \<longrightarrow> isl (ParseHeartbeatSMS L new_id now body))"
proof (intro conjI impI)
  assume a: "part \<in> set (Split CHR '';'' body) \<and> part_key part = Some key
    \<and> part_value part = Some v \<and> rejected L key v"
  then have "isl (parse_part L part x)" for x
    using parse_field_rejected [of L key v x] by (auto simp: parse_part_keyed)
  with a have "isl (parse_parts L (Split CHR '';'' body) (initial_heartbeat new_id now))"
    by (intro parse_parts_rejects [of part]) simp_all
  then show "isl (ParseHeartbeatSMS L new_id now body)"
    by (rule ParseHeartbeatSMS_failed_parts)
next
  assume a: "Split CHR '';'' body = pre @ part # post \<and> 6 \<le> length (Split CHR '';'' body)
      \<and> parse_parts L pre (initial_heartbeat new_id now) = Inr hb1
      \<and> part_key part = Some key \<and> part_value part = Some v \<and> rejected L key v"
  then obtain e where "parse_part L part hb1 = Inl (Wrap (field_error key) e)"
    using parse_field_rejected [of L key v hb1] by (auto simp: parse_part_keyed)
  with a have "parse_parts L (Split CHR '';'' body) (initial_heartbeat new_id now) =
      Inl (Wrap (field_error key) e)"
    by (simp add: parse_parts_append)
  moreover from a have "6 \<le> length (Split CHR '';'' body)"
    by (rule conjunct1 [OF conjunct2])
  then have "\<not> length (Split CHR '';'' body) < 6" by (simp only: not_less)
  ultimately have "ParseHeartbeatSMS L new_id now body = Inl (Wrap (field_error key) e)"
    by (simp only: ParseHeartbeatSMS_cases if_False sum.case)
  then show "\<exists>e. ParseHeartbeatSMS L new_id now body = Inl (Wrap (field_error key) e)" ..
next
  assume "part_key part = Some key \<and> part_value part = Some v
      \<and> (key = ''bat'' \<and> Atoi v = None \<or> key = ''spd'' \<and> ParseFloat L v = None)"
  then have kv: "part_key part = Some key" "part_value part = Some v"
    and "key = ''bat'' \<and> Atoi v = None \<or> key = ''spd'' \<and> ParseFloat L v = None"
    by simp_all
  from this(3) have "parse_field L key v hb = Inr hb"
  proof
    assume "key = ''bat'' \<and> Atoi v = None"
    then show ?thesis by (simp add: parse_field_def)
  next
    assume "key = ''spd'' \<and> ParseFloat L v = None"
    then show ?thesis by (simp add: parse_field_def)
  qed
  with kv show "parse_part L part hb = Inr hb"
    by (simp add: parse_part_keyed)
next
  assume "(\<forall>p \<in> set (Split CHR '';'' body). part_key p \<noteq> Some ''uid'')
      \<or> (\<forall>p \<in> set (Split CHR '';'' body). part_key p \<noteq> Some ''ts'')
      \<or> (\<forall>p \<in> set (Split CHR '';'' body). part_key p \<noteq> Some ''sig'')"
  then show "isl (ParseHeartbeatSMS L new_id now body)"
    by (rule ParseHeartbeatSMS_missing)
qed

lemma part_samples:
  "part_key ''lat=abc'' = Some ''lat''" "part_value ''lat=abc'' = Some ''abc''"
  "part_key ''bat=abc'' = Some ''bat''" "part_value ''bat=abc'' = Some ''abc''"
  by (simp_all add: part_key_def part_value_def SplitN2_def TrimSpace_untrimmed untrimmed_def
      space_heads_def space_tails_def)

lemma bad_latitude_split:
  "Split CHR '';'' bad_latitude_sms =
     [''uid=550e8400-e29b-41d4-a716-446655440000'', ''ts=2025-11-19T12:50:00Z'']
     @ ''lat=abc'' # [''lng=3.379200'', ''acc=200'', ''cell=621,20,12345,678,-85'',
        ''sig=V/TxUTiVkVpsLR87mVtwfzRTpti6/jV5s/W39Yf+POY='']"
  by (simp add: bad_latitude_sms_def)

lemma bad_latitude_prefix:
  "parse_parts sample_lib
     [''uid=550e8400-e29b-41d4-a716-446655440000'', ''ts=2025-11-19T12:50:00Z'']
     (initial_heartbeat 11 (t0 + 5 * Second)) =
   Inr ((initial_heartbeat 11 (t0 + 5 * Second))\<lparr>hb_UserID := sample_user_id, hb_Timestamp := t0\<rparr>)"
  by (simp add: parse_part_key TrimSpace_untrimmed untrimmed_def space_heads_def space_tails_def
      parse_field_def sample_lib_def)

lemma sample_payload_keys:
  "\<forall>p \<in> set (Split CHR '';'' sample_payload). part_key p \<noteq> Some ''sig''"
  by (simp add: sample_payload_def part_key_def SplitN2_def TrimSpace_untrimmed untrimmed_def
      space_heads_def space_tails_def)

theorem C6_numeric_parse_failures_witness:
  "''lat=abc'' \<in> set (Split CHR '';'' bad_latitude_sms)
   \<and> part_key ''lat=abc'' = Some ''lat'' \<and> part_value ''lat=abc'' = Some ''abc''
   \<and> rejected sample_lib ''lat'' ''abc''
   \<and> 6 \<le> length (Split CHR '';'' bad_latitude_sms)
   \<and> ParseHeartbeatSMS sample_lib 11 (t0 + 5 * Second) bad_latitude_sms =
       Inl (Wrap ''invalid latitude'' (LibError ''abc''))
   \<and> part_key ''bat=abc'' = Some ''bat'' \<and> part_value ''bat=abc'' = Some ''abc''
   \<and> Atoi ''abc'' = None
   \<and> parse_part sample_lib ''bat=abc'' zero_Heartbeat = Inr zero_Heartbeat
   \<and> list_all (\<lambda>p. part_key p \<noteq> Some ''sig'') (Split CHR '';'' sample_payload)
   \<and> isl (ParseHeartbeatSMS sample_lib 11 (t0 + 5 * Second) sample_payload)"
proof -
  let ?pre = "[''uid=550e8400-e29b-41d4-a716-446655440000'', ''ts=2025-11-19T12:50:00Z'']"
  let ?post = "[''lng=3.379200'', ''acc=200'', ''cell=621,20,12345,678,-85'',
        ''sig=V/TxUTiVkVpsLR87mVtwfzRTpti6/jV5s/W39Yf+POY='']"
  let ?hb1 = "(initial_heartbeat 11 (t0 + 5 * Second))\<lparr>hb_UserID := sample_user_id, hb_Timestamp := t0\<rparr>"
  have mem: "''lat=abc'' \<in> set (Split CHR '';'' bad_latitude_sms)"
    by (simp add: bad_latitude_split)
  have rej: "rejected sample_lib ''lat'' ''abc''"
    by (simp add: rejected_def sample_lib_def)
  have len: "6 \<le> length (Split CHR '';'' bad_latitude_sms)"
    by (simp add: bad_latitude_split)
  have atoi: "Atoi ''abc'' = None" by (simp add: Atoi_def is_digit_def)
  note lat = C6_numeric_parse_failures [of "''lat=abc''" bad_latitude_sms "''lat''" "''abc''"
      sample_lib 11 "t0 + 5 * Second" ?pre ?post ?hb1 zero_Heartbeat]
  from lat bad_latitude_split len bad_latitude_prefix part_samples(1,2) rej
  obtain e where "ParseHeartbeatSMS sample_lib 11 (t0 + 5 * Second) bad_latitude_sms =
      Inl (Wrap (field_error ''lat'') e)" by blast
  moreover have "ParseHeartbeatSMS sample_lib 11 (t0 + 5 * Second) bad_latitude_sms =
      Inl (Wrap ''invalid latitude'' (LibError ''abc''))"
    unfolding bad_latitude_sms_def by (simp add: parse_eval)
  moreover note bat = C6_numeric_parse_failures [of "''bat=abc''" sample_payload "''bat''" "''abc''"
      sample_lib 11 "t0 + 5 * Second" "[]" "[]" zero_Heartbeat zero_Heartbeat]
  from bat part_samples(3,4) atoi
  have "parse_part sample_lib ''bat=abc'' zero_Heartbeat = Inr zero_Heartbeat" by blast
  moreover from bat sample_payload_keys
  have "isl (ParseHeartbeatSMS sample_lib 11 (t0 + 5 * Second) sample_payload)" by blast
  ultimately show ?thesis
    using mem rej len atoi part_samples sample_payload_keys
    by (simp only: simp_thms list_all_iff)
qed

end
